theory Spec2Isabelle
  imports Complex_Main "HOL-Library.Multiset" "HOL-Library.Word"
begin

unbundle bit_operations_syntax

section \<open>Numbers, vectors and bounding volumes\<close>

text \<open>
  The pipeline builder of \<^verbatim>\<open>builtin-forward-pipeline.ts\<close> computes with JavaScript
  numbers. They are modelled as real numbers: every number is finite and the arithmetic
  is exact. \<^verbatim>\<open>Math.floor\<close>, \<^verbatim>\<open>Math.trunc\<close> and \<^verbatim>\<open>Math.max\<close> return numbers again.
\<close>

definition Math_floor :: "real \<Rightarrow> real" where
  "Math_floor v = of_int \<lfloor>v\<rfloor>"

definition Math_trunc :: "real \<Rightarrow> real" where
  "Math_trunc v = (if 0 \<le> v then of_int \<lfloor>v\<rfloor> else of_int \<lceil>v\<rceil>)"

definition Math_max :: "real \<Rightarrow> real \<Rightarrow> real" where
  "Math_max a b = max a b"

record Vec2 =
  v2_x :: real
  v2_y :: real

record Vec3 =
  v3_x :: real
  v3_y :: real
  v3_z :: real

record Vec4 =
  v4_x :: real
  v4_y :: real
  v4_z :: real
  v4_w :: real

record Sphere =
  sph_center :: Vec3
  sph_radius :: real

record AABB =
  aabb_center :: Vec3
  aabb_halfExtents :: Vec3

type_synonym Mat4 = "real list"

text \<open>\<^verbatim>\<open>Sphere.create(x, y, z, r)\<close> and \<^verbatim>\<open>Sphere.set(out, x, y, z, r)\<close>.\<close>

definition Sphere_create :: "real \<Rightarrow> real \<Rightarrow> real \<Rightarrow> real \<Rightarrow> Sphere" where
  "Sphere_create cx cy cz r = \<lparr>sph_center = \<lparr>v3_x = cx, v3_y = cy, v3_z = cz\<rparr>, sph_radius = r\<rparr>"

definition Sphere_set :: "Sphere \<Rightarrow> real \<Rightarrow> real \<Rightarrow> real \<Rightarrow> real \<Rightarrow> Sphere" where
  "Sphere_set out cx cy cz r =
     out\<lparr>sph_center := \<lparr>v3_x = cx, v3_y = cy, v3_z = cz\<rparr>, sph_radius := r\<rparr>"

text \<open>
  The culling primitives \<^verbatim>\<open>intersect.sphereFrustum\<close>, \<^verbatim>\<open>intersect.aabbFrustum\<close> and
  \<^verbatim>\<open>AABB.transform\<close> are imported from \<^verbatim>\<open>cocos/core/geometry\<close>, and
  \<^verbatim>\<open>Vec3.squaredDistance\<close> from \<^verbatim>\<open>cocos/core\<close>. The light classifier uses them as black
  boxes, so they are parameters of the model; the frustum is a type parameter.
  \<^verbatim>\<open>Vec3_squaredDistance g a b\<close> is the number that \<^verbatim>\<open>Vec3.squaredDistance(a, b)\<close> returns: the
  squared distance as computed in double precision, with its rounding, not the exact one.
  In the same way \<^verbatim>\<open>fmul g a b\<close> is the number that the product \<^verbatim>\<open>a * b\<close> of the native size
  and the shading scale evaluates to: the double-precision product, with its rounding.
\<close>

record 'f Geometry =
  sphereFrustum :: "Sphere \<Rightarrow> 'f \<Rightarrow> bool"
  aabbFrustum :: "AABB \<Rightarrow> 'f \<Rightarrow> bool"
  AABB_transform :: "AABB \<Rightarrow> Mat4 \<Rightarrow> AABB"
  Vec3_squaredDistance :: "Vec3 \<Rightarrow> Vec3 \<Rightarrow> real"
  fmul :: "real \<Rightarrow> real \<Rightarrow> real"

section \<open>Lights and the scene\<close>

datatype LightType = DIRECTIONAL | SPHERE | SPOT | POINT | RANGED_DIRECTIONAL | UNKNOWN

datatype CSMLevel = LEVEL_1 | LEVEL_2 | LEVEL_3 | LEVEL_4

text \<open>The numeric value of a \<^verbatim>\<open>CSMLevel\<close>: the number of cascades.\<close>

fun csm_count :: "CSMLevel \<Rightarrow> nat" where
  "csm_count LEVEL_1 = 1"
| "csm_count LEVEL_2 = 2"
| "csm_count LEVEL_3 = 3"
| "csm_count LEVEL_4 = 4"

record SpotLight =
  spot_position :: Vec3
  spot_range :: real
  spot_baked :: bool
  spot_shadowEnabled :: bool

record SphereLight =
  sphere_position :: Vec3
  sphere_range :: real
  sphere_baked :: bool

record PointLight =
  point_position :: Vec3
  point_range :: real
  point_baked :: bool

text \<open>
  A ranged directional light is read through \<^verbatim>\<open>light.node!.getWorldMatrix()\<close> only; the
  non-null assertion of the source makes the node's matrix a plain field here. The
  \<^verbatim>\<open>baked\<close> flag belongs to every light.
\<close>

record RangedDirectionalLight =
  rdl_worldMatrix :: Mat4
  rdl_baked :: bool

record DirectionalLight =
  dir_shadowEnabled :: bool
  dir_shadowFixedArea :: bool
  dir_csmLevel :: CSMLevel

text \<open>The elements of \<^verbatim>\<open>lights: Light[]\<close>.\<close>

datatype Light =
  LightSpot SpotLight
| LightSphere SphereLight
| LightPoint PointLight
| LightRangedDir RangedDirectionalLight

fun light_type :: "Light \<Rightarrow> LightType" where
  "light_type (LightSpot l) = SPOT"
| "light_type (LightSphere l) = SPHERE"
| "light_type (LightPoint l) = POINT"
| "light_type (LightRangedDir l) = RANGED_DIRECTIONAL"

fun light_baked :: "Light \<Rightarrow> bool" where
  "light_baked (LightSpot l) = spot_baked l"
| "light_baked (LightSphere l) = sphere_baked l"
| "light_baked (LightPoint l) = point_baked l"
| "light_baked (LightRangedDir l) = rdl_baked l"

record RenderScene =
  spotLights :: "SpotLight list"
  sphereLights :: "SphereLight list"
  pointLights :: "PointLight list"
  rangedDirLights :: "RangedDirectionalLight list"
  mainLight :: "DirectionalLight option"

text \<open>Every light of the scene, as an element of \<^verbatim>\<open>Light[]\<close>.\<close>

definition scene_lights :: "RenderScene \<Rightarrow> Light list" where
  "scene_lights scene =
     map LightSpot (spotLights scene) @ map LightSphere (sphereLights scene)
     @ map LightPoint (pointLights scene) @ map LightRangedDir (rangedDirLights scene)"

section \<open>The light classifier \<^verbatim>\<open>ForwardLighting\<close>\<close>

record ForwardLighting =
  lights :: "Light list"
  shadowEnabledSpotLights :: "SpotLight list"
  fl_sphere :: Sphere
  fl_boundingBox :: AABB

definition rangedDirLightBoundingBox :: AABB where
  "rangedDirLightBoundingBox =
     \<lparr>aabb_center = \<lparr>v3_x = 0, v3_y = 0, v3_z = 0\<rparr>,
      aabb_halfExtents = \<lparr>v3_x = 0.5, v3_y = 0.5, v3_z = 0.5\<rparr>\<rparr>"

definition ForwardLighting_new :: ForwardLighting where
  "ForwardLighting_new =
     \<lparr>lights = [], shadowEnabledSpotLights = [],
      fl_sphere = Sphere_create 0 0 0 1,
      fl_boundingBox = \<lparr>aabb_center = \<lparr>v3_x = 0, v3_y = 0, v3_z = 0\<rparr>,
                        aabb_halfExtents = \<lparr>v3_x = 1, v3_y = 1, v3_z = 1\<rparr>\<rparr>\<rparr>"

text \<open>
  \<^verbatim>\<open>Array.prototype.sort(compareFn)\<close> belongs to the language. ECMAScript asks for a stable
  sort; it is modelled as the stable insertion sort that places \<open>a\<close> before \<open>b\<close> when
  \<open>compareFn(a, b) \<le> 0\<close>.
\<close>

fun Array_sort_insert :: "('a \<Rightarrow> 'a \<Rightarrow> real) \<Rightarrow> 'a \<Rightarrow> 'a list \<Rightarrow> 'a list" where
  "Array_sort_insert compareFn a [] = [a]"
| "Array_sort_insert compareFn a (b # bs) =
     (if compareFn a b \<le> 0 then a # b # bs else b # Array_sort_insert compareFn a bs)"

fun Array_sort :: "('a \<Rightarrow> 'a \<Rightarrow> real) \<Rightarrow> 'a list \<Rightarrow> 'a list" where
  "Array_sort compareFn [] = []"
| "Array_sort compareFn (a # as) = Array_sort_insert compareFn a (Array_sort compareFn as)"

text \<open>The bodies of the four \<^verbatim>\<open>for ... of\<close> loops of \<^verbatim>\<open>cullLights\<close>.\<close>

definition cull_spot :: "'f Geometry \<Rightarrow> 'f \<Rightarrow> SpotLight \<Rightarrow> ForwardLighting \<Rightarrow> ForwardLighting" where
  "cull_spot g frustum light fl =
     (if spot_baked light then fl
      else
        let fl1 = fl\<lparr>fl_sphere := Sphere_set (fl_sphere fl)
                     (v3_x (spot_position light)) (v3_y (spot_position light))
                     (v3_z (spot_position light)) (spot_range light)\<rparr>
        in if sphereFrustum g (fl_sphere fl1) frustum
           then (if spot_shadowEnabled light
                 then fl1\<lparr>shadowEnabledSpotLights := shadowEnabledSpotLights fl1 @ [light]\<rparr>
                 else fl1\<lparr>lights := lights fl1 @ [LightSpot light]\<rparr>)
           else fl1)"

definition cull_sphere :: "'f Geometry \<Rightarrow> 'f \<Rightarrow> SphereLight \<Rightarrow> ForwardLighting \<Rightarrow> ForwardLighting" where
  "cull_sphere g frustum light fl =
     (if sphere_baked light then fl
      else
        let fl1 = fl\<lparr>fl_sphere := Sphere_set (fl_sphere fl)
                     (v3_x (sphere_position light)) (v3_y (sphere_position light))
                     (v3_z (sphere_position light)) (sphere_range light)\<rparr>
        in if sphereFrustum g (fl_sphere fl1) frustum
           then fl1\<lparr>lights := lights fl1 @ [LightSphere light]\<rparr>
           else fl1)"

definition cull_point :: "'f Geometry \<Rightarrow> 'f \<Rightarrow> PointLight \<Rightarrow> ForwardLighting \<Rightarrow> ForwardLighting" where
  "cull_point g frustum light fl =
     (if point_baked light then fl
      else
        let fl1 = fl\<lparr>fl_sphere := Sphere_set (fl_sphere fl)
                     (v3_x (point_position light)) (v3_y (point_position light))
                     (v3_z (point_position light)) (point_range light)\<rparr>
        in if sphereFrustum g (fl_sphere fl1) frustum
           then fl1\<lparr>lights := lights fl1 @ [LightPoint light]\<rparr>
           else fl1)"

definition cull_rangedDir ::
  "'f Geometry \<Rightarrow> 'f \<Rightarrow> RangedDirectionalLight \<Rightarrow> ForwardLighting \<Rightarrow> ForwardLighting" where
  "cull_rangedDir g frustum light fl =
     (let fl1 = fl\<lparr>fl_boundingBox :=
                     AABB_transform g rangedDirLightBoundingBox (rdl_worldMatrix light)\<rparr>
      in if aabbFrustum g (fl_boundingBox fl1) frustum
         then fl1\<lparr>lights := lights fl1 @ [LightRangedDir light]\<rparr>
         else fl1)"

text \<open>
  \<^verbatim>\<open>cullLights(scene, frustum, cameraPos?)\<close>: the optional camera position is an option;
  a \<^verbatim>\<open>Vec3\<close> object is always truthy. The comparator is the difference of the two computed
  squared distances; the difference of two finite doubles is negative, zero or positive
  as their exact difference is, so the sort sees the sign of the exact difference.
\<close>

definition cullLights ::
  "'f Geometry \<Rightarrow> RenderScene \<Rightarrow> 'f \<Rightarrow> Vec3 option \<Rightarrow> ForwardLighting \<Rightarrow> ForwardLighting" where
  "cullLights g scene frustum cameraPos fl =
     (let fl0 = fl\<lparr>lights := [], shadowEnabledSpotLights := []\<rparr>;
          fl1 = fold (cull_spot g frustum) (spotLights scene) fl0;
          fl2 = fold (cull_sphere g frustum) (sphereLights scene) fl1;
          fl3 = fold (cull_point g frustum) (pointLights scene) fl2;
          fl4 = fold (cull_rangedDir g frustum) (rangedDirLights scene) fl3
      in case cameraPos of
           None \<Rightarrow> fl4
         | Some pos \<Rightarrow>
             fl4\<lparr>shadowEnabledSpotLights :=
                   Array_sort (\<lambda>lhs rhs. Vec3_squaredDistance g pos (spot_position lhs)
                                         - Vec3_squaredDistance g pos (spot_position rhs))
                     (shadowEnabledSpotLights fl4)\<rparr>)"

section \<open>Cascaded shadow map viewports\<close>

record Viewport =
  vp_left :: real
  vp_top :: real
  vp_width :: real
  vp_height :: real

text \<open>
  \<^verbatim>\<open>getCsmMainLightViewport\<close> writes into the viewport it is given; the model returns the
  viewport. \<open>level\<close> is the counter of the cascade loop, a natural number.
\<close>

definition getCsmMainLightViewport ::
  "DirectionalLight \<Rightarrow> real \<Rightarrow> real \<Rightarrow> nat \<Rightarrow> Viewport \<Rightarrow> real \<Rightarrow> Viewport" where
  "getCsmMainLightViewport light w h level vp screenSpaceSignY =
     (let vp1 =
        (if dir_shadowFixedArea light \<or> dir_csmLevel light = LEVEL_1
         then vp\<lparr>vp_left := 0, vp_top := 0,
                 vp_width := Math_trunc w, vp_height := Math_trunc h\<rparr>
         else vp\<lparr>vp_left := Math_trunc (real (level mod 2) * 0.5 * w),
                 vp_top := (if screenSpaceSignY > 0
                            then Math_trunc ((1 - Math_floor (real level / 2)) * 0.5 * h)
                            else Math_trunc (Math_floor (real level / 2) * 0.5 * h)),
                 vp_width := Math_trunc (0.5 * w),
                 vp_height := Math_trunc (0.5 * h)\<rparr>)
      in vp1\<lparr>vp_left := Math_max 0 (vp_left vp1),
             vp_top := Math_max 0 (vp_top vp1),
             vp_width := Math_max 1 (vp_width vp1),
             vp_height := Math_max 1 (vp_height vp1)\<rparr>)"

section \<open>Capability snapshot and camera policy\<close>

datatype Format = BGRA8 | RGBA8 | RGBA16F | R32F | Format_DEPTH_STENCIL

datatype FormatFeatureBit = SAMPLED_TEXTURE | LINEAR_FILTER | RENDER_TARGET | STORAGE_TEXTURE

datatype CameraUsage = EDITOR | GAME_VIEW | SCENE_VIEW | PREVIEW | GAME

record DepthOfField =
  dof_enabled :: bool
  dof_focusDistance :: real
  dof_focusRange :: real
  dof_bokehRadius :: real

text \<open>The number of bloom iterations is a count: a natural number.\<close>

record Bloom =
  bloom_enabled :: bool
  bloom_iterations :: nat
  bloom_threshold :: real
  bloom_enableAlphaMask :: bool

record PipelineSettings =
  ps_enableShadingScale :: bool
  ps_shadingScale :: real
  ps_depthOfField :: DepthOfField
  ps_bloom :: Bloom
  ps_fxaa_enabled :: bool

record RenderWindow =
  win_width :: real
  win_height :: real
  win_renderWindowId :: nat
  win_colorName :: string
  win_depthStencilName :: string
  win_swapchain :: bool

text \<open>
  A camera. \<^verbatim>\<open>scene\<close> and \<^verbatim>\<open>window\<close> can be null (\<^verbatim>\<open>setup\<close> tests both);
  \<^verbatim>\<open>win_swapchain\<close> is the truth value of \<^verbatim>\<open>window.swapchain\<close>. The clear flag is a
  bit mask.
\<close>

record 'f Camera =
  cam_scene :: "RenderScene option"
  cam_window :: "RenderWindow option"
  cam_cameraUsage :: CameraUsage
  cam_usePostProcess :: bool
  cam_pipelineSettings :: "PipelineSettings option"
  cam_clearFlag :: nat
  cam_clearColor :: Vec4
  cam_clearDepth :: real
  cam_clearStencil :: real
  cam_viewport :: Vec4
  cam_position :: Vec3
  cam_frustum :: 'f

text \<open>
  The bits of \<^verbatim>\<open>ClearFlagBit\<close>, declared in \<^verbatim>\<open>gfx/base/define\<close>.
\<close>

definition ClearFlagBit_COLOR :: nat where "ClearFlagBit_COLOR = 1"
definition ClearFlagBit_DEPTH :: nat where "ClearFlagBit_DEPTH = 2"
definition ClearFlagBit_STENCIL :: nat where "ClearFlagBit_STENCIL = 4"
definition ClearFlagBit_DEPTH_STENCIL :: nat where "ClearFlagBit_DEPTH_STENCIL = 6"

definition forwardNeedClearColor :: "'f Camera \<Rightarrow> bool" where
  "forwardNeedClearColor camera =
     (cam_clearFlag camera AND (ClearFlagBit_COLOR OR push_bit 1 ClearFlagBit_STENCIL) \<noteq> 0)"

record PipelineConfigs =
  isMobile :: bool
  isHDR :: bool
  useFloatOutput :: bool
  toneMappingType :: nat
  shadowMapFormat :: Format
  shadowMapSize :: Vec2
  screenSpaceSignY :: real
  supportDepthSample :: bool
  mobileMaxSpotLightShadowMaps :: nat
  g_platform :: Vec4

definition PipelineConfigs_new :: PipelineConfigs where
  "PipelineConfigs_new =
     \<lparr>isMobile = False, isHDR = False, useFloatOutput = False, toneMappingType = 0,
      shadowMapFormat = R32F, shadowMapSize = \<lparr>v2_x = 1, v2_y = 1\<rparr>,
      screenSpaceSignY = 1, supportDepthSample = False,
      mobileMaxSpotLightShadowMaps = 1,
      g_platform = \<lparr>v4_x = 0, v4_y = 0, v4_z = 0, v4_w = 0\<rparr>\<rparr>"

record CameraConfigs =
  enableShadowMap :: bool
  enablePostProcess :: bool
  enableProfiler :: bool
  enableShadingScale :: bool
  shadingScale :: real
  pipelineSettings :: "PipelineSettings option"

definition CameraConfigs_new :: CameraConfigs where
  "CameraConfigs_new =
     \<lparr>enableShadowMap = False, enablePostProcess = False, enableProfiler = False,
      enableShadingScale = False, shadingScale = 0.5, pipelineSettings = None\<rparr>"

text \<open>
  What the builder reads from outside the file: the build constant \<^verbatim>\<open>DEBUG\<close>,
  \<^verbatim>\<open>sys.isMobile\<close>, the editor's \<^verbatim>\<open>getEditorPipelineSettings()\<close> and
  \<^verbatim>\<open>getEditorPipelineCamera()\<close>, and whether the effect asset of a given name is
  loaded (what \<^verbatim>\<open>Material.initialize\<close> finds).
\<close>

record 'f Host =
  host_DEBUG :: bool
  host_isMobile :: bool
  host_editorPipelineSettings :: "PipelineSettings option"
  host_editorPipelineCamera :: "'f Camera option"
  host_effectLoaded :: "string \<Rightarrow> bool"

datatype error = TypeError

text \<open>
  \<^verbatim>\<open>setupCameraConfigs\<close> writes every field of the camera policy. It reads
  \<^verbatim>\<open>camera.window.swapchain\<close> when the usage is \<^verbatim>\<open>GAME\<close>: on a null window that is a
  \<^verbatim>\<open>TypeError\<close>.
\<close>

definition setupCameraConfigs ::
  "'f Host \<Rightarrow> 'f Camera \<Rightarrow> PipelineConfigs \<Rightarrow> CameraConfigs \<Rightarrow> error + CameraConfigs" where
  "setupCameraConfigs host camera pipelineConfigs cameraConfigs =
     (if cam_cameraUsage camera = GAME \<and> cam_window camera = None then Inl TypeError
      else
        let c1 = cameraConfigs\<lparr>enableShadowMap :=
                   (case cam_scene camera of
                      Some scene \<Rightarrow>
                        (case mainLight scene of
                           Some ml \<Rightarrow> dir_shadowEnabled ml
                         | None \<Rightarrow> False)
                    | None \<Rightarrow> False)\<rparr>;
            isMainGameWindow =
              (cam_cameraUsage camera = GAME
               \<and> (case cam_window camera of Some w \<Rightarrow> win_swapchain w | None \<Rightarrow> False));
            isEditorView =
              (cam_cameraUsage camera = SCENE_VIEW \<or> cam_cameraUsage camera = PREVIEW);
            c2 = c1\<lparr>enablePostProcess :=
                      useFloatOutput pipelineConfigs \<and> cam_usePostProcess camera
                      \<and> (isMainGameWindow \<or> isEditorView)\<rparr>;
            c3 = c2\<lparr>enableProfiler := host_DEBUG host \<and> isMainGameWindow\<rparr>;
            c4 = c3\<lparr>pipelineSettings := cam_pipelineSettings camera\<rparr>;
            c5 =
              (if isEditorView
               then
                 (let c4a = c4\<lparr>pipelineSettings := host_editorPipelineSettings host\<rparr>
                  in if pipelineSettings c4a \<noteq> None
                     then c4a\<lparr>enablePostProcess :=
                                useFloatOutput pipelineConfigs
                                \<and> (case host_editorPipelineCamera host of
                                      Some pipelineCamera \<Rightarrow> cam_usePostProcess pipelineCamera
                                    | None \<Rightarrow> False)\<rparr>
                     else c4a\<lparr>enablePostProcess := False\<rparr>)
               else c4);
            c6 = c5\<lparr>enableShadingScale :=
                      (case pipelineSettings c5 of
                         Some s \<Rightarrow> ps_enableShadingScale s
                       | None \<Rightarrow> False)\<rparr>;
            c7 = c6\<lparr>shadingScale :=
                      (case pipelineSettings c6 of
                         Some s \<Rightarrow> ps_shadingScale s
                       | None \<Rightarrow> 1.0)\<rparr>
        in Inr c7)"

section \<open>The render graph builder\<close>

text \<open>
  The builder (\<^verbatim>\<open>BasicPipeline\<close>, \<^verbatim>\<open>BasicRenderPassBuilder\<close>) is implemented outside the
  file. The model records what the file asks of it: the declared resources and the
  passes, in the order of the calls, each pass with its attachments, textures,
  parameters and queues. A pass builder is the index of its pass; a queue is recorded
  when the source has finished populating it.
\<close>

datatype LoadOp = LOAD | CLEAR | LoadOp_DISCARD

datatype StoreOp = STORE | DISCARD

datatype QueueHint = QueueHint_NONE | QueueHint_OPAQUE | QueueHint_BLEND

datatype SceneFlag = SF_OPAQUE | SF_MASK | SF_BLEND | SF_SHADOW_CASTER | SF_UI | SF_PROFILER

datatype MaterialRef = CopyAndTonemapMaterial | DofMaterial | BloomMaterial | FxaaMaterial

datatype AnyLight = AdditiveLight Light | MainLight DirectionalLight

text \<open>
  \<^verbatim>\<open>addScene(camera, flags, light?)\<close>, optionally followed by
  \<^verbatim>\<open>useLightFrustum(light, level?)\<close>; \<^verbatim>\<open>addFullscreenQuad(material, passID)\<close>;
  \<^verbatim>\<open>addCameraQuad(camera, material, passID)\<close>. The camera is the one being built.
\<close>

datatype QueueItem =
  SceneItem "SceneFlag set" "AnyLight option" "(AnyLight \<times> nat option) option"
| FullscreenQuad MaterialRef nat
| CameraQuad MaterialRef nat

record Queue =
  q_hint :: QueueHint
  q_phaseName :: "string option"
  q_name :: string
  q_viewport :: "Viewport option"
  q_items :: "QueueItem list"

record RenderTargetAttachment =
  rt_name :: string
  rt_loadOp :: LoadOp
  rt_storeOp :: "StoreOp option"
  rt_clearColor :: "Vec4 option"

record DepthStencilAttachment =
  ds_name :: string
  ds_loadOp :: LoadOp
  ds_storeOp :: "StoreOp option"
  ds_depth :: "real option"
  ds_stencil :: "real option"
  ds_clearFlags :: "nat option"

record RenderPass =
  pass_layout :: string
  pass_name :: string
  pass_width :: real
  pass_height :: real
  pass_viewport :: "Viewport option"
  pass_renderTargets :: "RenderTargetAttachment list"
  pass_depthStencils :: "DepthStencilAttachment list"
  pass_textures :: "(string \<times> string) list"
  pass_vec4s :: "(string \<times> Vec4) list"
  pass_queues :: "Queue list"
  pass_showStatistics :: bool

datatype ResourceKind = RenderWindowResource | RenderTargetResource | DepthStencilResource

record Resource =
  res_kind :: ResourceKind
  res_name :: string
  res_format :: Format
  res_width :: real
  res_height :: real

text \<open>
  \<^verbatim>\<open>BasicPipeline\<close>: what the file reads from it (scene data, device capabilities, the
  macro) and what it has been asked to build.
\<close>

record BasicPipeline =
  ppl_isHDR :: bool
  ppl_macro_USE_FLOAT_OUTPUT :: bool
  ppl_toneMappingType :: nat
  ppl_supportsR32FloatTexture :: bool
  ppl_shadows_size :: Vec2
  ppl_csmSupported :: bool
  ppl_screenSpaceSignY :: real
  ppl_clipSpaceSignY :: real
  ppl_depthStencilFeatures :: "FormatFeatureBit set"
  ppl_resources :: "Resource list"
  ppl_passes :: "RenderPass list"

definition addResource :: "ResourceKind \<Rightarrow> string \<Rightarrow> Format \<Rightarrow> real \<Rightarrow> real \<Rightarrow> BasicPipeline \<Rightarrow> BasicPipeline" where
  "addResource k n f w h ppl =
     ppl\<lparr>ppl_resources := ppl_resources ppl
            @ [\<lparr>res_kind = k, res_name = n, res_format = f, res_width = w, res_height = h\<rparr>]\<rparr>"

definition addRenderPass :: "real \<Rightarrow> real \<Rightarrow> string \<Rightarrow> BasicPipeline \<Rightarrow> nat \<times> BasicPipeline" where
  "addRenderPass w h layout ppl =
     (length (ppl_passes ppl),
      ppl\<lparr>ppl_passes := ppl_passes ppl
            @ [\<lparr>pass_layout = layout, pass_name = [], pass_width = w, pass_height = h,
                pass_viewport = None, pass_renderTargets = [], pass_depthStencils = [],
                pass_textures = [], pass_vec4s = [], pass_queues = [],
                pass_showStatistics = False\<rparr>]\<rparr>)"

definition update_pass :: "nat \<Rightarrow> (RenderPass \<Rightarrow> RenderPass) \<Rightarrow> BasicPipeline \<Rightarrow> BasicPipeline" where
  "update_pass p f ppl = ppl\<lparr>ppl_passes := (ppl_passes ppl)[p := f (ppl_passes ppl ! p)]\<rparr>"

definition pass_setName :: "nat \<Rightarrow> string \<Rightarrow> BasicPipeline \<Rightarrow> BasicPipeline" where
  "pass_setName p n = update_pass p (\<lambda>r. r\<lparr>pass_name := n\<rparr>)"

definition pass_setViewport :: "nat \<Rightarrow> Viewport \<Rightarrow> BasicPipeline \<Rightarrow> BasicPipeline" where
  "pass_setViewport p vp = update_pass p (\<lambda>r. r\<lparr>pass_viewport := Some vp\<rparr>)"

definition pass_addRenderTarget ::
  "nat \<Rightarrow> string \<Rightarrow> LoadOp \<Rightarrow> StoreOp option \<Rightarrow> Vec4 option \<Rightarrow> BasicPipeline \<Rightarrow> BasicPipeline" where
  "pass_addRenderTarget p n l s c =
     update_pass p (\<lambda>r. r\<lparr>pass_renderTargets := pass_renderTargets r
        @ [\<lparr>rt_name = n, rt_loadOp = l, rt_storeOp = s, rt_clearColor = c\<rparr>]\<rparr>)"

definition pass_addDepthStencil ::
  "nat \<Rightarrow> string \<Rightarrow> LoadOp \<Rightarrow> StoreOp option \<Rightarrow> real option \<Rightarrow> real option \<Rightarrow> nat option
     \<Rightarrow> BasicPipeline \<Rightarrow> BasicPipeline" where
  "pass_addDepthStencil p n l s d st cf =
     update_pass p (\<lambda>r. r\<lparr>pass_depthStencils := pass_depthStencils r
        @ [\<lparr>ds_name = n, ds_loadOp = l, ds_storeOp = s, ds_depth = d, ds_stencil = st,
            ds_clearFlags = cf\<rparr>]\<rparr>)"

definition pass_addTexture :: "nat \<Rightarrow> string \<Rightarrow> string \<Rightarrow> BasicPipeline \<Rightarrow> BasicPipeline" where
  "pass_addTexture p n slot = update_pass p (\<lambda>r. r\<lparr>pass_textures := pass_textures r @ [(n, slot)]\<rparr>)"

definition pass_setVec4 :: "nat \<Rightarrow> string \<Rightarrow> Vec4 \<Rightarrow> BasicPipeline \<Rightarrow> BasicPipeline" where
  "pass_setVec4 p n v = update_pass p (\<lambda>r. r\<lparr>pass_vec4s := pass_vec4s r @ [(n, v)]\<rparr>)"

definition pass_addQueue :: "nat \<Rightarrow> Queue \<Rightarrow> BasicPipeline \<Rightarrow> BasicPipeline" where
  "pass_addQueue p q = update_pass p (\<lambda>r. r\<lparr>pass_queues := pass_queues r @ [q]\<rparr>)"

definition pass_setShowStatistics :: "nat \<Rightarrow> bool \<Rightarrow> BasicPipeline \<Rightarrow> BasicPipeline" where
  "pass_setShowStatistics p b = update_pass p (\<lambda>r. r\<lparr>pass_showStatistics := b\<rparr>)"

text \<open>A queue holding one item, as every queue of the file does.\<close>

definition queue1 :: "QueueHint \<Rightarrow> string option \<Rightarrow> string \<Rightarrow> Viewport option \<Rightarrow> QueueItem \<Rightarrow> Queue" where
  "queue1 hint phase n vp item =
     \<lparr>q_hint = hint, q_phaseName = phase, q_name = n, q_viewport = vp, q_items = [item]\<rparr>"

text \<open>The decimal digits of a number, for the template strings \<^verbatim>\<open>`Radiance${id}`\<close>.\<close>

fun num_string :: "nat \<Rightarrow> string" where
  "num_string n =
     (if n < 10 then [char_of (48 + n)]
      else num_string (n div 10) @ [char_of (48 + n mod 10)])"

declare num_string.simps [simp del]

text \<open>
  \<^verbatim>\<open>setupPipelineConfigs\<close>. The two operands of \<^verbatim>\<open><<\<close> and \<^verbatim>\<open>|\<close> are converted to 32-bit
  integers (truncation, then wrap-around).
\<close>

definition ToInt32 :: "real \<Rightarrow> 32 word" where
  "ToInt32 v = word_of_int (if 0 \<le> v then \<lfloor>v\<rfloor> else \<lceil>v\<rceil>)"

definition setupPipelineConfigs :: "'f Host \<Rightarrow> BasicPipeline \<Rightarrow> PipelineConfigs \<Rightarrow> PipelineConfigs" where
  "setupPipelineConfigs host ppl configs =
     (let sampleFeature = {SAMPLED_TEXTURE, LINEAR_FILTER};
          c1 = configs\<lparr>isMobile := host_isMobile host,
                       isHDR := ppl_isHDR ppl,
                       useFloatOutput := ppl_macro_USE_FLOAT_OUTPUT ppl,
                       toneMappingType := ppl_toneMappingType ppl,
                       shadowMapFormat := (if ppl_supportsR32FloatTexture ppl then R32F else RGBA8),
                       shadowMapSize := ppl_shadows_size ppl,
                       screenSpaceSignY := ppl_screenSpaceSignY ppl,
                       supportDepthSample :=
                         (ppl_depthStencilFeatures ppl \<inter> sampleFeature = sampleFeature)\<rparr>
      in c1\<lparr>g_platform := (g_platform c1)
              \<lparr>v4_x := (if isMobile c1 then 1.0 else 0.0),
               v4_w := real_of_int (sint
                 (push_bit 1 (ToInt32 (ppl_screenSpaceSignY ppl * 0.5 + 0.5))
                  OR ToInt32 (ppl_clipSpaceSignY ppl * 0.5 + 0.5)))\<rparr>\<rparr>)"

section \<open>The pipeline builder \<^verbatim>\<open>BuiltinForwardPipeline\<close>\<close>

record Material =
  mat_uuid :: string
  mat_effectName :: string
  mat_effectAsset :: bool
  mat_properties :: "(string \<times> Vec4) list"

definition Material_new :: Material where
  "Material_new = \<lparr>mat_uuid = [], mat_effectName = [], mat_effectAsset = False, mat_properties = []\<rparr>"


definition Material_setProperty :: "string \<Rightarrow> Vec4 \<Rightarrow> Material \<Rightarrow> Material" where
  "Material_setProperty n v m = m\<lparr>mat_properties := mat_properties m @ [(n, v)]\<rparr>"

record BuiltinForwardPipeline =
  bfp_clearColor :: Vec4
  bfp_clearColorOpaqueBlack :: Vec4
  bfp_viewport :: Viewport
  bfp_configs :: PipelineConfigs
  bfp_cameraConfigs :: CameraConfigs
  bfp_cocParams :: Vec4
  bfp_cocTexSize :: Vec4
  bfp_bloomParams :: Vec4
  bfp_bloomTexSize :: Vec4
  bfp_bloomWidths :: "real list"
  bfp_bloomHeights :: "real list"
  bfp_bloomTexNames :: "string list"
  bfp_copyAndTonemapMaterial :: Material
  bfp_dofMaterial :: Material
  bfp_bloomMaterial :: Material
  bfp_fxaaMaterial :: Material
  bfp_initialized :: bool
  bfp_forwardLighting :: ForwardLighting

definition Vec4_new :: "real \<Rightarrow> real \<Rightarrow> real \<Rightarrow> real \<Rightarrow> Vec4" where
  "Vec4_new a b c d = \<lparr>v4_x = a, v4_y = b, v4_z = c, v4_w = d\<rparr>"

definition BuiltinForwardPipeline_new :: BuiltinForwardPipeline where
  "BuiltinForwardPipeline_new =
     \<lparr>bfp_clearColor = Vec4_new 0 0 0 1,
      bfp_clearColorOpaqueBlack = Vec4_new 0 0 0 0,
      bfp_viewport = \<lparr>vp_left = 0, vp_top = 0, vp_width = 0, vp_height = 0\<rparr>,
      bfp_configs = PipelineConfigs_new,
      bfp_cameraConfigs = CameraConfigs_new,
      bfp_cocParams = Vec4_new 0 0 0 0,
      bfp_cocTexSize = Vec4_new 0 0 0 0,
      bfp_bloomParams = Vec4_new 0 0 0 0,
      bfp_bloomTexSize = Vec4_new 0 0 0 0,
      bfp_bloomWidths = [],
      bfp_bloomHeights = [],
      bfp_bloomTexNames = [],
      bfp_copyAndTonemapMaterial = Material_new,
      bfp_dofMaterial = Material_new,
      bfp_bloomMaterial = Material_new,
      bfp_fxaaMaterial = Material_new,
      bfp_initialized = False,
      bfp_forwardLighting = ForwardLighting_new\<rparr>"

subsection \<open>Passes of the light classifier\<close>

definition addLightQueues :: "ForwardLighting \<Rightarrow> 'f Camera \<Rightarrow> nat \<Rightarrow> BasicPipeline \<Rightarrow> BasicPipeline" where
  "addLightQueues fl camera pass ppl =
     fold (\<lambda>light.
        pass_addQueue pass
          (queue1 QueueHint_BLEND (Some ''forward-add'')
             (case light_type light of
                SPHERE \<Rightarrow> ''sphere-light''
              | SPOT \<Rightarrow> ''spot-light''
              | POINT \<Rightarrow> ''point-light''
              | RANGED_DIRECTIONAL \<Rightarrow> ''ranged-directional-light''
              | _ \<Rightarrow> ''unknown-light'')
             None (SceneItem {SF_BLEND} (Some (AdditiveLight light)) None)))
       (lights fl) ppl"

text \<open>
  The loop of \<^verbatim>\<open>addMobileShadowPasses\<close>: \<open>i\<close> counts the lights handled so far, and the
  loop breaks once \<open>i \<ge> maxNumShadowMaps\<close> after a light has been handled.
\<close>

fun addMobileShadowPasses_loop ::
  "nat \<Rightarrow> nat \<Rightarrow> SpotLight list \<Rightarrow> BasicPipeline \<Rightarrow> BasicPipeline" where
  "addMobileShadowPasses_loop maxNumShadowMaps i [] ppl = ppl"
| "addMobileShadowPasses_loop maxNumShadowMaps i (light # rest) ppl =
     (let shadowMapSize = ppl_shadows_size ppl;
          (shadowPass, ppl1) = addRenderPass (v2_x shadowMapSize) (v2_y shadowMapSize) ''default'' ppl;
          ppl2 = pass_setName shadowPass (''SpotLightShadowPass'' @ num_string i) ppl1;
          ppl3 = pass_addRenderTarget shadowPass (''SpotShadowMap'' @ num_string i)
                   CLEAR (Some STORE) (Some (Vec4_new 1 1 1 1)) ppl2;
          ppl4 = pass_addDepthStencil shadowPass (''SpotShadowDepth'' @ num_string i)
                   CLEAR (Some DISCARD) None None None ppl3;
          ppl5 = pass_addQueue shadowPass
                   (queue1 QueueHint_NONE (Some ''shadow-caster'') [] None
                      (SceneItem {SF_OPAQUE, SF_MASK, SF_SHADOW_CASTER} None
                         (Some (AdditiveLight (LightSpot light), None)))) ppl4;
          i1 = i + 1
      in if i1 \<ge> maxNumShadowMaps then ppl5
         else addMobileShadowPasses_loop maxNumShadowMaps i1 rest ppl5)"

definition addMobileShadowPasses ::
  "ForwardLighting \<Rightarrow> BasicPipeline \<Rightarrow> 'f Camera \<Rightarrow> nat \<Rightarrow> BasicPipeline" where
  "addMobileShadowPasses fl ppl camera maxNumShadowMaps =
     addMobileShadowPasses_loop maxNumShadowMaps 0 (shadowEnabledSpotLights fl) ppl"

fun addMobileLightQueues_loop ::
  "nat \<Rightarrow> nat \<Rightarrow> nat \<Rightarrow> SpotLight list \<Rightarrow> BasicPipeline \<Rightarrow> BasicPipeline" where
  "addMobileLightQueues_loop pass maxNumShadowMaps i [] ppl = ppl"
| "addMobileLightQueues_loop pass maxNumShadowMaps i (light # rest) ppl =
     (let ppl1 = pass_addTexture pass (''SpotShadowMap'' @ num_string i) ''cc_spotShadowMap'' ppl;
          ppl2 = pass_addQueue pass
                   (queue1 QueueHint_BLEND (Some ''forward-add'') [] None
                      (SceneItem {SF_BLEND} (Some (AdditiveLight (LightSpot light))) None)) ppl1;
          i1 = i + 1
      in if i1 \<ge> maxNumShadowMaps then ppl2
         else addMobileLightQueues_loop pass maxNumShadowMaps i1 rest ppl2)"

definition addMobileLightQueues ::
  "ForwardLighting \<Rightarrow> nat \<Rightarrow> 'f Camera \<Rightarrow> nat \<Rightarrow> BasicPipeline \<Rightarrow> BasicPipeline" where
  "addMobileLightQueues fl pass camera maxNumShadowMaps ppl =
     addMobileLightQueues_loop pass maxNumShadowMaps 0 (shadowEnabledSpotLights fl)
       (addLightQueues fl camera pass ppl)"

text \<open>
  The body of the loop of \<^verbatim>\<open>addLightPasses\<close>: a shadow-caster pass for the light, then a
  new lighting pass, which becomes \<^verbatim>\<open>pass\<close>.
\<close>

definition addLightPasses_step ::
  "string \<Rightarrow> string \<Rightarrow> nat \<Rightarrow> real \<Rightarrow> real \<Rightarrow> SpotLight \<Rightarrow> nat \<times> BasicPipeline \<Rightarrow> nat \<times> BasicPipeline" where
  "addLightPasses_step colorName depthStencilName ident width height light acc =
     (let ppl = snd acc;
          shadowMapSize = ppl_shadows_size ppl;
          (shadowPass, ppl1) = addRenderPass (v2_x shadowMapSize) (v2_y shadowMapSize) ''default'' ppl;
          ppl2 = pass_setName shadowPass ''SpotlightShadowPass'' ppl1;
          ppl3 = pass_addRenderTarget shadowPass (''ShadowMap'' @ num_string ident)
                   CLEAR (Some STORE) (Some (Vec4_new 1 1 1 1)) ppl2;
          ppl4 = pass_addDepthStencil shadowPass (''ShadowDepth'' @ num_string ident)
                   CLEAR (Some DISCARD) None None None ppl3;
          ppl5 = pass_addQueue shadowPass
                   (queue1 QueueHint_NONE (Some ''shadow-caster'') [] None
                      (SceneItem {SF_OPAQUE, SF_MASK, SF_SHADOW_CASTER} None
                         (Some (AdditiveLight (LightSpot light), None)))) ppl4;
          (pass, ppl6) = addRenderPass width height ''default'' ppl5;
          ppl7 = pass_setName pass ''SpotlightWithShadowMap'' ppl6;
          ppl8 = pass_addRenderTarget pass colorName LOAD None None ppl7;
          ppl9 = pass_addDepthStencil pass depthStencilName LOAD None None None None ppl8;
          ppl10 = pass_addTexture pass (''ShadowMap'' @ num_string ident) ''cc_spotShadowMap'' ppl9;
          ppl11 = pass_addQueue pass
                    (queue1 QueueHint_BLEND (Some ''forward-add'') [] None
                       (SceneItem {SF_BLEND} (Some (AdditiveLight (LightSpot light))) None)) ppl10
      in (pass, ppl11))"

definition addLightPasses ::
  "ForwardLighting \<Rightarrow> string \<Rightarrow> string \<Rightarrow> nat \<Rightarrow> real \<Rightarrow> real \<Rightarrow> 'f Camera \<Rightarrow> BasicPipeline \<Rightarrow> nat
     \<Rightarrow> nat \<times> BasicPipeline" where
  "addLightPasses fl colorName depthStencilName ident width height camera ppl pass =
     fold (addLightPasses_step colorName depthStencilName ident width height)
       (shadowEnabledSpotLights fl) (pass, addLightQueues fl camera pass ppl)"

subsection \<open>Resource planner\<close>

definition windowResize_spot ::
  "PipelineConfigs \<Rightarrow> nat \<Rightarrow> BasicPipeline \<Rightarrow> BasicPipeline" where
  "windowResize_spot configs i ppl =
     addResource DepthStencilResource (''SpotShadowDepth'' @ num_string i) Format_DEPTH_STENCIL
       (v2_x (shadowMapSize configs)) (v2_y (shadowMapSize configs))
       (addResource RenderTargetResource (''SpotShadowMap'' @ num_string i) (shadowMapFormat configs)
          (v2_x (shadowMapSize configs)) (v2_y (shadowMapSize configs)) ppl)"

definition windowResize_bloom ::
  "nat \<Rightarrow> nat \<Rightarrow> real \<times> real \<times> BasicPipeline \<Rightarrow> real \<times> real \<times> BasicPipeline" where
  "windowResize_bloom ident i acc =
     (let bloomWidth = Math_max (Math_floor (fst acc / 2)) 1;
          bloomHeight = Math_max (Math_floor (fst (snd acc) / 2)) 1
      in (bloomWidth, bloomHeight,
          addResource RenderTargetResource (''BloomTex'' @ num_string ident @ ''_'' @ num_string i)
            RGBA16F bloomWidth bloomHeight (snd (snd acc))))"

definition windowResize_postProcess ::
  "CameraConfigs \<Rightarrow> PipelineSettings \<Rightarrow> nat \<Rightarrow> real \<Rightarrow> real \<Rightarrow> BasicPipeline \<Rightarrow> BasicPipeline" where
  "windowResize_postProcess cc settings ident width height ppl =
     (let ppl1 = (if ps_fxaa_enabled settings \<or> dof_enabled (ps_depthOfField settings)
                  then addResource RenderTargetResource (''LdrColor'' @ num_string ident) RGBA8 width height ppl
                  else ppl);
          ppl2 = (if ps_fxaa_enabled settings \<and> enableShadingScale cc
                  then addResource RenderTargetResource (''AaColor'' @ num_string ident) RGBA8 width height ppl1
                  else ppl1);
          ppl3 = (if dof_enabled (ps_depthOfField settings)
                  then
                    (let halfWidth = Math_max (Math_floor (width / 2)) 1;
                         halfHeight = Math_max (Math_floor (height / 2)) 1
                     in addResource RenderTargetResource (''DofFilter'' @ num_string ident) RGBA16F halfWidth halfHeight
                          (addResource RenderTargetResource (''DofBokeh'' @ num_string ident) RGBA16F halfWidth halfHeight
                             (addResource RenderTargetResource (''DofPrefilter'' @ num_string ident) RGBA16F halfWidth halfHeight
                                (addResource RenderTargetResource (''DofRadiance'' @ num_string ident) RGBA16F width height ppl2))))
                  else ppl2)
      in if bloom_enabled (ps_bloom settings)
         then snd (snd (fold (windowResize_bloom ident)
                          [0 ..< bloom_iterations (ps_bloom settings) + 1] (width, height, ppl3)))
         else ppl3)"

definition windowResize ::
  "'f Geometry \<Rightarrow> 'f Host \<Rightarrow> BuiltinForwardPipeline \<Rightarrow> BasicPipeline \<Rightarrow> RenderWindow \<Rightarrow> 'f Camera \<Rightarrow> real \<Rightarrow> real
     \<Rightarrow> error + (BuiltinForwardPipeline \<times> BasicPipeline)" where
  "windowResize g host this ppl window camera nativeWidth nativeHeight =
     (let this1 = this\<lparr>bfp_configs := setupPipelineConfigs host ppl (bfp_configs this)\<rparr>
      in case setupCameraConfigs host camera (bfp_configs this1) (bfp_cameraConfigs this1) of
           Inl e \<Rightarrow> Inl e
         | Inr cc \<Rightarrow>
             (let this2 = this1\<lparr>bfp_cameraConfigs := cc\<rparr>;
                  configs = bfp_configs this2;
                  settings = pipelineSettings cc;
                  ident = win_renderWindowId window;
                  width = (if enableShadingScale cc
                           then Math_max (Math_floor (fmul g nativeWidth (shadingScale cc))) 1
                           else nativeWidth);
                  height = (if enableShadingScale cc
                            then Math_max (Math_floor (fmul g nativeHeight (shadingScale cc))) 1
                            else nativeHeight);
                  ppl1 = addResource RenderWindowResource (win_colorName window) BGRA8 nativeWidth nativeHeight ppl;
                  ppl2 = (if useFloatOutput configs
                          then addResource RenderTargetResource (''Radiance'' @ num_string ident) RGBA16F width height ppl1
                          else if enableShadingScale cc
                          then addResource RenderTargetResource (''Radiance'' @ num_string ident) RGBA8 width height ppl1
                          else ppl1);
                  ppl3 = addResource DepthStencilResource (win_depthStencilName window)
                           Format_DEPTH_STENCIL width height ppl2;
                  ppl4 = addResource RenderTargetResource (''ShadowMap'' @ num_string ident)
                           (shadowMapFormat configs)
                           (v2_x (shadowMapSize configs)) (v2_y (shadowMapSize configs)) ppl3;
                  ppl5 = addResource DepthStencilResource (''ShadowDepth'' @ num_string ident)
                           Format_DEPTH_STENCIL
                           (v2_x (shadowMapSize configs)) (v2_y (shadowMapSize configs)) ppl4;
                  ppl6 = (if isMobile configs
                          then fold (windowResize_spot configs)
                                 [0 ..< mobileMaxSpotLightShadowMaps configs] ppl5
                          else ppl5);
                  ppl7 = (case settings of
                            Some s \<Rightarrow>
                              (if enablePostProcess cc
                               then windowResize_postProcess cc s ident width height ppl6
                               else ppl6)
                          | None \<Rightarrow> ppl6)
              in Inr (this2, ppl7)))"

subsection \<open>Common passes\<close>

definition addCascadedShadowMapPass_level ::
  "nat \<Rightarrow> DirectionalLight \<Rightarrow> real \<Rightarrow> real \<Rightarrow> nat
     \<Rightarrow> BuiltinForwardPipeline \<times> BasicPipeline \<Rightarrow> BuiltinForwardPipeline \<times> BasicPipeline" where
  "addCascadedShadowMapPass_level pass light width height level acc =
     (let this = fst acc;
          vp = getCsmMainLightViewport light width height level (bfp_viewport this)
                 (screenSpaceSignY (bfp_configs this))
      in (this\<lparr>bfp_viewport := vp\<rparr>,
          pass_addQueue pass
            (queue1 QueueHint_NONE (Some ''shadow-caster'') [] (Some vp)
               (SceneItem {SF_OPAQUE, SF_MASK, SF_SHADOW_CASTER} None
                  (Some (MainLight light, Some level))))
            (snd acc)))"

definition addCascadedShadowMapPass ::
  "BuiltinForwardPipeline \<Rightarrow> BasicPipeline \<Rightarrow> nat \<Rightarrow> DirectionalLight \<Rightarrow> 'f Camera
     \<Rightarrow> BuiltinForwardPipeline \<times> BasicPipeline" where
  "addCascadedShadowMapPass this ppl ident light camera =
     (let width = v2_x (ppl_shadows_size ppl);
          height = v2_y (ppl_shadows_size ppl);
          this1 = this\<lparr>bfp_viewport :=
                    (bfp_viewport this)\<lparr>vp_left := 0, vp_top := 0,
                                        vp_width := width, vp_height := height\<rparr>\<rparr>;
          (pass, ppl1) = addRenderPass width height ''default'' ppl;
          ppl2 = pass_setName pass ''CSM'' ppl1;
          ppl3 = pass_addRenderTarget pass (''ShadowMap'' @ num_string ident)
                   CLEAR (Some STORE) (Some (Vec4_new 1 1 1 1)) ppl2;
          ppl4 = pass_addDepthStencil pass (''ShadowDepth'' @ num_string ident)
                   CLEAR (Some DISCARD) None None None ppl3;
          csmLevel = (if ppl_csmSupported ppl then csm_count (dir_csmLevel light) else 1)
      in fold (addCascadedShadowMapPass_level pass light width height) [0 ..< csmLevel]
           (this1, ppl4))"

definition addCopyPass ::
  "BuiltinForwardPipeline \<Rightarrow> BasicPipeline \<Rightarrow> real \<Rightarrow> real \<Rightarrow> string \<Rightarrow> string \<Rightarrow> nat \<times> BasicPipeline" where
  "addCopyPass this ppl width height input output =
     (let (pass, ppl1) = addRenderPass width height ''post-copy'' ppl;
          ppl2 = pass_addRenderTarget pass output CLEAR (Some STORE)
                   (Some (bfp_clearColorOpaqueBlack this)) ppl1;
          ppl3 = pass_addTexture pass input ''inputTexture'' ppl2;
          ppl4 = pass_setVec4 pass ''g_platform'' (g_platform (bfp_configs this)) ppl3;
          ppl5 = pass_addQueue pass
                   (queue1 QueueHint_OPAQUE None [] None (FullscreenQuad CopyAndTonemapMaterial 2)) ppl4
      in (pass, ppl5))"

definition addCopyAndTonemapPass ::
  "BuiltinForwardPipeline \<Rightarrow> BasicPipeline \<Rightarrow> real \<Rightarrow> real \<Rightarrow> string \<Rightarrow> string \<Rightarrow> nat \<times> BasicPipeline" where
  "addCopyAndTonemapPass this ppl width height radianceName colorName =
     (let (pass, ppl1) = addRenderPass width height ''post-final-tonemap'' ppl;
          ppl2 = pass_addRenderTarget pass colorName CLEAR (Some STORE)
                   (Some (bfp_clearColorOpaqueBlack this)) ppl1;
          ppl3 = pass_addTexture pass radianceName ''inputTexture'' ppl2;
          ppl4 = pass_setVec4 pass ''g_platform'' (g_platform (bfp_configs this)) ppl3;
          ppl5 = pass_addQueue pass
                   (queue1 QueueHint_OPAQUE None [] None (FullscreenQuad CopyAndTonemapMaterial 1)) ppl4
      in (pass, ppl5))"

definition buildForwardMainLightPass ::
  "BuiltinForwardPipeline \<Rightarrow> nat \<Rightarrow> nat \<Rightarrow> 'f Camera \<Rightarrow> string \<Rightarrow> string \<Rightarrow> DirectionalLight option
     \<Rightarrow> BasicPipeline \<Rightarrow> BasicPipeline" where
  "buildForwardMainLightPass this pass ident camera colorName depthStencilName mainLight_opt ppl =
     (let ppl1 = pass_setViewport pass (bfp_viewport this) ppl;
          ppl2 = (if forwardNeedClearColor camera
                  then pass_addRenderTarget pass colorName CLEAR (Some STORE)
                         (Some (bfp_clearColor this)) ppl1
                  else pass_addRenderTarget pass colorName LOAD None None ppl1);
          ppl3 = (if cam_clearFlag camera AND ClearFlagBit_DEPTH_STENCIL \<noteq> 0
                  then pass_addDepthStencil pass depthStencilName CLEAR (Some STORE)
                         (Some (cam_clearDepth camera)) (Some (cam_clearStencil camera))
                         (Some (cam_clearFlag camera AND ClearFlagBit_DEPTH_STENCIL)) ppl2
                  else pass_addDepthStencil pass depthStencilName LOAD None None None None ppl2);
          ppl4 = (if enableShadowMap (bfp_cameraConfigs this)
                  then pass_addTexture pass (''ShadowMap'' @ num_string ident) ''cc_shadowMap'' ppl3
                  else ppl3)
      in pass_addQueue pass
           (queue1 QueueHint_NONE None [] None
              (SceneItem {SF_OPAQUE, SF_MASK} (map_option MainLight mainLight_opt) None)) ppl4)"

text \<open>
  The texel sizes \<^verbatim>\<open>1.0 / width\<close>: the callers pass a width and a height of at least 1.
\<close>

definition addDepthOfFieldPasses ::
  "BuiltinForwardPipeline \<Rightarrow> BasicPipeline \<Rightarrow> PipelineSettings \<Rightarrow> nat \<Rightarrow> 'f Camera \<Rightarrow> real \<Rightarrow> real
     \<Rightarrow> string \<Rightarrow> string \<Rightarrow> string \<Rightarrow> BuiltinForwardPipeline \<times> BasicPipeline" where
  "addDepthOfFieldPasses this ppl settings ident camera width height dofRadianceName depthStencil radianceName =
     (let this1 = this\<lparr>bfp_cocParams :=
                    Vec4_new (dof_focusDistance (ps_depthOfField settings))
                      (dof_focusRange (ps_depthOfField settings))
                      (dof_bokehRadius (ps_depthOfField settings)) 0.0,
                  bfp_cocTexSize := Vec4_new (1.0 / width) (1.0 / height) width height\<rparr>;
          this2 = this1\<lparr>bfp_dofMaterial :=
                    Material_setProperty ''mainTexTexelSize'' (bfp_cocTexSize this1)
                      (Material_setProperty ''cocParams'' (bfp_cocParams this1) (bfp_dofMaterial this1))\<rparr>;
          halfWidth = Math_max (Math_floor (width / 2)) 1;
          halfHeight = Math_max (Math_floor (height / 2)) 1;
          cocName = ''LdrColor'' @ num_string ident;
          prefilterName = ''DofPrefilter'' @ num_string ident;
          bokehName = ''DofBokeh'' @ num_string ident;
          filterName = ''DofFilter'' @ num_string ident;
          black = Some (bfp_clearColorOpaqueBlack this2);
          platform = g_platform (bfp_configs this2);
          (cocPass, p1) = addRenderPass width height ''dof-coc'' ppl;
          p2 = pass_addRenderTarget cocPass cocName CLEAR (Some STORE) black p1;
          p3 = pass_addTexture cocPass depthStencil ''DepthTex'' p2;
          p4 = pass_addQueue cocPass (queue1 QueueHint_OPAQUE None [] None (CameraQuad DofMaterial 0)) p3;
          (prefilterPass, p5) = addRenderPass halfWidth halfHeight ''dof-prefilter'' p4;
          p6 = pass_addRenderTarget prefilterPass prefilterName CLEAR (Some STORE) black p5;
          p7 = pass_addTexture prefilterPass cocName ''cocTex'' p6;
          p8 = pass_addTexture prefilterPass dofRadianceName ''colorTex'' p7;
          p9 = pass_setVec4 prefilterPass ''cc_cameraPos'' platform p8;
          p10 = pass_addQueue prefilterPass (queue1 QueueHint_OPAQUE None [] None (FullscreenQuad DofMaterial 1)) p9;
          (bokehPass, p11) = addRenderPass halfWidth halfHeight ''dof-bokeh'' p10;
          p12 = pass_addRenderTarget bokehPass bokehName CLEAR (Some STORE) black p11;
          p13 = pass_addTexture bokehPass prefilterName ''prefilterTex'' p12;
          p14 = pass_setVec4 bokehPass ''cc_cameraPos'' platform p13;
          p15 = pass_addQueue bokehPass (queue1 QueueHint_OPAQUE None [] None (FullscreenQuad DofMaterial 2)) p14;
          (filterPass, p16) = addRenderPass halfWidth halfHeight ''dof-filter'' p15;
          p17 = pass_addRenderTarget filterPass filterName CLEAR (Some STORE) black p16;
          p18 = pass_addTexture filterPass bokehName ''bokehTex'' p17;
          p19 = pass_setVec4 filterPass ''cc_cameraPos'' platform p18;
          p20 = pass_addQueue filterPass (queue1 QueueHint_OPAQUE None [] None (FullscreenQuad DofMaterial 3)) p19;
          (combinePass, p21) = addRenderPass width height ''dof-combine'' p20;
          p22 = pass_addRenderTarget combinePass radianceName CLEAR (Some STORE) black p21;
          p23 = pass_addTexture combinePass filterName ''filterTex'' p22;
          p24 = pass_addTexture combinePass dofRadianceName ''colorTex'' p23;
          p25 = pass_addTexture combinePass cocName ''cocTex'' p24;
          p26 = pass_setVec4 combinePass ''cc_cameraPos'' platform p25;
          p27 = pass_addQueue combinePass (queue1 QueueHint_OPAQUE None [] None (FullscreenQuad DofMaterial 4)) p26
      in (this2, p27))"

subsection \<open>Kawase dual filter bloom\<close>

text \<open>
  \<^verbatim>\<open>array.length = n\<close> truncates the array or extends it with empty slots. Every slot is
  assigned before it is read; \<open>hole\<close> stands for the content of an empty slot.
\<close>

definition Array_setLength :: "nat \<Rightarrow> 'a \<Rightarrow> 'a list \<Rightarrow> 'a list" where
  "Array_setLength n hole xs = take n xs @ replicate (n - length xs) hole"

definition bloom_size_step :: "nat \<Rightarrow> BuiltinForwardPipeline \<Rightarrow> BuiltinForwardPipeline" where
  "bloom_size_step i this =
     this\<lparr>bfp_bloomWidths := (bfp_bloomWidths this)
             [i := Math_max (Math_floor (bfp_bloomWidths this ! (i - 1) / 2)) 1],
          bfp_bloomHeights := (bfp_bloomHeights this)
             [i := Math_max (Math_floor (bfp_bloomHeights this ! (i - 1) / 2)) 1]\<rparr>"

definition bloom_name_step :: "nat \<Rightarrow> nat \<Rightarrow> BuiltinForwardPipeline \<Rightarrow> BuiltinForwardPipeline" where
  "bloom_name_step ident i this =
     this\<lparr>bfp_bloomTexNames := (bfp_bloomTexNames this)
             [i := ''BloomTex'' @ num_string ident @ ''_'' @ num_string i]\<rparr>"

definition bloom_down_step ::
  "nat \<Rightarrow> BuiltinForwardPipeline \<times> BasicPipeline \<Rightarrow> BuiltinForwardPipeline \<times> BasicPipeline" where
  "bloom_down_step i acc =
     (let this = fst acc;
          (downPass, p1) = addRenderPass (bfp_bloomWidths this ! i) (bfp_bloomHeights this ! i)
                             ''bloom1-downsample'' (snd acc);
          p2 = pass_addRenderTarget downPass (bfp_bloomTexNames this ! i) CLEAR (Some STORE)
                 (Some (bfp_clearColorOpaqueBlack this)) p1;
          p3 = pass_addTexture downPass (bfp_bloomTexNames this ! (i - 1)) ''bloomTexture'' p2;
          this1 = this\<lparr>bfp_bloomTexSize := (bfp_bloomTexSize this)
                    \<lparr>v4_x := bfp_bloomWidths this ! (i - 1),
                     v4_y := bfp_bloomHeights this ! (i - 1)\<rparr>\<rparr>;
          p4 = pass_setVec4 downPass ''g_platform'' (g_platform (bfp_configs this1)) p3;
          p5 = pass_setVec4 downPass ''bloomTexSize'' (bfp_bloomTexSize this1) p4;
          p6 = pass_addQueue downPass (queue1 QueueHint_OPAQUE None [] None (FullscreenQuad BloomMaterial 1)) p5
      in (this1, p6))"

definition bloom_up_step ::
  "nat \<Rightarrow> BuiltinForwardPipeline \<times> BasicPipeline \<Rightarrow> BuiltinForwardPipeline \<times> BasicPipeline" where
  "bloom_up_step i acc =
     (let this = fst acc;
          (upPass, p1) = addRenderPass (bfp_bloomWidths this ! i) (bfp_bloomHeights this ! i)
                           ''bloom1-upsample'' (snd acc);
          p2 = pass_addRenderTarget upPass (bfp_bloomTexNames this ! i) CLEAR (Some STORE)
                 (Some (bfp_clearColorOpaqueBlack this)) p1;
          p3 = pass_addTexture upPass (bfp_bloomTexNames this ! (i + 1)) ''bloomTexture'' p2;
          this1 = this\<lparr>bfp_bloomTexSize := (bfp_bloomTexSize this)
                    \<lparr>v4_x := bfp_bloomWidths this ! (i + 1),
                     v4_y := bfp_bloomHeights this ! (i + 1)\<rparr>\<rparr>;
          p4 = pass_setVec4 upPass ''g_platform'' (g_platform (bfp_configs this1)) p3;
          p5 = pass_setVec4 upPass ''bloomTexSize'' (bfp_bloomTexSize this1) p4;
          p6 = pass_addQueue upPass (queue1 QueueHint_OPAQUE None [] None (FullscreenQuad BloomMaterial 2)) p5
      in (this1, p6))"

text \<open>
  The counting loops run from 1 (or 0) up to \<open>sizeCount = iterations + 1\<close>, the last
  loop from \<open>iterations - 1\<close> down to 0.
\<close>

definition addKawaseDualFilterBloomPasses ::
  "BuiltinForwardPipeline \<Rightarrow> BasicPipeline \<Rightarrow> PipelineSettings \<Rightarrow> nat \<Rightarrow> real \<Rightarrow> real \<Rightarrow> string
     \<Rightarrow> BuiltinForwardPipeline \<times> BasicPipeline" where
  "addKawaseDualFilterBloomPasses this ppl settings ident width height radianceName =
     (let iterations = bloom_iterations (ps_bloom settings);
          sizeCount = iterations + 1;
          this1 = this\<lparr>bfp_bloomWidths := Array_setLength sizeCount 0 (bfp_bloomWidths this),
                      bfp_bloomHeights := Array_setLength sizeCount 0 (bfp_bloomHeights this)\<rparr>;
          this2 = this1\<lparr>bfp_bloomWidths := (bfp_bloomWidths this1)[0 := Math_max (Math_floor (width / 2)) 1],
                       bfp_bloomHeights := (bfp_bloomHeights this1)[0 := Math_max (Math_floor (height / 2)) 1]\<rparr>;
          this3 = fold bloom_size_step [1 ..< sizeCount] this2;
          this4 = this3\<lparr>bfp_bloomTexNames := Array_setLength sizeCount [] (bfp_bloomTexNames this3)\<rparr>;
          this5 = fold (bloom_name_step ident) [0 ..< sizeCount] this4;
          this6 = this5\<lparr>bfp_bloomParams := (bfp_bloomParams this5)
                    \<lparr>v4_x := (if useFloatOutput (bfp_configs this5) then 1 else 0)\<rparr>\<rparr>;
          this7 = this6\<lparr>bfp_bloomParams := (bfp_bloomParams this6)\<lparr>v4_x := 0\<rparr>\<rparr>;
          this8 = this7\<lparr>bfp_bloomParams := (bfp_bloomParams this7)
                    \<lparr>v4_z := bloom_threshold (ps_bloom settings),
                     v4_w := (if bloom_enableAlphaMask (ps_bloom settings) then 1 else 0)\<rparr>\<rparr>;
          (prefilterPass, p1) = addRenderPass (bfp_bloomWidths this8 ! 0) (bfp_bloomHeights this8 ! 0)
                                  ''bloom1-prefilter'' ppl;
          p2 = pass_addRenderTarget prefilterPass (bfp_bloomTexNames this8 ! 0) CLEAR (Some STORE)
                 (Some (bfp_clearColorOpaqueBlack this8)) p1;
          p3 = pass_addTexture prefilterPass radianceName ''inputTexture'' p2;
          p4 = pass_setVec4 prefilterPass ''g_platform'' (g_platform (bfp_configs this8)) p3;
          p5 = pass_setVec4 prefilterPass ''bloomParams'' (bfp_bloomParams this8) p4;
          p6 = pass_addQueue prefilterPass (queue1 QueueHint_OPAQUE None [] None (FullscreenQuad BloomMaterial 0)) p5;
          (this9, p7) = fold bloom_down_step [1 ..< sizeCount] (this8, p6);
          (this10, p8) = fold bloom_up_step (rev [0 ..< iterations]) (this9, p7);
          (combinePass, p9) = addRenderPass width height ''bloom1-combine'' p8;
          p10 = pass_addRenderTarget combinePass radianceName LOAD (Some STORE) None p9;
          p11 = pass_addTexture combinePass (bfp_bloomTexNames this10 ! 0) ''bloomTexture'' p10;
          p12 = pass_setVec4 combinePass ''g_platform'' (g_platform (bfp_configs this10)) p11;
          p13 = pass_setVec4 combinePass ''bloomParams'' (bfp_bloomParams this10) p12;
          p14 = pass_addQueue combinePass (queue1 QueueHint_BLEND None [] None (FullscreenQuad BloomMaterial 3)) p13
      in (this10, p14))"

subsection \<open>FXAA, the UI queue and the forward passes\<close>

definition addFxaaPass ::
  "BuiltinForwardPipeline \<Rightarrow> BasicPipeline \<Rightarrow> real \<Rightarrow> real \<Rightarrow> string \<Rightarrow> string
     \<Rightarrow> BuiltinForwardPipeline \<times> nat \<times> BasicPipeline" where
  "addFxaaPass this ppl width height ldrColorName colorName =
     (let this1 = this\<lparr>bfp_fxaaMaterial :=
                    Material_setProperty ''texSize'' (Vec4_new width height (1 / width) (1 / height))
                      (bfp_fxaaMaterial this)\<rparr>;
          (pass, p1) = addRenderPass width height ''fxaa'' ppl;
          p2 = pass_addRenderTarget pass colorName CLEAR (Some STORE)
                 (Some (bfp_clearColorOpaqueBlack this1)) p1;
          p3 = pass_addTexture pass ldrColorName ''sceneColorMap'' p2;
          p4 = pass_setVec4 pass ''cc_cameraPos'' (g_platform (bfp_configs this1)) p3;
          p5 = pass_addQueue pass (queue1 QueueHint_OPAQUE None [] None (FullscreenQuad FxaaMaterial 0)) p4
      in (this1, pass, p5))"

text \<open>\<^verbatim>\<open>_addUIQueue(camera, pass)\<close> adds a queue to the pass it is given.\<close>

definition addUIQueue :: "BuiltinForwardPipeline \<Rightarrow> 'f Camera \<Rightarrow> nat \<Rightarrow> BasicPipeline \<Rightarrow> BasicPipeline" where
  "addUIQueue this camera pass ppl =
     (if enableProfiler (bfp_cameraConfigs this)
      then pass_addQueue pass
             (queue1 QueueHint_BLEND None [] None (SceneItem {SF_UI, SF_PROFILER} None None))
             (pass_setShowStatistics pass True ppl)
      else pass_addQueue pass
             (queue1 QueueHint_BLEND None [] None (SceneItem {SF_UI} None None)) ppl)"

text \<open>The dynamic state both forward builders prepare: clear colour and viewport.\<close>

definition prepareDynamicStates ::
  "BuiltinForwardPipeline \<Rightarrow> 'f Camera \<Rightarrow> real \<Rightarrow> real \<Rightarrow> BuiltinForwardPipeline" where
  "prepareDynamicStates this camera width height =
     this\<lparr>bfp_clearColor := (bfp_clearColor this)
            \<lparr>v4_x := v4_x (cam_clearColor camera), v4_y := v4_y (cam_clearColor camera),
             v4_z := v4_z (cam_clearColor camera), v4_w := v4_w (cam_clearColor camera)\<rparr>,
          bfp_viewport := (bfp_viewport this)
            \<lparr>vp_left := Math_floor (v4_x (cam_viewport camera) * width),
             vp_top := Math_floor (v4_y (cam_viewport camera) * height),
             vp_width := Math_floor (v4_z (cam_viewport camera) * width),
             vp_height := Math_floor (v4_w (cam_viewport camera) * height)\<rparr>\<rparr>"

definition addForwardRadiancePasses ::
  "BuiltinForwardPipeline \<Rightarrow> BasicPipeline \<Rightarrow> nat \<Rightarrow> 'f Camera \<Rightarrow> real \<Rightarrow> real
     \<Rightarrow> DirectionalLight option \<Rightarrow> string \<Rightarrow> string \<Rightarrow> BuiltinForwardPipeline \<times> nat \<times> BasicPipeline" where
  "addForwardRadiancePasses this ppl ident camera width height mainLight_opt colorName depthStencilName =
     (let this1 = prepareDynamicStates this camera width height;
          (pass, p1) = addRenderPass width height ''default'' ppl;
          p2 = pass_setName pass ''ForwardPass'' p1;
          p3 = buildForwardMainLightPass this1 pass ident camera colorName depthStencilName mainLight_opt p2;
          (lastPass, p4) = addLightPasses (bfp_forwardLighting this1) colorName depthStencilName ident
                             width height camera p3 pass;
          p5 = pass_addQueue lastPass
                 (queue1 QueueHint_BLEND None [] None
                    (SceneItem {SF_BLEND} (map_option MainLight mainLight_opt) None)) p4
      in (this1, lastPass, p5))"


subsection \<open>Materials\<close>


subsection \<open>Pipelines\<close>

text \<open>
  The post-process branch of the desktop pipeline (float output, post-process enabled,
  settings present). It returns the pass that receives the UI queue.
\<close>

definition buildForwardPipeline_postProcess ::
  "BuiltinForwardPipeline \<Rightarrow> BasicPipeline \<Rightarrow> PipelineSettings \<Rightarrow> 'f Camera \<Rightarrow> RenderWindow
     \<Rightarrow> DirectionalLight option \<Rightarrow> real \<Rightarrow> real \<Rightarrow> real \<Rightarrow> real
     \<Rightarrow> BuiltinForwardPipeline \<times> nat \<times> BasicPipeline" where
  "buildForwardPipeline_postProcess this ppl settings camera window mainLight_opt nativeWidth nativeHeight width height =
     (let ident = win_renderWindowId window;
          colorName = win_colorName window;
          depthStencilName = win_depthStencilName window;
          dofRadianceName = ''DofRadiance'' @ num_string ident;
          radianceName = ''Radiance'' @ num_string ident;
          ldrColorName = ''LdrColor'' @ num_string ident;
          aaColorName = ''AaColor'' @ num_string ident;
          (this1, p1) =
            (if supportDepthSample (bfp_configs this) \<and> dof_enabled (ps_depthOfField settings)
             then
               (let (t, lp, q) = addForwardRadiancePasses this ppl ident camera width height
                                   mainLight_opt dofRadianceName depthStencilName
                in addDepthOfFieldPasses t q settings ident camera width height
                     dofRadianceName depthStencilName radianceName)
             else
               (let (t, lp, q) = addForwardRadiancePasses this ppl ident camera width height
                                   mainLight_opt radianceName depthStencilName
                in (t, q)));
          (this2, p2) =
            (if bloom_enabled (ps_bloom settings)
             then addKawaseDualFilterBloomPasses this1 p1 settings ident width height radianceName
             else (this1, p1))
      in if ps_fxaa_enabled settings
         then
           (let (tp, p3) = addCopyAndTonemapPass this2 p2 width height radianceName ldrColorName
            in if enableShadingScale (bfp_cameraConfigs this2)
               then
                 (let (this3, fp, p4) = addFxaaPass this2 p3 width height ldrColorName aaColorName;
                      (lastPass, p5) = addCopyPass this3 p4 nativeWidth nativeHeight aaColorName colorName
                  in (this3, lastPass, p5))
               else addFxaaPass this2 p3 nativeWidth nativeHeight ldrColorName colorName)
         else
           (let (lastPass, p3) = addCopyAndTonemapPass this2 p2 nativeWidth nativeHeight radianceName colorName
            in (this2, lastPass, p3)))"

definition buildForwardPipeline ::
  "'f Geometry \<Rightarrow> BuiltinForwardPipeline \<Rightarrow> BasicPipeline \<Rightarrow> 'f Camera \<Rightarrow> RenderScene
     \<Rightarrow> error + (BuiltinForwardPipeline \<times> BasicPipeline)" where
  "buildForwardPipeline g this ppl camera scene =
     (case cam_window camera of
        None \<Rightarrow> Inl TypeError
      | Some window \<Rightarrow>
          (let cc = bfp_cameraConfigs this;
               settings = pipelineSettings cc;
               nativeWidth = Math_max (Math_floor (win_width window)) 1;
               nativeHeight = Math_max (Math_floor (win_height window)) 1;
               width = (if enableShadingScale cc
                        then Math_max (Math_floor (fmul g nativeWidth (shadingScale cc))) 1
                        else nativeWidth);
               height = (if enableShadingScale cc
                         then Math_max (Math_floor (fmul g nativeHeight (shadingScale cc))) 1
                         else nativeHeight);
               ident = win_renderWindowId window;
               colorName = win_colorName window;
               depthStencilName = win_depthStencilName window;
               radianceName = ''Radiance'' @ num_string ident;
               mainLight_opt = mainLight scene;
               this1 = this\<lparr>bfp_forwardLighting :=
                         cullLights g scene (cam_frustum camera) None (bfp_forwardLighting this)\<rparr>
           in case (if enableShadowMap cc
                    then (case mainLight_opt of
                            None \<Rightarrow> Inl TypeError
                          | Some ml \<Rightarrow> Inr (addCascadedShadowMapPass this1 ppl ident ml camera))
                    else Inr (this1, ppl)) of
                Inl e \<Rightarrow> Inl e
              | Inr (this2, p1) \<Rightarrow>
                  (let (this3, lastPass, p2) =
                     (if useFloatOutput (bfp_configs this2)
                      then
                        (case (if enablePostProcess cc then settings else None) of
                           Some s \<Rightarrow>
                             buildForwardPipeline_postProcess this2 p1 s camera window mainLight_opt
                               nativeWidth nativeHeight width height
                         | None \<Rightarrow>
                             (let (t, lp, q) = addForwardRadiancePasses this2 p1 ident camera width height
                                                 mainLight_opt radianceName depthStencilName;
                                  (lp2, q2) = addCopyAndTonemapPass t q nativeWidth nativeHeight
                                                radianceName colorName
                              in (t, lp2, q2)))
                      else if enableShadingScale cc
                      then
                        (let (t, lp, q) = addForwardRadiancePasses this2 p1 ident camera width height
                                            mainLight_opt radianceName depthStencilName;
                             (lp2, q2) = addCopyAndTonemapPass t q nativeWidth nativeHeight
                                           radianceName colorName
                         in (t, lp2, q2))
                      else addForwardRadiancePasses this2 p1 ident camera nativeWidth nativeHeight
                             mainLight_opt colorName depthStencilName)
                   in Inr (this3, addUIQueue this3 camera lastPass p2))))"




section \<open>Vocabulary of the properties\<close>

text \<open>
  The sphere that \<^verbatim>\<open>cullLights\<close> builds for a spot, sphere or point light, and what
  passing the culling test means for each kind of light. The three kinds with a
  \<^verbatim>\<open>baked\<close> test are visible only when they are not baked.
\<close>

definition spot_sphere :: "SpotLight \<Rightarrow> Sphere" where
  "spot_sphere l = Sphere_create (v3_x (spot_position l)) (v3_y (spot_position l))
                     (v3_z (spot_position l)) (spot_range l)"

definition sphere_sphere :: "SphereLight \<Rightarrow> Sphere" where
  "sphere_sphere l = Sphere_create (v3_x (sphere_position l)) (v3_y (sphere_position l))
                       (v3_z (sphere_position l)) (sphere_range l)"

definition point_sphere :: "PointLight \<Rightarrow> Sphere" where
  "point_sphere l = Sphere_create (v3_x (point_position l)) (v3_y (point_position l))
                      (v3_z (point_position l)) (point_range l)"

definition spot_visible :: "'f Geometry \<Rightarrow> 'f \<Rightarrow> SpotLight \<Rightarrow> bool" where
  "spot_visible g frustum l = (\<not> spot_baked l \<and> sphereFrustum g (spot_sphere l) frustum)"

definition sphere_visible :: "'f Geometry \<Rightarrow> 'f \<Rightarrow> SphereLight \<Rightarrow> bool" where
  "sphere_visible g frustum l = (\<not> sphere_baked l \<and> sphereFrustum g (sphere_sphere l) frustum)"

definition point_visible :: "'f Geometry \<Rightarrow> 'f \<Rightarrow> PointLight \<Rightarrow> bool" where
  "point_visible g frustum l = (\<not> point_baked l \<and> sphereFrustum g (point_sphere l) frustum)"

definition rangedDir_visible :: "'f Geometry \<Rightarrow> 'f \<Rightarrow> RangedDirectionalLight \<Rightarrow> bool" where
  "rangedDir_visible g frustum l =
     aabbFrustum g (AABB_transform g rangedDirLightBoundingBox (rdl_worldMatrix l)) frustum"

text \<open>The two sequences in scene iteration order.\<close>

definition culled_lights :: "'f Geometry \<Rightarrow> RenderScene \<Rightarrow> 'f \<Rightarrow> Light list" where
  "culled_lights g scene f =
     map LightSpot (filter (\<lambda>l. spot_visible g f l \<and> \<not> spot_shadowEnabled l) (spotLights scene))
     @ map LightSphere (filter (sphere_visible g f) (sphereLights scene))
     @ map LightPoint (filter (point_visible g f) (pointLights scene))
     @ map LightRangedDir (filter (rangedDir_visible g f) (rangedDirLights scene))"

definition culled_shadow_spots :: "'f Geometry \<Rightarrow> RenderScene \<Rightarrow> 'f \<Rightarrow> SpotLight list" where
  "culled_shadow_spots g scene f =
     filter (\<lambda>l. spot_visible g f l \<and> spot_shadowEnabled l) (spotLights scene)"

text \<open>The spheres written to the scratch sphere, in order.\<close>

definition scene_spheres :: "RenderScene \<Rightarrow> Sphere list" where
  "scene_spheres scene =
     map spot_sphere (filter (\<lambda>l. \<not> spot_baked l) (spotLights scene))
     @ map sphere_sphere (filter (\<lambda>l. \<not> sphere_baked l) (sphereLights scene))
     @ map point_sphere (filter (\<lambda>l. \<not> point_baked l) (pointLights scene))"

text \<open>A point of the shadow map lies in a viewport; the quadrant of a point.\<close>

definition in_viewport :: "Viewport \<Rightarrow> real \<Rightarrow> real \<Rightarrow> bool" where
  "in_viewport vp px py =
     (vp_left vp \<le> px \<and> px < vp_left vp + vp_width vp
      \<and> vp_top vp \<le> py \<and> py < vp_top vp + vp_height vp)"

definition csm_quadrant :: "real \<Rightarrow> real \<Rightarrow> real \<Rightarrow> real \<Rightarrow> real \<Rightarrow> nat" where
  "csm_quadrant a b s px py =
     (if px < a then 0 else 1) + 2 * (if (0 < s) = (py < b) then 1 else 0)"

text \<open>
  The passes the builders are expected to record: a pass as \<^verbatim>\<open>addRenderPass\<close> creates
  it, the shadow-caster pass of a spot light, the additive queue of a light and the two
  passes of a shadow-casting spot light on desktop.
\<close>

definition fresh_pass :: "real \<Rightarrow> real \<Rightarrow> string \<Rightarrow> RenderPass" where
  "fresh_pass w h layout =
     \<lparr>pass_layout = layout, pass_name = [], pass_width = w, pass_height = h,
      pass_viewport = None, pass_renderTargets = [], pass_depthStencils = [],
      pass_textures = [], pass_vec4s = [], pass_queues = [],
      pass_showStatistics = False\<rparr>"

definition shadow_caster_queue :: "Viewport option \<Rightarrow> AnyLight \<Rightarrow> nat option \<Rightarrow> Queue" where
  "shadow_caster_queue vp light level =
     queue1 QueueHint_NONE (Some ''shadow-caster'') [] vp
       (SceneItem {SF_OPAQUE, SF_MASK, SF_SHADOW_CASTER} None (Some (light, level)))"

definition shadow_pass :: "Vec2 \<Rightarrow> string \<Rightarrow> string \<Rightarrow> string \<Rightarrow> SpotLight \<Rightarrow> RenderPass" where
  "shadow_pass sz pname target depth light =
     (fresh_pass (v2_x sz) (v2_y sz) ''default'')
       \<lparr>pass_name := pname,
        pass_renderTargets := [\<lparr>rt_name = target, rt_loadOp = CLEAR, rt_storeOp = Some STORE,
                                 rt_clearColor = Some (Vec4_new 1 1 1 1)\<rparr>],
        pass_depthStencils := [\<lparr>ds_name = depth, ds_loadOp = CLEAR, ds_storeOp = Some DISCARD,
                                 ds_depth = None, ds_stencil = None, ds_clearFlags = None\<rparr>],
        pass_queues := [shadow_caster_queue None (AdditiveLight (LightSpot light)) None]\<rparr>"

definition mobile_shadow_pass :: "Vec2 \<Rightarrow> nat \<times> SpotLight \<Rightarrow> RenderPass" where
  "mobile_shadow_pass sz il =
     shadow_pass sz (''SpotLightShadowPass'' @ num_string (fst il))
       (''SpotShadowMap'' @ num_string (fst il)) (''SpotShadowDepth'' @ num_string (fst il)) (snd il)"

definition lit_queue :: "string \<Rightarrow> Light \<Rightarrow> Queue" where
  "lit_queue n light =
     queue1 QueueHint_BLEND (Some ''forward-add'') n None
       (SceneItem {SF_BLEND} (Some (AdditiveLight light)) None)"

definition light_queue_name :: "Light \<Rightarrow> string" where
  "light_queue_name light =
     (case light_type light of
        SPHERE \<Rightarrow> ''sphere-light''
      | SPOT \<Rightarrow> ''spot-light''
      | POINT \<Rightarrow> ''point-light''
      | RANGED_DIRECTIONAL \<Rightarrow> ''ranged-directional-light''
      | _ \<Rightarrow> ''unknown-light'')"

definition desktop_light_passes ::
  "Vec2 \<Rightarrow> string \<Rightarrow> string \<Rightarrow> nat \<Rightarrow> real \<Rightarrow> real \<Rightarrow> SpotLight \<Rightarrow> RenderPass list" where
  "desktop_light_passes sz colorName depthStencilName ident width height light =
     [shadow_pass sz ''SpotlightShadowPass'' (''ShadowMap'' @ num_string ident)
        (''ShadowDepth'' @ num_string ident) light,
      (fresh_pass width height ''default'')
        \<lparr>pass_name := ''SpotlightWithShadowMap'',
         pass_renderTargets := [\<lparr>rt_name = colorName, rt_loadOp = LOAD, rt_storeOp = None,
                                  rt_clearColor = None\<rparr>],
         pass_depthStencils := [\<lparr>ds_name = depthStencilName, ds_loadOp = LOAD, ds_storeOp = None,
                                  ds_depth = None, ds_stencil = None, ds_clearFlags = None\<rparr>],
         pass_textures := [(''ShadowMap'' @ num_string ident, ''cc_spotShadowMap'')],
         pass_queues := [lit_queue [] (LightSpot light)]\<rparr>]"

text \<open>
  The camera classes of \<^verbatim>\<open>setupCameraConfigs\<close>, and whose request for post-processing
  counts: the camera's own, or for an editor view the editor's pipeline camera's.
\<close>

definition isMainGameWindow :: "'f Camera \<Rightarrow> bool" where
  "isMainGameWindow camera =
     (cam_cameraUsage camera = GAME
      \<and> (case cam_window camera of Some w \<Rightarrow> win_swapchain w | None \<Rightarrow> False))"

definition isEditorView :: "'f Camera \<Rightarrow> bool" where
  "isEditorView camera =
     (cam_cameraUsage camera = SCENE_VIEW \<or> cam_cameraUsage camera = PREVIEW)"

definition postProcessRequested :: "'f Host \<Rightarrow> 'f Camera \<Rightarrow> bool" where
  "postProcessRequested host camera =
     (if isEditorView camera
      then (case host_editorPipelineCamera host of
              Some pipelineCamera \<Rightarrow> cam_usePostProcess pipelineCamera
            | None \<Rightarrow> False)
      else cam_usePostProcess camera)"

text \<open>
  The settings object that \<^verbatim>\<open>setupCameraConfigs\<close> resolves: the editor's pipeline settings
  for an editor view, the camera's own otherwise.
\<close>

definition resolvedSettings :: "'f Host \<Rightarrow> 'f Camera \<Rightarrow> PipelineSettings option" where
  "resolvedSettings host camera =
     (if isEditorView camera then host_editorPipelineSettings host
      else cam_pipelineSettings camera)"

text \<open>Concrete inputs for the witnesses.\<close>

definition example_window :: RenderWindow where
  "example_window =
     \<lparr>win_width = 1280, win_height = 720, win_renderWindowId = 0,
      win_colorName = ''Color0'', win_depthStencilName = ''DepthStencil0'',
      win_swapchain = True\<rparr>"

definition example_scene :: RenderScene where
  "example_scene =
     \<lparr>spotLights = [], sphereLights = [], pointLights = [], rangedDirLights = [],
      mainLight = Some \<lparr>dir_shadowEnabled = False, dir_shadowFixedArea = False,
                        dir_csmLevel = LEVEL_4\<rparr>\<rparr>"

definition example_camera :: "unit Camera" where
  "example_camera =
     \<lparr>cam_scene = Some example_scene, cam_window = Some example_window,
      cam_cameraUsage = GAME, cam_usePostProcess = True, cam_pipelineSettings = None,
      cam_clearFlag = 7, cam_clearColor = Vec4_new 0 0 0 1, cam_clearDepth = 1,
      cam_clearStencil = 0, cam_viewport = Vec4_new 0 0 1 1,
      cam_position = \<lparr>v3_x = 0, v3_y = 0, v3_z = 0\<rparr>, cam_frustum = ()\<rparr>"

definition example_host :: "unit Host" where
  "example_host =
     \<lparr>host_DEBUG = False, host_isMobile = False, host_editorPipelineSettings = None,
      host_editorPipelineCamera = None, host_effectLoaded = (\<lambda>n. True)\<rparr>"

text \<open>
  More concrete inputs, and the texture and the queue that \<^verbatim>\<open>addMobileLightQueues\<close> adds for
  the i-th shadow-casting spot light.
\<close>

definition example_ppl :: BasicPipeline where
  "example_ppl =
     \<lparr>ppl_isHDR = True, ppl_macro_USE_FLOAT_OUTPUT = True, ppl_toneMappingType = 0,
      ppl_supportsR32FloatTexture = True, ppl_shadows_size = \<lparr>v2_x = 1024, v2_y = 1024\<rparr>,
      ppl_csmSupported = True, ppl_screenSpaceSignY = 1, ppl_clipSpaceSignY = 1,
      ppl_depthStencilFeatures = {SAMPLED_TEXTURE, LINEAR_FILTER},
      ppl_resources = [], ppl_passes = []\<rparr>"

definition example_spot :: "real \<Rightarrow> SpotLight" where
  "example_spot d =
     \<lparr>spot_position = \<lparr>v3_x = d, v3_y = 0, v3_z = 0\<rparr>, spot_range = 1,
      spot_baked = False, spot_shadowEnabled = True\<rparr>"

definition mobile_spot_texture :: "nat \<times> SpotLight \<Rightarrow> string \<times> string" where
  "mobile_spot_texture il = (''SpotShadowMap'' @ num_string (fst il), ''cc_spotShadowMap'')"

definition mobile_spot_queue :: "nat \<times> SpotLight \<Rightarrow> Queue" where
  "mobile_spot_queue il = lit_queue [] (LightSpot (snd il))"

text \<open>
  The passes of the post-process builders, the state the depth-of-field builder leaves,
  what \<^verbatim>\<open>_buildForwardMainLightPass\<close> and \<^verbatim>\<open>_addUIQueue\<close> add to a pass.
\<close>

definition black_target :: "BuiltinForwardPipeline \<Rightarrow> string \<Rightarrow> RenderTargetAttachment" where
  "black_target this n =
     \<lparr>rt_name = n, rt_loadOp = CLEAR, rt_storeOp = Some STORE,
      rt_clearColor = Some (bfp_clearColorOpaqueBlack this)\<rparr>"

definition quad_queue :: "QueueHint \<Rightarrow> MaterialRef \<Rightarrow> nat \<Rightarrow> Queue" where
  "quad_queue hint m i = queue1 hint None [] None (FullscreenQuad m i)"

definition copy_pass :: "BuiltinForwardPipeline \<Rightarrow> real \<Rightarrow> real \<Rightarrow> string \<Rightarrow> string \<Rightarrow> RenderPass" where
  "copy_pass this w h input output =
     (fresh_pass w h ''post-copy'')
       \<lparr>pass_renderTargets := [black_target this output],
        pass_textures := [(input, ''inputTexture'')],
        pass_vec4s := [(''g_platform'', g_platform (bfp_configs this))],
        pass_queues := [quad_queue QueueHint_OPAQUE CopyAndTonemapMaterial 2]\<rparr>"

definition tonemap_pass :: "BuiltinForwardPipeline \<Rightarrow> real \<Rightarrow> real \<Rightarrow> string \<Rightarrow> string \<Rightarrow> RenderPass" where
  "tonemap_pass this w h radianceName colorName =
     (fresh_pass w h ''post-final-tonemap'')
       \<lparr>pass_renderTargets := [black_target this colorName],
        pass_textures := [(radianceName, ''inputTexture'')],
        pass_vec4s := [(''g_platform'', g_platform (bfp_configs this))],
        pass_queues := [quad_queue QueueHint_OPAQUE CopyAndTonemapMaterial 1]\<rparr>"

definition fxaa_pass :: "BuiltinForwardPipeline \<Rightarrow> real \<Rightarrow> real \<Rightarrow> string \<Rightarrow> string \<Rightarrow> RenderPass" where
  "fxaa_pass this w h ldrColorName colorName =
     (fresh_pass w h ''fxaa'')
       \<lparr>pass_renderTargets := [black_target this colorName],
        pass_textures := [(ldrColorName, ''sceneColorMap'')],
        pass_vec4s := [(''cc_cameraPos'', g_platform (bfp_configs this))],
        pass_queues := [quad_queue QueueHint_OPAQUE FxaaMaterial 0]\<rparr>"

definition dof_passes ::
  "BuiltinForwardPipeline \<Rightarrow> nat \<Rightarrow> real \<Rightarrow> real \<Rightarrow> string \<Rightarrow> string \<Rightarrow> string \<Rightarrow> RenderPass list" where
  "dof_passes this ident width height dofRadianceName depthStencil radianceName =
    (let halfWidth = Math_max (Math_floor (width / 2)) 1;
         halfHeight = Math_max (Math_floor (height / 2)) 1;
         cocName = ''LdrColor'' @ num_string ident;
         prefilterName = ''DofPrefilter'' @ num_string ident;
         bokehName = ''DofBokeh'' @ num_string ident;
         filterName = ''DofFilter'' @ num_string ident;
         platform = g_platform (bfp_configs this)
     in [(fresh_pass width height ''dof-coc'')
           \<lparr>pass_renderTargets := [black_target this cocName],
            pass_textures := [(depthStencil, ''DepthTex'')],
            pass_queues := [queue1 QueueHint_OPAQUE None [] None (CameraQuad DofMaterial 0)]\<rparr>,
         (fresh_pass halfWidth halfHeight ''dof-prefilter'')
           \<lparr>pass_renderTargets := [black_target this prefilterName],
            pass_textures := [(cocName, ''cocTex''), (dofRadianceName, ''colorTex'')],
            pass_vec4s := [(''cc_cameraPos'', platform)],
            pass_queues := [quad_queue QueueHint_OPAQUE DofMaterial 1]\<rparr>,
         (fresh_pass halfWidth halfHeight ''dof-bokeh'')
           \<lparr>pass_renderTargets := [black_target this bokehName],
            pass_textures := [(prefilterName, ''prefilterTex'')],
            pass_vec4s := [(''cc_cameraPos'', platform)],
            pass_queues := [quad_queue QueueHint_OPAQUE DofMaterial 2]\<rparr>,
         (fresh_pass halfWidth halfHeight ''dof-filter'')
           \<lparr>pass_renderTargets := [black_target this filterName],
            pass_textures := [(bokehName, ''bokehTex'')],
            pass_vec4s := [(''cc_cameraPos'', platform)],
            pass_queues := [quad_queue QueueHint_OPAQUE DofMaterial 3]\<rparr>,
         (fresh_pass width height ''dof-combine'')
           \<lparr>pass_renderTargets := [black_target this radianceName],
            pass_textures := [(filterName, ''filterTex''), (dofRadianceName, ''colorTex''),
                              (cocName, ''cocTex'')],
            pass_vec4s := [(''cc_cameraPos'', platform)],
            pass_queues := [quad_queue QueueHint_OPAQUE DofMaterial 4]\<rparr>])"

definition dof_state :: "BuiltinForwardPipeline \<Rightarrow> PipelineSettings \<Rightarrow> real \<Rightarrow> real \<Rightarrow> BuiltinForwardPipeline" where
  "dof_state this settings width height =
     this\<lparr>bfp_cocParams :=
            Vec4_new (dof_focusDistance (ps_depthOfField settings))
              (dof_focusRange (ps_depthOfField settings))
              (dof_bokehRadius (ps_depthOfField settings)) 0,
          bfp_cocTexSize := Vec4_new (1 / width) (1 / height) width height,
          bfp_dofMaterial :=
            Material_setProperty ''mainTexTexelSize'' (Vec4_new (1 / width) (1 / height) width height)
              (Material_setProperty ''cocParams''
                 (Vec4_new (dof_focusDistance (ps_depthOfField settings))
                    (dof_focusRange (ps_depthOfField settings))
                    (dof_bokehRadius (ps_depthOfField settings)) 0)
                 (bfp_dofMaterial this))\<rparr>"

definition main_light_update ::
  "BuiltinForwardPipeline \<Rightarrow> nat \<Rightarrow> 'f Camera \<Rightarrow> string \<Rightarrow> string \<Rightarrow> DirectionalLight option
     \<Rightarrow> RenderPass \<Rightarrow> RenderPass" where
  "main_light_update this ident camera colorName depthStencilName mainLight_opt r =
     r\<lparr>pass_viewport := Some (bfp_viewport this),
       pass_renderTargets := pass_renderTargets r @
         [if forwardNeedClearColor camera
          then \<lparr>rt_name = colorName, rt_loadOp = CLEAR, rt_storeOp = Some STORE,
                rt_clearColor = Some (bfp_clearColor this)\<rparr>
          else \<lparr>rt_name = colorName, rt_loadOp = LOAD, rt_storeOp = None, rt_clearColor = None\<rparr>],
       pass_depthStencils := pass_depthStencils r @
         [if cam_clearFlag camera AND ClearFlagBit_DEPTH_STENCIL \<noteq> 0
          then \<lparr>ds_name = depthStencilName, ds_loadOp = CLEAR, ds_storeOp = Some STORE,
                ds_depth = Some (cam_clearDepth camera), ds_stencil = Some (cam_clearStencil camera),
                ds_clearFlags = Some (cam_clearFlag camera AND ClearFlagBit_DEPTH_STENCIL)\<rparr>
          else \<lparr>ds_name = depthStencilName, ds_loadOp = LOAD, ds_storeOp = None,
                ds_depth = None, ds_stencil = None, ds_clearFlags = None\<rparr>],
       pass_textures := pass_textures r @
         (if enableShadowMap (bfp_cameraConfigs this)
          then [(''ShadowMap'' @ num_string ident, ''cc_shadowMap'')] else []),
       pass_queues := pass_queues r @
         [queue1 QueueHint_NONE None [] None
            (SceneItem {SF_OPAQUE, SF_MASK} (map_option MainLight mainLight_opt) None)]\<rparr>"

definition blend_queue :: "DirectionalLight option \<Rightarrow> Queue" where
  "blend_queue mainLight_opt =
     queue1 QueueHint_BLEND None [] None
       (SceneItem {SF_BLEND} (map_option MainLight mainLight_opt) None)"

definition ui_queue :: "BuiltinForwardPipeline \<Rightarrow> Queue" where
  "ui_queue this =
     queue1 QueueHint_BLEND None [] None
       (SceneItem (if enableProfiler (bfp_cameraConfigs this) then {SF_UI, SF_PROFILER} else {SF_UI})
          None None)"

definition ui_update :: "BuiltinForwardPipeline \<Rightarrow> RenderPass \<Rightarrow> RenderPass" where
  "ui_update this r =
     r\<lparr>pass_showStatistics :=
         (if enableProfiler (bfp_cameraConfigs this) then True else pass_showStatistics r),
       pass_queues := pass_queues r @ [ui_queue this]\<rparr>"

text \<open>
  The forward passes of the desktop builder: the pass named \<^verbatim>\<open>ForwardPass\<close> with the queues of
  the active lights, then the two passes of every shadow-casting spot light; the last of
  them receives the blend queue.
\<close>

definition map_last :: "('a \<Rightarrow> 'a) \<Rightarrow> 'a list \<Rightarrow> 'a list" where
  "map_last f xs = (if xs = [] then [] else butlast xs @ [f (last xs)])"

definition forward_pass ::
  "BuiltinForwardPipeline \<Rightarrow> nat \<Rightarrow> 'f Camera \<Rightarrow> real \<Rightarrow> real \<Rightarrow> DirectionalLight option
     \<Rightarrow> string \<Rightarrow> string \<Rightarrow> RenderPass" where
  "forward_pass this ident camera width height mainLight_opt colorName depthStencilName =
     (let r = main_light_update this ident camera colorName depthStencilName mainLight_opt
                ((fresh_pass width height ''default'')\<lparr>pass_name := ''ForwardPass''\<rparr>)
      in r\<lparr>pass_queues := pass_queues r
              @ map (\<lambda>light. lit_queue (light_queue_name light) light)
                  (lights (bfp_forwardLighting this))\<rparr>)"

definition add_queue :: "Queue \<Rightarrow> RenderPass \<Rightarrow> RenderPass" where
  "add_queue q r = r\<lparr>pass_queues := pass_queues r @ [q]\<rparr>"

definition forward_passes ::
  "BuiltinForwardPipeline \<Rightarrow> Vec2 \<Rightarrow> nat \<Rightarrow> 'f Camera \<Rightarrow> real \<Rightarrow> real \<Rightarrow> DirectionalLight option
     \<Rightarrow> string \<Rightarrow> string \<Rightarrow> RenderPass list" where
  "forward_passes this sz ident camera width height mainLight_opt colorName depthStencilName =
     forward_pass this ident camera width height mainLight_opt colorName depthStencilName
     # concat (map (desktop_light_passes sz colorName depthStencilName ident width height)
                 (shadowEnabledSpotLights (bfp_forwardLighting this)))"

text \<open>
  The native size the builders compute from the window, and the builder's state after
  the desktop pipeline has culled the lights and prepared the dynamic states.
\<close>

definition native_size :: "real \<Rightarrow> real" where
  "native_size v = Math_max (Math_floor v) 1"

definition desktop_state ::
  "'f Geometry \<Rightarrow> BuiltinForwardPipeline \<Rightarrow> 'f Camera \<Rightarrow> RenderScene \<Rightarrow> real \<Rightarrow> real
     \<Rightarrow> BuiltinForwardPipeline" where
  "desktop_state g this camera scene w h =
     prepareDynamicStates
       (this\<lparr>bfp_forwardLighting :=
               cullLights g scene (cam_frustum camera) None (bfp_forwardLighting this)\<rparr>)
       camera w h"

text \<open>
  A geometry in which every light is visible, and a builder state for a camera without
  float output, shading scale and post-processing.
\<close>

definition example_geometry :: "unit Geometry" where
  "example_geometry =
     \<lparr>sphereFrustum = (\<lambda>s u. True), aabbFrustum = (\<lambda>b u. True), AABB_transform = (\<lambda>b m. b),
      Vec3_squaredDistance = (\<lambda>a b. 0), fmul = (\<lambda>a b. a * b)\<rparr>"

definition example_ldr :: BuiltinForwardPipeline where
  "example_ldr =
     BuiltinForwardPipeline_new\<lparr>bfp_cameraConfigs :=
       \<lparr>enableShadowMap = False, enablePostProcess = False, enableProfiler = False,
        enableShadingScale = False, shadingScale = 1, pipelineSettings = None\<rparr>\<rparr>"

text \<open>
  What is fixed of a pass when it is created and named: its layout, name and size. A step
  of the builder keeps the flag \<^verbatim>\<open>_initialized\<close>, the capability snapshot, the camera
  policy and the passes recorded so far.
\<close>

definition pass_sig :: "RenderPass \<Rightarrow> string \<times> string \<times> real \<times> real" where
  "pass_sig r = (pass_layout r, pass_name r, pass_width r, pass_height r)"

definition pass_sigs :: "BasicPipeline \<Rightarrow> (string \<times> string \<times> real \<times> real) set" where
  "pass_sigs ppl = set (map pass_sig (ppl_passes ppl))"

definition keeps ::
  "BuiltinForwardPipeline \<times> BasicPipeline \<Rightarrow> BuiltinForwardPipeline \<times> BasicPipeline \<Rightarrow> bool" where
  "keeps a b =
     (bfp_initialized (fst b) = bfp_initialized (fst a)
      \<and> bfp_configs (fst b) = bfp_configs (fst a)
      \<and> bfp_cameraConfigs (fst b) = bfp_cameraConfigs (fst a)
      \<and> pass_sigs (snd a) \<subseteq> pass_sigs (snd b))"

text \<open>
  The bloom chain: halving with the clamp to 1, the size of level \<open>i\<close> (level 0 is the
  half-resolution prefilter) and the name of its texture.
\<close>

definition halve :: "real \<Rightarrow> real" where
  "halve v = Math_max (Math_floor (v / 2)) 1"

definition bloom_size :: "real \<Rightarrow> nat \<Rightarrow> real" where
  "bloom_size v i = (halve ^^ Suc i) v"

definition bloom_tex :: "nat \<Rightarrow> nat \<Rightarrow> string" where
  "bloom_tex ident i = ''BloomTex'' @ num_string ident @ ''_'' @ num_string i"

text \<open>
  The passes of the bloom chain: the prefilter at level 0, the downsample pass into
  level \<open>i\<close> reading level \<open>i - 1\<close>, the upsample pass into level \<open>i\<close> reading level
  \<open>i + 1\<close>, and the combine pass at the working size; and the state in which the loops
  run.
\<close>

definition bloom_params :: "BuiltinForwardPipeline \<Rightarrow> PipelineSettings \<Rightarrow> Vec4" where
  "bloom_params this settings =
     \<lparr>v4_x = 0, v4_y = v4_y (bfp_bloomParams this),
      v4_z = bloom_threshold (ps_bloom settings),
      v4_w = (if bloom_enableAlphaMask (ps_bloom settings) then 1 else 0)\<rparr>"

definition bloom_texsize :: "BuiltinForwardPipeline \<Rightarrow> real \<Rightarrow> real \<Rightarrow> Vec4" where
  "bloom_texsize this a b =
     \<lparr>v4_x = a, v4_y = b, v4_z = v4_z (bfp_bloomTexSize this), v4_w = v4_w (bfp_bloomTexSize this)\<rparr>"

definition bloom_prefilter_pass ::
  "BuiltinForwardPipeline \<Rightarrow> PipelineSettings \<Rightarrow> nat \<Rightarrow> real \<Rightarrow> real \<Rightarrow> string \<Rightarrow> RenderPass" where
  "bloom_prefilter_pass this settings ident w h radianceName =
     (fresh_pass (bloom_size w 0) (bloom_size h 0) ''bloom1-prefilter'')
       \<lparr>pass_renderTargets := [black_target this (bloom_tex ident 0)],
        pass_textures := [(radianceName, ''inputTexture'')],
        pass_vec4s := [(''g_platform'', g_platform (bfp_configs this)),
                       (''bloomParams'', bloom_params this settings)],
        pass_queues := [quad_queue QueueHint_OPAQUE BloomMaterial 0]\<rparr>"

definition bloom_down_pass ::
  "BuiltinForwardPipeline \<Rightarrow> nat \<Rightarrow> real \<Rightarrow> real \<Rightarrow> nat \<Rightarrow> RenderPass" where
  "bloom_down_pass this ident w h i =
     (fresh_pass (bloom_size w i) (bloom_size h i) ''bloom1-downsample'')
       \<lparr>pass_renderTargets := [black_target this (bloom_tex ident i)],
        pass_textures := [(bloom_tex ident (i - 1), ''bloomTexture'')],
        pass_vec4s := [(''g_platform'', g_platform (bfp_configs this)),
                       (''bloomTexSize'',
                        bloom_texsize this (bloom_size w (i - 1)) (bloom_size h (i - 1)))],
        pass_queues := [quad_queue QueueHint_OPAQUE BloomMaterial 1]\<rparr>"

definition bloom_up_pass ::
  "BuiltinForwardPipeline \<Rightarrow> nat \<Rightarrow> real \<Rightarrow> real \<Rightarrow> nat \<Rightarrow> RenderPass" where
  "bloom_up_pass this ident w h i =
     (fresh_pass (bloom_size w i) (bloom_size h i) ''bloom1-upsample'')
       \<lparr>pass_renderTargets := [black_target this (bloom_tex ident i)],
        pass_textures := [(bloom_tex ident (i + 1), ''bloomTexture'')],
        pass_vec4s := [(''g_platform'', g_platform (bfp_configs this)),
                       (''bloomTexSize'',
                        bloom_texsize this (bloom_size w (i + 1)) (bloom_size h (i + 1)))],
        pass_queues := [quad_queue QueueHint_OPAQUE BloomMaterial 2]\<rparr>"

definition bloom_combine_pass ::
  "BuiltinForwardPipeline \<Rightarrow> PipelineSettings \<Rightarrow> nat \<Rightarrow> real \<Rightarrow> real \<Rightarrow> string \<Rightarrow> RenderPass" where
  "bloom_combine_pass this settings ident w h radianceName =
     (fresh_pass w h ''bloom1-combine'')
       \<lparr>pass_renderTargets := [\<lparr>rt_name = radianceName, rt_loadOp = LOAD,
                                 rt_storeOp = Some STORE, rt_clearColor = None\<rparr>],
        pass_textures := [(bloom_tex ident 0, ''bloomTexture'')],
        pass_vec4s := [(''g_platform'', g_platform (bfp_configs this)),
                       (''bloomParams'', bloom_params this settings)],
        pass_queues := [quad_queue QueueHint_BLEND BloomMaterial 3]\<rparr>"

definition bloom_passes ::
  "BuiltinForwardPipeline \<Rightarrow> PipelineSettings \<Rightarrow> nat \<Rightarrow> real \<Rightarrow> real \<Rightarrow> string \<Rightarrow> RenderPass list" where
  "bloom_passes this settings ident w h radianceName =
     bloom_prefilter_pass this settings ident w h radianceName
     # map (bloom_down_pass this ident w h) [1 ..< Suc (bloom_iterations (ps_bloom settings))]
     @ map (bloom_up_pass this ident w h) (rev [0 ..< bloom_iterations (ps_bloom settings)])
     @ [bloom_combine_pass this settings ident w h radianceName]"

definition bloom_ready ::
  "BuiltinForwardPipeline \<Rightarrow> PipelineSettings \<Rightarrow> nat \<Rightarrow> real \<Rightarrow> real \<Rightarrow> BuiltinForwardPipeline \<Rightarrow> bool" where
  "bloom_ready this settings ident w h t =
     (length (bfp_bloomWidths t) = Suc (bloom_iterations (ps_bloom settings))
      \<and> length (bfp_bloomHeights t) = Suc (bloom_iterations (ps_bloom settings))
      \<and> length (bfp_bloomTexNames t) = Suc (bloom_iterations (ps_bloom settings))
      \<and> (\<forall>j\<le>bloom_iterations (ps_bloom settings).
            bfp_bloomWidths t ! j = bloom_size w j \<and> bfp_bloomHeights t ! j = bloom_size h j
            \<and> bfp_bloomTexNames t ! j = bloom_tex ident j)
      \<and> bfp_bloomParams t = bloom_params this settings
      \<and> v4_z (bfp_bloomTexSize t) = v4_z (bfp_bloomTexSize this)
      \<and> v4_w (bfp_bloomTexSize t) = v4_w (bfp_bloomTexSize this)
      \<and> bfp_clearColorOpaqueBlack t = bfp_clearColorOpaqueBlack this
      \<and> bfp_configs t = bfp_configs this)"

text \<open>
  The cascaded shadow map pass: one shadow-caster queue for every cascade level, with
  the viewport of the level.
\<close>

definition csm_queue :: "DirectionalLight \<Rightarrow> real \<Rightarrow> real \<Rightarrow> real \<Rightarrow> nat \<Rightarrow> Queue" where
  "csm_queue light w h sign level =
     shadow_caster_queue
       (Some (getCsmMainLightViewport light w h level
                \<lparr>vp_left = 0, vp_top = 0, vp_width = w, vp_height = h\<rparr> sign))
       (MainLight light) (Some level)"

definition csm_pass :: "BuiltinForwardPipeline \<Rightarrow> BasicPipeline \<Rightarrow> nat \<Rightarrow> DirectionalLight \<Rightarrow> RenderPass" where
  "csm_pass this ppl ident light =
     (fresh_pass (v2_x (ppl_shadows_size ppl)) (v2_y (ppl_shadows_size ppl)) ''default'')
       \<lparr>pass_name := ''CSM'',
        pass_renderTargets := [\<lparr>rt_name = ''ShadowMap'' @ num_string ident, rt_loadOp = CLEAR,
                                 rt_storeOp = Some STORE, rt_clearColor = Some (Vec4_new 1 1 1 1)\<rparr>],
        pass_depthStencils := [\<lparr>ds_name = ''ShadowDepth'' @ num_string ident, ds_loadOp = CLEAR,
                                 ds_storeOp = Some DISCARD, ds_depth = None, ds_stencil = None,
                                 ds_clearFlags = None\<rparr>],
        pass_queues := map (csm_queue light (v2_x (ppl_shadows_size ppl)) (v2_y (ppl_shadows_size ppl))
                              (screenSpaceSignY (bfp_configs this)))
                         [0 ..< (if ppl_csmSupported ppl then csm_count (dir_csmLevel light) else 1)]\<rparr>"

definition working_size :: "'f Geometry \<Rightarrow> CameraConfigs \<Rightarrow> real \<Rightarrow> real" where
  "working_size g cc native =
     (if enableShadingScale cc then Math_max (Math_floor (fmul g native (shadingScale cc))) 1
      else native)"

definition csm_passes :: "BuiltinForwardPipeline \<Rightarrow> BasicPipeline \<Rightarrow> nat \<Rightarrow> RenderScene \<Rightarrow> RenderPass list" where
  "csm_passes this ppl ident scene =
     (if enableShadowMap (bfp_cameraConfigs this)
      then (case mainLight scene of Some ml \<Rightarrow> [csm_pass this ppl ident ml] | None \<Rightarrow> [])
      else [])"

definition dof_applies :: "BuiltinForwardPipeline \<Rightarrow> PipelineSettings \<Rightarrow> bool" where
  "dof_applies this settings =
     (supportDepthSample (bfp_configs this) \<and> dof_enabled (ps_depthOfField settings))"

text \<open>
  The passes of the post-process branch of the desktop builder: the forward passes, the
  depth-of-field passes, the bloom chain, and the passes that bring the image to the
  window (tone mapping, then anti-aliasing and a copy when they apply).
\<close>

definition postProcess_tail ::
  "BuiltinForwardPipeline \<Rightarrow> PipelineSettings \<Rightarrow> RenderWindow \<Rightarrow> real \<Rightarrow> real \<Rightarrow> real \<Rightarrow> real
     \<Rightarrow> RenderPass list" where
  "postProcess_tail this s window nw nh w h =
     (if ps_fxaa_enabled s
      then tonemap_pass this w h (''Radiance'' @ num_string (win_renderWindowId window))
             (''LdrColor'' @ num_string (win_renderWindowId window))
           # (if enableShadingScale (bfp_cameraConfigs this)
              then [fxaa_pass this w h (''LdrColor'' @ num_string (win_renderWindowId window))
                      (''AaColor'' @ num_string (win_renderWindowId window)),
                    copy_pass this nw nh (''AaColor'' @ num_string (win_renderWindowId window))
                      (win_colorName window)]
              else [fxaa_pass this nw nh (''LdrColor'' @ num_string (win_renderWindowId window))
                      (win_colorName window)])
      else [tonemap_pass this nw nh (''Radiance'' @ num_string (win_renderWindowId window))
              (win_colorName window)])"

definition postProcess_passes ::
  "BuiltinForwardPipeline \<Rightarrow> BuiltinForwardPipeline \<Rightarrow> Vec2 \<Rightarrow> PipelineSettings \<Rightarrow> 'f Camera
     \<Rightarrow> RenderWindow \<Rightarrow> DirectionalLight option \<Rightarrow> real \<Rightarrow> real \<Rightarrow> real \<Rightarrow> real \<Rightarrow> RenderPass list" where
  "postProcess_passes st this sz s camera window ml nw nh w h =
     map_last (add_queue (blend_queue ml))
       (forward_passes st sz (win_renderWindowId window) camera w h ml
          (if dof_applies this s then ''DofRadiance'' @ num_string (win_renderWindowId window)
           else ''Radiance'' @ num_string (win_renderWindowId window))
          (win_depthStencilName window))
     @ (if dof_applies this s
        then dof_passes this (win_renderWindowId window) w h
               (''DofRadiance'' @ num_string (win_renderWindowId window))
               (win_depthStencilName window)
               (''Radiance'' @ num_string (win_renderWindowId window))
        else [])
     @ (if bloom_enabled (ps_bloom s)
        then bloom_passes this s (win_renderWindowId window) w h
               (''Radiance'' @ num_string (win_renderWindowId window))
        else [])
     @ postProcess_tail this s window nw nh w h"

text \<open>
  The passes of the desktop builder for one camera: the cascaded shadow map pass when
  the policy enables shadow maps, then the body chosen by the policy (the post-process
  branch; the forward passes into the radiance target and the tone mapping pass; or the
  forward passes into the window), whose last pass receives the UI queue.
\<close>

definition desktop_body ::
  "'f Geometry \<Rightarrow> BuiltinForwardPipeline \<Rightarrow> BasicPipeline \<Rightarrow> 'f Camera \<Rightarrow> RenderScene \<Rightarrow> RenderWindow
     \<Rightarrow> RenderPass list" where
  "desktop_body g this ppl camera scene window =
     (let cc = bfp_cameraConfigs this;
          nw = native_size (win_width window);
          nh = native_size (win_height window);
          w = working_size g cc nw;
          h = working_size g cc nh;
          ident = win_renderWindowId window;
          radianceName = ''Radiance'' @ num_string ident
      in case (if useFloatOutput (bfp_configs this) \<and> enablePostProcess cc
               then pipelineSettings cc else None) of
           Some s \<Rightarrow>
             postProcess_passes (desktop_state g this camera scene w h) this (ppl_shadows_size ppl)
               s camera window (mainLight scene) nw nh w h
         | None \<Rightarrow>
             (if useFloatOutput (bfp_configs this) \<or> enableShadingScale cc
              then map_last (add_queue (blend_queue (mainLight scene)))
                     (forward_passes (desktop_state g this camera scene w h) (ppl_shadows_size ppl)
                        ident camera w h (mainLight scene) radianceName (win_depthStencilName window))
                   @ [tonemap_pass this nw nh radianceName (win_colorName window)]
              else map_last (add_queue (blend_queue (mainLight scene)))
                     (forward_passes (desktop_state g this camera scene nw nh) (ppl_shadows_size ppl)
                        ident camera nw nh (mainLight scene) (win_colorName window)
                        (win_depthStencilName window))))"

definition desktop_passes ::
  "'f Geometry \<Rightarrow> BuiltinForwardPipeline \<Rightarrow> BasicPipeline \<Rightarrow> 'f Camera \<Rightarrow> RenderScene \<Rightarrow> RenderWindow
     \<Rightarrow> RenderPass list" where
  "desktop_passes g this ppl camera scene window =
     csm_passes this ppl (win_renderWindowId window) scene
     @ map_last (ui_update this) (desktop_body g this ppl camera scene window)"








text \<open>
  Concrete inputs with float output and post-processing: settings with bloom enabled at
  three iterations, no depth of field and no anti-aliasing, a game camera holding them,
  and the builder state that \<^verbatim>\<open>setupCameraConfigs\<close> leaves for that camera.
\<close>

definition example_settings :: PipelineSettings where
  "example_settings =
     \<lparr>ps_enableShadingScale = False, ps_shadingScale = 1,
      ps_depthOfField = \<lparr>dof_enabled = False, dof_focusDistance = 0, dof_focusRange = 0,
                         dof_bokehRadius = 1\<rparr>,
      ps_bloom = \<lparr>bloom_enabled = True, bloom_iterations = 3, bloom_threshold = 0.8,
                  bloom_enableAlphaMask = False\<rparr>,
      ps_fxaa_enabled = False\<rparr>"

definition example_hdr_camera :: "unit Camera" where
  "example_hdr_camera = example_camera\<lparr>cam_pipelineSettings := Some example_settings\<rparr>"

definition example_hdr :: BuiltinForwardPipeline where
  "example_hdr =
     BuiltinForwardPipeline_new
       \<lparr>bfp_configs := PipelineConfigs_new\<lparr>useFloatOutput := True\<rparr>,
        bfp_cameraConfigs :=
          \<lparr>enableShadowMap = False, enablePostProcess = True, enableProfiler = False,
           enableShadingScale = False, shadingScale = 1,
           pipelineSettings = Some example_settings\<rparr>\<rparr>"

section \<open>The light classifier: what \<^verbatim>\<open>cullLights\<close> computes\<close>

lemma Sphere_set_create: "Sphere_set out cx cy cz r = Sphere_create cx cy cz r"
  by (simp add: Sphere_set_def Sphere_create_def)

lemma cull_spot_lights:
  "lights (fold (cull_spot g f) xs fl) =
     lights fl @ map LightSpot (filter (\<lambda>l. spot_visible g f l \<and> \<not> spot_shadowEnabled l) xs)"
  by (induction xs arbitrary: fl)
     (auto simp: cull_spot_def Let_def spot_visible_def spot_sphere_def Sphere_set_create)

lemma cull_spot_shadow:
  "shadowEnabledSpotLights (fold (cull_spot g f) xs fl) =
     shadowEnabledSpotLights fl @ filter (\<lambda>l. spot_visible g f l \<and> spot_shadowEnabled l) xs"
  by (induction xs arbitrary: fl)
     (auto simp: cull_spot_def Let_def spot_visible_def spot_sphere_def Sphere_set_create)

lemma cull_spot_sphere:
  "fl_sphere (fold (cull_spot g f) xs fl) =
     last (fl_sphere fl # map spot_sphere (filter (\<lambda>l. \<not> spot_baked l) xs))"
  by (induction xs arbitrary: fl)
     (auto simp: cull_spot_def Let_def spot_sphere_def Sphere_set_create)

lemma cull_spot_box: "fl_boundingBox (fold (cull_spot g f) xs fl) = fl_boundingBox fl"
  by (induction xs arbitrary: fl) (auto simp: cull_spot_def Let_def)

lemma cull_sphere_lights:
  "lights (fold (cull_sphere g f) xs fl) =
     lights fl @ map LightSphere (filter (sphere_visible g f) xs)"
  by (induction xs arbitrary: fl)
     (auto simp: cull_sphere_def Let_def sphere_visible_def sphere_sphere_def Sphere_set_create)

lemma cull_sphere_shadow:
  "shadowEnabledSpotLights (fold (cull_sphere g f) xs fl) = shadowEnabledSpotLights fl"
  by (induction xs arbitrary: fl) (auto simp: cull_sphere_def Let_def)

lemma cull_sphere_sphere:
  "fl_sphere (fold (cull_sphere g f) xs fl) =
     last (fl_sphere fl # map sphere_sphere (filter (\<lambda>l. \<not> sphere_baked l) xs))"
  by (induction xs arbitrary: fl)
     (auto simp: cull_sphere_def Let_def sphere_sphere_def Sphere_set_create)

lemma cull_sphere_box: "fl_boundingBox (fold (cull_sphere g f) xs fl) = fl_boundingBox fl"
  by (induction xs arbitrary: fl) (auto simp: cull_sphere_def Let_def)

lemma cull_point_lights:
  "lights (fold (cull_point g f) xs fl) =
     lights fl @ map LightPoint (filter (point_visible g f) xs)"
  by (induction xs arbitrary: fl)
     (auto simp: cull_point_def Let_def point_visible_def point_sphere_def Sphere_set_create)

lemma cull_point_shadow:
  "shadowEnabledSpotLights (fold (cull_point g f) xs fl) = shadowEnabledSpotLights fl"
  by (induction xs arbitrary: fl) (auto simp: cull_point_def Let_def)

lemma cull_point_sphere:
  "fl_sphere (fold (cull_point g f) xs fl) =
     last (fl_sphere fl # map point_sphere (filter (\<lambda>l. \<not> point_baked l) xs))"
  by (induction xs arbitrary: fl)
     (auto simp: cull_point_def Let_def point_sphere_def Sphere_set_create)

lemma cull_point_box: "fl_boundingBox (fold (cull_point g f) xs fl) = fl_boundingBox fl"
  by (induction xs arbitrary: fl) (auto simp: cull_point_def Let_def)

lemma cull_rangedDir_lights:
  "lights (fold (cull_rangedDir g f) xs fl) =
     lights fl @ map LightRangedDir (filter (rangedDir_visible g f) xs)"
  by (induction xs arbitrary: fl)
     (auto simp: cull_rangedDir_def Let_def rangedDir_visible_def)

lemma cull_rangedDir_shadow:
  "shadowEnabledSpotLights (fold (cull_rangedDir g f) xs fl) = shadowEnabledSpotLights fl"
  by (induction xs arbitrary: fl) (auto simp: cull_rangedDir_def Let_def)

lemma cull_rangedDir_sphere:
  "fl_sphere (fold (cull_rangedDir g f) xs fl) = fl_sphere fl"
  by (induction xs arbitrary: fl) (auto simp: cull_rangedDir_def Let_def)

lemma cull_rangedDir_box:
  "fl_boundingBox (fold (cull_rangedDir g f) xs fl) =
     last (fl_boundingBox fl
           # map (\<lambda>l. AABB_transform g rangedDirLightBoundingBox (rdl_worldMatrix l)) xs)"
  by (induction xs arbitrary: fl) (auto simp: cull_rangedDir_def Let_def)

text \<open>The four fields of the classifier after \<^verbatim>\<open>cullLights\<close>.\<close>

lemma cullLights_lights:
  "lights (cullLights g scene f cameraPos fl) = culled_lights g scene f"
  by (simp add: cullLights_def Let_def culled_lights_def cull_spot_lights cull_sphere_lights
        cull_point_lights cull_rangedDir_lights split: option.split)

lemma cullLights_shadow_None:
  "shadowEnabledSpotLights (cullLights g scene f None fl) = culled_shadow_spots g scene f"
  by (simp add: cullLights_def Let_def culled_shadow_spots_def cull_spot_shadow cull_sphere_shadow
        cull_point_shadow cull_rangedDir_shadow)

lemma cullLights_shadow_Some:
  "shadowEnabledSpotLights (cullLights g scene f (Some pos) fl) =
     Array_sort (\<lambda>lhs rhs. Vec3_squaredDistance g pos (spot_position lhs)
                           - Vec3_squaredDistance g pos (spot_position rhs))
       (culled_shadow_spots g scene f)"
  by (simp add: cullLights_def Let_def culled_shadow_spots_def cull_spot_shadow cull_sphere_shadow
        cull_point_shadow cull_rangedDir_shadow)

lemma cullLights_shadow_indep:
  "shadowEnabledSpotLights (cullLights g scene f cameraPos fl1) =
   shadowEnabledSpotLights (cullLights g scene f cameraPos fl2)"
  by (cases cameraPos) (simp_all add: cullLights_shadow_None cullLights_shadow_Some)

lemma last_last: "last (last (x # xs) # ys) = last (x # xs @ ys)"
  by (cases ys) auto

lemma last_idem: "last (last (x # xs) # xs) = last (x # xs)"
  by (cases xs) auto

lemma cullLights_sphere:
  "fl_sphere (cullLights g scene f cameraPos fl) = last (fl_sphere fl # scene_spheres scene)"
  by (simp add: cullLights_def Let_def cull_spot_sphere cull_sphere_sphere cull_point_sphere
        cull_rangedDir_sphere scene_spheres_def last_last del: last.simps split: option.split)

lemma cullLights_box:
  "fl_boundingBox (cullLights g scene f cameraPos fl) =
     last (fl_boundingBox fl
           # map (\<lambda>l. AABB_transform g rangedDirLightBoundingBox (rdl_worldMatrix l))
               (rangedDirLights scene))"
  by (simp add: cullLights_def Let_def cull_spot_box cull_sphere_box cull_point_box
        cull_rangedDir_box del: last.simps split: option.split)

subsection \<open>The sort\<close>

lemma mset_Array_sort_insert: "mset (Array_sort_insert c a xs) = add_mset a (mset xs)"
  by (induction xs) auto

lemma mset_Array_sort: "mset (Array_sort c xs) = mset xs"
  by (induction xs) (auto simp: mset_Array_sort_insert)

lemma set_Array_sort_insert: "set (Array_sort_insert c a xs) = insert a (set xs)"
  by (metis mset_Array_sort_insert set_mset_mset set_mset_add_mset_insert)

lemma set_Array_sort: "set (Array_sort c xs) = set xs"
  by (metis mset_Array_sort set_mset_mset)

lemma length_Array_sort: "length (Array_sort c xs) = length xs"
  by (metis mset_Array_sort size_mset)

lemma sorted_Array_sort_insert:
  "sorted (map k xs) \<Longrightarrow> sorted (map k (Array_sort_insert (\<lambda>l r. k l - k r) a xs))"
  by (induction xs) (auto simp: set_Array_sort_insert)

lemma sorted_Array_sort: "sorted (map k (Array_sort (\<lambda>l r. k l - k r) xs))"
  by (induction xs) (auto simp: sorted_Array_sort_insert)

subsection \<open>Classification\<close>

text \<open>
  What holds of the classification: no spot light is in both sequences, and a baked spot,
  sphere or point light is in neither.
\<close>

lemma cullLights_not_in_both:
  "\<not> (LightSpot l \<in> set (lights (cullLights g scene f cameraPos fl))
      \<and> l \<in> set (shadowEnabledSpotLights (cullLights g scene f cameraPos fl)))"
  by (cases cameraPos)
     (auto simp: cullLights_lights cullLights_shadow_None cullLights_shadow_Some
        culled_lights_def culled_shadow_spots_def set_Array_sort)

lemma cullLights_shadow_not_baked:
  "l \<in> set (shadowEnabledSpotLights (cullLights g scene f cameraPos fl)) \<Longrightarrow> \<not> spot_baked l"
  by (cases cameraPos)
     (auto simp: cullLights_shadow_None cullLights_shadow_Some culled_shadow_spots_def
        set_Array_sort spot_visible_def)

lemma cullLights_baked_punctual:
  "L \<in> set (lights (cullLights g scene f cameraPos fl)) \<Longrightarrow> light_type L \<noteq> RANGED_DIRECTIONAL
     \<Longrightarrow> \<not> light_baked L"
  by (auto simp: cullLights_lights culled_lights_def spot_visible_def sphere_visible_def
        point_visible_def)

text \<open>
  C1. The claim: after \<^verbatim>\<open>cullLights\<close> every light is in at most one of the two sequences,
  and every light whose \<^verbatim>\<open>baked\<close> flag is set is in neither. The loops over the spot,
  sphere and point lights skip baked lights; the loop over the ranged directional lights
  does not test the flag. Here a scene holds one baked ranged directional light that
  passes the frustum test: after \<^verbatim>\<open>cullLights\<close> it is an active light.
\<close>

theorem cullLights_baked_ranged_directional_active:
  "light_baked (LightRangedDir \<lparr>rdl_worldMatrix = [], rdl_baked = True\<rparr>)
   \<and> lights (cullLights
        \<lparr>sphereFrustum = (\<lambda>s u. True), aabbFrustum = (\<lambda>b u. True), AABB_transform = (\<lambda>b m. b),
         Vec3_squaredDistance = (\<lambda>a b. 0), fmul = (\<lambda>a b. a * b)\<rparr>
        \<lparr>spotLights = [], sphereLights = [], pointLights = [],
         rangedDirLights = [\<lparr>rdl_worldMatrix = [], rdl_baked = True\<rparr>], mainLight = None\<rparr>
        () None ForwardLighting_new)
     = [LightRangedDir \<lparr>rdl_worldMatrix = [], rdl_baked = True\<rparr>]"
  by (simp add: cullLights_def cull_rangedDir_def Let_def)

text \<open>
  C6. With a camera position the shadow-casting spot lights are in non-decreasing order
  of their squared distance to it, as \<^verbatim>\<open>Vec3.squaredDistance\<close> computes it, and they are the
  visible shadow-casting spot lights of the scene; without a camera position they stand
  in scene iteration order.
\<close>

theorem cullLights_distance_ordering:
  "sorted (map (\<lambda>l. Vec3_squaredDistance g pos (spot_position l))
             (shadowEnabledSpotLights (cullLights g scene f (Some pos) fl)))
   \<and> mset (shadowEnabledSpotLights (cullLights g scene f (Some pos) fl))
       = mset (culled_shadow_spots g scene f)
   \<and> shadowEnabledSpotLights (cullLights g scene f None fl) = culled_shadow_spots g scene f"
  by (simp add: cullLights_shadow_Some cullLights_shadow_None sorted_Array_sort mset_Array_sort)

text \<open>
  C10. \<^verbatim>\<open>cullLights\<close> is history-independent: the two sequences it leaves do not depend
  on the classifier's state before the call, and a second call with the same arguments
  leaves the classifier as the first call left it.
\<close>

theorem cullLights_history_independent:
  "lights (cullLights g scene f cameraPos fl1) = lights (cullLights g scene f cameraPos fl2)
   \<and> shadowEnabledSpotLights (cullLights g scene f cameraPos fl1)
       = shadowEnabledSpotLights (cullLights g scene f cameraPos fl2)
   \<and> cullLights g scene f cameraPos (cullLights g scene f cameraPos fl)
       = cullLights g scene f cameraPos fl"
proof -
  have a: "lights (cullLights g scene f cameraPos fl1) = lights (cullLights g scene f cameraPos fl2)"
    by (simp add: cullLights_lights)
  have b: "shadowEnabledSpotLights (cullLights g scene f cameraPos fl1)
       = shadowEnabledSpotLights (cullLights g scene f cameraPos fl2)"
    by (rule cullLights_shadow_indep)
  have c: "cullLights g scene f cameraPos (cullLights g scene f cameraPos fl)
       = cullLights g scene f cameraPos fl"
  proof (rule ForwardLighting.equality)
    show "shadowEnabledSpotLights (cullLights g scene f cameraPos (cullLights g scene f cameraPos fl))
            = shadowEnabledSpotLights (cullLights g scene f cameraPos fl)"
      by (rule cullLights_shadow_indep)
  qed (simp_all add: cullLights_lights cullLights_sphere cullLights_box last_idem del: last.simps)
  from a b c show ?thesis by blast
qed

section \<open>Cascaded shadow map viewports: the four quadrants\<close>

lemma Math_trunc_of_nat: "Math_trunc (real n) = real n"
  by (simp add: Math_trunc_def)

lemma Math_trunc_0: "Math_trunc 0 = 0"
  by (simp add: Math_trunc_def)

lemma csm_viewport_even:
  assumes "\<not> dir_shadowFixedArea light" "dir_csmLevel light = LEVEL_4" "0 < a" "0 < b" "level < 4"
  shows "getCsmMainLightViewport light (2 * real a) (2 * real b) level vp s =
           vp\<lparr>vp_left := real (level mod 2) * real a,
              vp_top := (if s > 0 then real (1 - level div 2) * real b
                         else real (level div 2) * real b),
              vp_width := real a, vp_height := real b\<rparr>"
proof -
  from \<open>level < 4\<close> consider "level = 0" | "level = 1" | "level = 2" | "level = 3" by linarith
  then show ?thesis
    using assms(1-4)
    by cases (simp_all add: getCsmMainLightViewport_def Let_def Math_trunc_of_nat Math_trunc_0 Math_floor_def Math_max_def max_def)
qed

lemma ex_less_4: "(\<exists>level<4. P level) = (P 0 \<or> P 1 \<or> P 2 \<or> P (3::nat))"
proof
  assume "\<exists>level<4. P level"
  then obtain l where l: "l < 4" "P l" by blast
  from l(1) have "l = 0 \<or> l = 1 \<or> l = 2 \<or> l = 3" by linarith
  with l(2) show "P 0 \<or> P 1 \<or> P 2 \<or> P 3" by blast
next
  assume "P 0 \<or> P 1 \<or> P 2 \<or> P 3"
  then consider "P 0" | "P 1" | "P 2" | "P 3" by blast
  then show "\<exists>level<4. P level"
  proof cases
    case 1 then show ?thesis by (intro exI [of _ 0]) simp
  next
    case 2 then show ?thesis by (intro exI [of _ 1]) simp
  next
    case 3 then show ?thesis by (intro exI [of _ 2]) simp
  next
    case 4 then show ?thesis by (intro exI [of _ 3]) simp
  qed
qed

lemma csm_in_viewport:
  assumes "\<not> dir_shadowFixedArea light" "dir_csmLevel light = LEVEL_4" "0 < a" "0 < b" "level < 4"
  shows "in_viewport (getCsmMainLightViewport light (2 * real a) (2 * real b) level vp s) px py =
           (0 \<le> px \<and> px < 2 * real a \<and> 0 \<le> py \<and> py < 2 * real b
            \<and> level = csm_quadrant (real a) (real b) s px py)"
proof -
  from \<open>level < 4\<close> consider "level = 0" | "level = 1" | "level = 2" | "level = 3" by linarith
  then show ?thesis
  proof cases
    case 1 with assms show ?thesis
      by (auto simp add: csm_viewport_even in_viewport_def csm_quadrant_def)
  next
    case 2 with assms show ?thesis
      by (auto simp add: csm_viewport_even in_viewport_def csm_quadrant_def)
  next
    case 3 with assms show ?thesis
      by (auto simp add: csm_viewport_even in_viewport_def csm_quadrant_def)
  next
    case 4 with assms show ?thesis
      by (auto simp add: csm_viewport_even in_viewport_def csm_quadrant_def)
  qed
qed

lemma csm_quadrant_less: "csm_quadrant a b s px py < 4"
  by (simp add: csm_quadrant_def)

text \<open>
  C5, as amended. For a directional light with four cascades and no fixed area, and a
  shadow map whose width and height are even positive integers \<open>2a\<close> and \<open>2b\<close>: a point
  lies in the map exactly when it lies in the viewport of one of the levels 0 to 3, no
  point lies in the viewports of two levels, every viewport is an \<open>a\<close> by \<open>b\<close> quadrant,
  and the viewport of a level under a positive sign is the viewport of the level of the
  other row under a non-positive sign.
\<close>

theorem csm_viewports_partition_even:
  assumes "\<not> dir_shadowFixedArea light" "dir_csmLevel light = LEVEL_4" "0 < a" "0 < b"
  shows "((0 \<le> px \<and> px < 2 * real a \<and> 0 \<le> py \<and> py < 2 * real b)
            = (\<exists>level<4. in_viewport
                 (getCsmMainLightViewport light (2 * real a) (2 * real b) level vp s) px py))
       \<and> (\<forall>l1 l2. l1 < 4 \<and> l2 < 4
             \<and> in_viewport (getCsmMainLightViewport light (2 * real a) (2 * real b) l1 vp s) px py
             \<and> in_viewport (getCsmMainLightViewport light (2 * real a) (2 * real b) l2 vp s) px py
             \<longrightarrow> l1 = l2)
       \<and> (\<forall>level<4. getCsmMainLightViewport light (2 * real a) (2 * real b) level vp s =
             vp\<lparr>vp_left := real (level mod 2) * real a,
                vp_top := (if s > 0 then real (1 - level div 2) * real b
                           else real (level div 2) * real b),
                vp_width := real a, vp_height := real b\<rparr>)
       \<and> (\<forall>level<4. 0 < sp \<and> sn \<le> 0 \<longrightarrow>
             getCsmMainLightViewport light (2 * real a) (2 * real b) level vp sp
             = getCsmMainLightViewport light (2 * real a) (2 * real b) ((level + 2) mod 4) vp sn)"
proof (intro conjI allI impI)
  show "(0 \<le> px \<and> px < 2 * real a \<and> 0 \<le> py \<and> py < 2 * real b)
            = (\<exists>level<4. in_viewport
                 (getCsmMainLightViewport light (2 * real a) (2 * real b) level vp s) px py)"
    (is "?L = ?R")
  proof
    assume ?L
    then have "in_viewport (getCsmMainLightViewport light (2 * real a) (2 * real b)
                 (csm_quadrant (real a) (real b) s px py) vp s) px py"
      by (simp add: csm_in_viewport [OF assms csm_quadrant_less])
    then show ?R using csm_quadrant_less by blast
  next
    assume ?R
    then obtain level where "level < 4"
      "in_viewport (getCsmMainLightViewport light (2 * real a) (2 * real b) level vp s) px py"
      by blast
    then show ?L by (simp add: csm_in_viewport [OF assms])
  qed
next
  fix l1 l2
  assume "l1 < 4 \<and> l2 < 4
             \<and> in_viewport (getCsmMainLightViewport light (2 * real a) (2 * real b) l1 vp s) px py
             \<and> in_viewport (getCsmMainLightViewport light (2 * real a) (2 * real b) l2 vp s) px py"
  then have "l1 < 4" "l2 < 4"
    "in_viewport (getCsmMainLightViewport light (2 * real a) (2 * real b) l1 vp s) px py"
    "in_viewport (getCsmMainLightViewport light (2 * real a) (2 * real b) l2 vp s) px py"
    by blast+
  then show "l1 = l2" by (simp add: csm_in_viewport [OF assms])
next
  fix level :: nat assume "level < 4"
  then show "getCsmMainLightViewport light (2 * real a) (2 * real b) level vp s =
             vp\<lparr>vp_left := real (level mod 2) * real a,
                vp_top := (if s > 0 then real (1 - level div 2) * real b
                           else real (level div 2) * real b),
                vp_width := real a, vp_height := real b\<rparr>"
    by (rule csm_viewport_even [OF assms])
next
  fix level :: nat assume l: "level < 4" and s: "0 < sp \<and> sn \<le> 0"
  from l have l2: "(level + 2) mod 4 < 4" by simp
  from l consider "level = 0" | "level = 1" | "level = 2" | "level = 3" by linarith
  then show "getCsmMainLightViewport light (2 * real a) (2 * real b) level vp sp
             = getCsmMainLightViewport light (2 * real a) (2 * real b) ((level + 2) mod 4) vp sn"
    using s by cases (simp_all add: csm_viewport_even [OF assms])
qed

theorem csm_viewports_partition_even_witness:
  "\<not> dir_shadowFixedArea \<lparr>dir_shadowEnabled = True, dir_shadowFixedArea = False, dir_csmLevel = LEVEL_4\<rparr>
   \<and> dir_csmLevel \<lparr>dir_shadowEnabled = True, dir_shadowFixedArea = False, dir_csmLevel = LEVEL_4\<rparr> = LEVEL_4
   \<and> (0::nat) < 2
   \<and> ((0 \<le> (3::real) \<and> (3::real) < 2 * real 2 \<and> 0 \<le> (1::real) \<and> (1::real) < 2 * real 2)
        = (\<exists>level<4. in_viewport
             (getCsmMainLightViewport
                \<lparr>dir_shadowEnabled = True, dir_shadowFixedArea = False, dir_csmLevel = LEVEL_4\<rparr>
                (2 * real 2) (2 * real 2) level
                \<lparr>vp_left = 0, vp_top = 0, vp_width = 4, vp_height = 4\<rparr> 1) 3 1))"
proof -
  have h1: "\<not> dir_shadowFixedArea \<lparr>dir_shadowEnabled = True, dir_shadowFixedArea = False, dir_csmLevel = LEVEL_4\<rparr>"
    by simp
  have h2: "dir_csmLevel \<lparr>dir_shadowEnabled = True, dir_shadowFixedArea = False, dir_csmLevel = LEVEL_4\<rparr> = LEVEL_4"
    by simp
  have h3: "(0::nat) < 2" by simp
  from csm_viewports_partition_even [OF h1 h2 h3 h3, of 3 1 "\<lparr>vp_left = 0, vp_top = 0, vp_width = 4, vp_height = 4\<rparr>" 1]
  show ?thesis using h1 h2 h3 by blast
qed

text \<open>
  The claim as stated, for every size, fails on a 3 by 3 map: the point (2, 2) of the
  map is in none of the four viewports.
\<close>

theorem csm_viewports_odd_size_counterexample:
  "in_viewport \<lparr>vp_left = 0, vp_top = 0, vp_width = 3, vp_height = 3\<rparr> 2 2
  \<and> \<not> in_viewport (getCsmMainLightViewport
         \<lparr>dir_shadowEnabled = True, dir_shadowFixedArea = False, dir_csmLevel = LEVEL_4\<rparr>
         3 3 0 \<lparr>vp_left = 0, vp_top = 0, vp_width = 3, vp_height = 3\<rparr> 1) 2 2
  \<and> \<not> in_viewport (getCsmMainLightViewport
         \<lparr>dir_shadowEnabled = True, dir_shadowFixedArea = False, dir_csmLevel = LEVEL_4\<rparr>
         3 3 1 \<lparr>vp_left = 0, vp_top = 0, vp_width = 3, vp_height = 3\<rparr> 1) 2 2
  \<and> \<not> in_viewport (getCsmMainLightViewport
         \<lparr>dir_shadowEnabled = True, dir_shadowFixedArea = False, dir_csmLevel = LEVEL_4\<rparr>
         3 3 2 \<lparr>vp_left = 0, vp_top = 0, vp_width = 3, vp_height = 3\<rparr> 1) 2 2
  \<and> \<not> in_viewport (getCsmMainLightViewport
         \<lparr>dir_shadowEnabled = True, dir_shadowFixedArea = False, dir_csmLevel = LEVEL_4\<rparr>
         3 3 3 \<lparr>vp_left = 0, vp_top = 0, vp_width = 3, vp_height = 3\<rparr> 1) 2 2"
  by (simp add: in_viewport_def getCsmMainLightViewport_def Let_def Math_trunc_def Math_floor_def Math_max_def)

section \<open>Camera policy\<close>

lemma setupCameraConfigs_fields:
  assumes "setupCameraConfigs host camera pipelineConfigs cc0 = Inr cc"
  shows "pipelineSettings cc = resolvedSettings host camera"
    and "enablePostProcess cc =
          (useFloatOutput pipelineConfigs \<and> postProcessRequested host camera
           \<and> (isMainGameWindow camera \<or> isEditorView camera)
           \<and> (isEditorView camera \<longrightarrow> resolvedSettings host camera \<noteq> None))"
    and "enableShadingScale cc =
          (case resolvedSettings host camera of Some s \<Rightarrow> ps_enableShadingScale s | None \<Rightarrow> False)"
    and "shadingScale cc =
          (case resolvedSettings host camera of Some s \<Rightarrow> ps_shadingScale s | None \<Rightarrow> 1)"
  using assms
  by (auto simp: setupCameraConfigs_def Let_def isMainGameWindow_def isEditorView_def
        postProcessRequested_def resolvedSettings_def split: if_splits option.splits)

lemma windowResize_gate:
  assumes "resolvedSettings host camera = None"
  shows "map_sum id snd (windowResize g host this ppl window camera nativeWidth nativeHeight)
       = map_sum id snd (windowResize g host this ppl window (camera\<lparr>cam_usePostProcess := False\<rparr>)
                           nativeWidth nativeHeight)"
proof (cases "setupCameraConfigs host camera (setupPipelineConfigs host ppl (bfp_configs this))
                (bfp_cameraConfigs this)")
  case (Inl e)
  then have "setupCameraConfigs host (camera\<lparr>cam_usePostProcess := False\<rparr>)
                (setupPipelineConfigs host ppl (bfp_configs this)) (bfp_cameraConfigs this) = Inl e"
    by (simp add: setupCameraConfigs_def Let_def split: if_splits)
  with Inl show ?thesis by (simp add: windowResize_def Let_def)
next
  case (Inr cc)
  from setupCameraConfigs_fields [OF Inr] assms
  have f: "pipelineSettings cc = None" "\<not> enableShadingScale cc" by simp_all
  obtain cc' where cc': "setupCameraConfigs host (camera\<lparr>cam_usePostProcess := False\<rparr>)
                (setupPipelineConfigs host ppl (bfp_configs this)) (bfp_cameraConfigs this) = Inr cc'"
    using Inr by (auto simp add: setupCameraConfigs_def Let_def split: if_splits)
  have "resolvedSettings host (camera\<lparr>cam_usePostProcess := False\<rparr>) = None"
    using assms by (auto simp add: resolvedSettings_def isEditorView_def split: if_splits)
  with setupCameraConfigs_fields [OF cc']
  have f': "pipelineSettings cc' = None" "\<not> enableShadingScale cc'" by simp_all
  show ?thesis
    by (simp add: windowResize_def Let_def Inr cc' f f')
qed

text \<open>
  C8, as amended. After \<^verbatim>\<open>setupCameraConfigs\<close> the policy holds the resolved settings
  object. Post-processing is enabled exactly when float output is supported,
  post-processing is requested (by the camera, or for an editor view by the editor's
  pipeline camera), the camera is a main game window or an editor view and, for an editor
  view, a settings object resolves. Shading scale and its factor are those of the resolved
  object. When no settings object resolves, shading scale is disabled and the factor is 1;
  post-processing is disabled for an editor view, and for any other camera it keeps the
  value \<^verbatim>\<open>useFloatOutput && usePostProcess && isMainGameWindow\<close>; and \<^verbatim>\<open>windowResize\<close>, which
  tests \<^verbatim>\<open>enablePostProcess && settings != null\<close>, declares the resources it declares for the
  same camera not requesting post-processing.
\<close>

theorem setupCameraConfigs_policy:
  assumes "setupCameraConfigs host camera pipelineConfigs cc0 = Inr cc"
  shows "pipelineSettings cc = resolvedSettings host camera
       \<and> enablePostProcess cc =
           (useFloatOutput pipelineConfigs \<and> postProcessRequested host camera
            \<and> (isMainGameWindow camera \<or> isEditorView camera)
            \<and> (isEditorView camera \<longrightarrow> resolvedSettings host camera \<noteq> None))
       \<and> enableShadingScale cc =
           (case resolvedSettings host camera of
              Some s \<Rightarrow> ps_enableShadingScale s | None \<Rightarrow> False)
       \<and> shadingScale cc =
           (case resolvedSettings host camera of Some s \<Rightarrow> ps_shadingScale s | None \<Rightarrow> 1)
       \<and> (resolvedSettings host camera = None \<longrightarrow>
            \<not> enableShadingScale cc \<and> shadingScale cc = 1
            \<and> (isEditorView camera \<longrightarrow> \<not> enablePostProcess cc)
            \<and> (\<not> isEditorView camera \<longrightarrow>
                 enablePostProcess cc =
                   (useFloatOutput pipelineConfigs \<and> cam_usePostProcess camera
                    \<and> isMainGameWindow camera))
            \<and> map_sum id snd (windowResize g host this ppl window camera nativeWidth nativeHeight)
                = map_sum id snd
                    (windowResize g host this ppl window (camera\<lparr>cam_usePostProcess := False\<rparr>)
                       nativeWidth nativeHeight))"
proof -
  note f = setupCameraConfigs_fields [OF assms]
  have g: "resolvedSettings host camera = None \<Longrightarrow>
      map_sum id snd (windowResize g host this ppl window camera nativeWidth nativeHeight)
        = map_sum id snd
            (windowResize g host this ppl window (camera\<lparr>cam_usePostProcess := False\<rparr>)
               nativeWidth nativeHeight)"
    by (rule windowResize_gate)
  have p: "\<not> isEditorView camera \<Longrightarrow>
      postProcessRequested host camera = cam_usePostProcess camera"
    by (simp add: postProcessRequested_def)
  show ?thesis
    using f g p by auto
qed

theorem setupCameraConfigs_policy_witness:
  "setupCameraConfigs example_host
     (example_camera\<lparr>cam_cameraUsage := SCENE_VIEW\<rparr>)
     (PipelineConfigs_new\<lparr>useFloatOutput := True\<rparr>) CameraConfigs_new
   = Inr \<lparr>enableShadowMap = False, enablePostProcess = False, enableProfiler = False,
          enableShadingScale = False, shadingScale = 1, pipelineSettings = None\<rparr>
   \<and> isEditorView (example_camera\<lparr>cam_cameraUsage := SCENE_VIEW\<rparr>)"
proof -
  have h: "setupCameraConfigs example_host
     (example_camera\<lparr>cam_cameraUsage := SCENE_VIEW\<rparr>)
     (PipelineConfigs_new\<lparr>useFloatOutput := True\<rparr>) CameraConfigs_new
   = Inr \<lparr>enableShadowMap = False, enablePostProcess = False, enableProfiler = False,
          enableShadingScale = False, shadingScale = 1, pipelineSettings = None\<rparr>"
    by (simp add: setupCameraConfigs_def Let_def example_host_def example_camera_def
          example_scene_def example_window_def PipelineConfigs_new_def CameraConfigs_new_def)
  from setupCameraConfigs_policy [OF h] show ?thesis
    using h by (simp add: isEditorView_def example_camera_def)
qed

text \<open>
  The claim as stated fails for a game camera: without a settings object post-processing
  stays enabled in the policy (the builders test \<^verbatim>\<open>enablePostProcess && settings != null\<close>).
\<close>

theorem setupCameraConfigs_no_settings_counterexample:
  "setupCameraConfigs example_host example_camera
     (PipelineConfigs_new\<lparr>useFloatOutput := True\<rparr>) CameraConfigs_new
   = Inr \<lparr>enableShadowMap = False, enablePostProcess = True, enableProfiler = False,
          enableShadingScale = False, shadingScale = 1, pipelineSettings = None\<rparr>"
  by (simp add: setupCameraConfigs_def Let_def example_host_def example_camera_def
        example_scene_def example_window_def PipelineConfigs_new_def CameraConfigs_new_def)

section \<open>What the pass builders record\<close>

lemma addRenderPass_eq:
  "addRenderPass w h layout ppl =
     (length (ppl_passes ppl), ppl\<lparr>ppl_passes := ppl_passes ppl @ [fresh_pass w h layout]\<rparr>)"
  by (simp add: addRenderPass_def fresh_pass_def)

lemmas pass_ops = pass_setName_def pass_setViewport_def pass_addRenderTarget_def
  pass_addDepthStencil_def pass_addTexture_def pass_setVec4_def pass_addQueue_def
  pass_setShowStatistics_def

lemma update_pass_comp: "update_pass p f (update_pass p g ppl) = update_pass p (\<lambda>r. f (g r)) ppl"
  by (cases "p < length (ppl_passes ppl)") (simp_all add: update_pass_def list_update_beyond)

lemma update_pass_id: "update_pass p (\<lambda>r. r) ppl = ppl"
  by (simp add: update_pass_def)

lemma fold_addQueue:
  "fold (\<lambda>x. pass_addQueue p (mk x)) xs ppl =
     update_pass p (\<lambda>r. r\<lparr>pass_queues := pass_queues r @ map mk xs\<rparr>) ppl"
proof (induction xs arbitrary: ppl)
  case Nil
  show ?case by (simp add: update_pass_id)
next
  case (Cons x xs)
  show ?case by (simp add: Cons.IH) (simp add: pass_addQueue_def update_pass_comp)
qed

lemma addLightQueues_eq:
  "addLightQueues fl camera p ppl =
     update_pass p (\<lambda>r. r\<lparr>pass_queues := pass_queues r
        @ map (\<lambda>light. lit_queue (light_queue_name light) light) (lights fl)\<rparr>) ppl"
  unfolding addLightQueues_def
  by (simp only: fold_addQueue [symmetric] lit_queue_def light_queue_name_def)

lemma addMobileShadowPasses_loop_Cons:
  "addMobileShadowPasses_loop k i (l # ls) ppl =
     (if k \<le> Suc i
      then ppl\<lparr>ppl_passes := ppl_passes ppl @ [mobile_shadow_pass (ppl_shadows_size ppl) (i, l)]\<rparr>
      else addMobileShadowPasses_loop k (Suc i) ls
             (ppl\<lparr>ppl_passes := ppl_passes ppl @ [mobile_shadow_pass (ppl_shadows_size ppl) (i, l)]\<rparr>))"
  by (simp add: Let_def addRenderPass_eq pass_ops update_pass_def
        mobile_shadow_pass_def shadow_pass_def fresh_pass_def shadow_caster_queue_def)

lemma addMobileShadowPasses_loop_eq:
  "addMobileShadowPasses_loop k i ls ppl =
     ppl\<lparr>ppl_passes := ppl_passes ppl
        @ map (mobile_shadow_pass (ppl_shadows_size ppl)) (enumerate i (take (max 1 (k - i)) ls))\<rparr>"
proof (induction ls arbitrary: i ppl)
  case Nil
  show ?case by simp
next
  case (Cons l ls)
  show ?case
  proof (cases "k \<le> Suc i")
    case True
    then have "max 1 (k - i) = Suc 0" by simp
    with True show ?thesis
      by (simp only: addMobileShadowPasses_loop_Cons if_True take_Suc_Cons take_0 enumerate_simps list.map)
  next
    case False
    then have "i + 2 \<le> k" by simp
    then obtain n where k: "k = i + 2 + n" using le_Suc_ex by blast
    have t: "max 1 (k - i) = Suc (Suc n)" "max 1 (k - Suc i) = Suc n"
      by (simp_all add: k)
    have tk: "take (max 1 (k - i)) (l # ls) = l # take (max 1 (k - Suc i)) ls"
      unfolding t by simp
    from False show ?thesis
      unfolding tk
      by (simp add: addMobileShadowPasses_loop_Cons Cons.IH
            del: addMobileShadowPasses_loop.simps)
  qed
qed

lemma addLightPasses_fold_eq:
  "fold (addLightPasses_step cn dn ident w h) ls (p, ppl) =
     (if ls = [] then p else length (ppl_passes ppl) + 2 * length ls - 1,
      ppl\<lparr>ppl_passes := ppl_passes ppl
         @ concat (map (desktop_light_passes (ppl_shadows_size ppl) cn dn ident w h) ls)\<rparr>)"
proof (induction ls arbitrary: p ppl)
  case Nil
  show ?case by simp
next
  case (Cons l ls)
  have step: "addLightPasses_step cn dn ident w h l (p, ppl) =
      (Suc (length (ppl_passes ppl)),
       ppl\<lparr>ppl_passes := ppl_passes ppl @ desktop_light_passes (ppl_shadows_size ppl) cn dn ident w h l\<rparr>)"
    by (simp add: addLightPasses_step_def Let_def addRenderPass_eq pass_ops update_pass_def
          nth_append list_update_append desktop_light_passes_def shadow_pass_def fresh_pass_def
          shadow_caster_queue_def lit_queue_def)
  show ?case
    by (simp add: step Cons.IH desktop_light_passes_def)
qed

lemma addMobileLightQueues_loop_Cons:
  "addMobileLightQueues_loop p k i (l # ls) ppl =
     (if k \<le> Suc i
      then update_pass p (\<lambda>r. r\<lparr>pass_textures := pass_textures r @ [mobile_spot_texture (i, l)],
                                pass_queues := pass_queues r @ [mobile_spot_queue (i, l)]\<rparr>) ppl
      else addMobileLightQueues_loop p k (Suc i) ls
             (update_pass p (\<lambda>r. r\<lparr>pass_textures := pass_textures r @ [mobile_spot_texture (i, l)],
                                pass_queues := pass_queues r @ [mobile_spot_queue (i, l)]\<rparr>) ppl))"
  by (simp add: Let_def pass_addTexture_def pass_addQueue_def update_pass_comp
        mobile_spot_texture_def mobile_spot_queue_def lit_queue_def)

lemma addMobileLightQueues_loop_eq:
  "addMobileLightQueues_loop p k i ls ppl =
     update_pass p
       (\<lambda>r. r\<lparr>pass_textures := pass_textures r
                  @ map mobile_spot_texture (enumerate i (take (max 1 (k - i)) ls)),
               pass_queues := pass_queues r
                  @ map mobile_spot_queue (enumerate i (take (max 1 (k - i)) ls))\<rparr>) ppl"
proof (induction ls arbitrary: i ppl)
  case Nil
  show ?case by (simp add: update_pass_id)
next
  case (Cons l ls)
  show ?case
  proof (cases "k \<le> Suc i")
    case True
    then have "max 1 (k - i) = Suc 0" by simp
    with True show ?thesis
      by (simp only: addMobileLightQueues_loop_Cons if_True take_Suc_Cons take_0 enumerate_simps list.map)
  next
    case False
    then have "i + 2 \<le> k" by simp
    then obtain n where k: "k = i + 2 + n" using le_Suc_ex by blast
    have t: "max 1 (k - i) = Suc (Suc n)" "max 1 (k - Suc i) = Suc n"
      by (simp_all add: k)
    have tk: "take (max 1 (k - i)) (l # ls) = l # take (max 1 (k - Suc i)) ls"
      unfolding t by simp
    from False show ?thesis
      unfolding tk
      by (simp add: addMobileLightQueues_loop_Cons Cons.IH update_pass_comp
            del: addMobileLightQueues_loop.simps)
  qed
qed

lemma ppl_passes_update_pass:
  "ppl_passes (update_pass p f ppl) = (ppl_passes ppl)[p := f (ppl_passes ppl ! p)]"
  by (simp add: update_pass_def)

lemma ppl_shadows_size_update_pass [simp]:
  "ppl_shadows_size (update_pass p f ppl) = ppl_shadows_size ppl"
  by (simp add: update_pass_def)

lemma length_passes_update_pass [simp]:
  "length (ppl_passes (update_pass p f ppl)) = length (ppl_passes ppl)"
  by (simp add: update_pass_def)

lemma shadow_passes_desktop:
  "filter (\<lambda>r. pass_name r = ''SpotlightShadowPass'')
     (concat (map (desktop_light_passes sz cn dn ident w h) ls))
   = map (shadow_pass sz ''SpotlightShadowPass'' (''ShadowMap'' @ num_string ident)
            (''ShadowDepth'' @ num_string ident)) ls"
  by (induction ls) (simp_all add: desktop_light_passes_def shadow_pass_def fresh_pass_def)

text \<open>
  C2, as amended. With a maximum \<open>k \<ge> 1\<close> and more than \<open>k\<close> shadow-casting spot lights, the
  mobile functions handle exactly the first \<open>k\<close> of them: \<^verbatim>\<open>addMobileShadowPasses\<close> records
  \<open>k\<close> shadow-caster passes and \<^verbatim>\<open>addMobileLightQueues\<close> binds \<open>k\<close> shadow maps and adds \<open>k\<close>
  queues; nothing is recorded for the other lights. The desktop function
  \<^verbatim>\<open>addLightPasses\<close> takes no maximum: it records one shadow-caster pass and one lighting
  pass for every shadow-casting spot light.
\<close>

theorem spot_shadow_cap:
  assumes "1 \<le> k" "k < length (shadowEnabledSpotLights fl)"
  shows "ppl_passes (addMobileShadowPasses fl ppl camera k)
           = ppl_passes ppl @ map (mobile_shadow_pass (ppl_shadows_size ppl))
                                (enumerate 0 (take k (shadowEnabledSpotLights fl)))
       \<and> length (ppl_passes (addMobileShadowPasses fl ppl camera k)) = length (ppl_passes ppl) + k
       \<and> addMobileLightQueues fl pass camera k ppl
           = update_pass pass
               (\<lambda>r. r\<lparr>pass_textures := pass_textures r
                          @ map mobile_spot_texture (enumerate 0 (take k (shadowEnabledSpotLights fl))),
                       pass_queues := pass_queues r
                          @ map (\<lambda>light. lit_queue (light_queue_name light) light) (lights fl)
                          @ map mobile_spot_queue (enumerate 0 (take k (shadowEnabledSpotLights fl)))\<rparr>)
               ppl
       \<and> length (enumerate 0 (take k (shadowEnabledSpotLights fl))) = k
       \<and> ppl_passes (snd (addLightPasses fl cn dn ident w h camera ppl pass))
           = ppl_passes (addLightQueues fl camera pass ppl)
             @ concat (map (desktop_light_passes (ppl_shadows_size ppl) cn dn ident w h)
                         (shadowEnabledSpotLights fl))
       \<and> length (filter (\<lambda>r. pass_name r = ''SpotlightShadowPass'')
                   (concat (map (desktop_light_passes (ppl_shadows_size ppl) cn dn ident w h)
                              (shadowEnabledSpotLights fl))))
           = length (shadowEnabledSpotLights fl)"
proof -
  from assms have m: "max (Suc 0) k = k" by simp
  have a: "ppl_passes (addMobileShadowPasses fl ppl camera k)
           = ppl_passes ppl @ map (mobile_shadow_pass (ppl_shadows_size ppl))
                                (enumerate 0 (take k (shadowEnabledSpotLights fl)))"
    by (simp add: addMobileShadowPasses_def addMobileShadowPasses_loop_eq m)
  have len: "length (enumerate 0 (take k (shadowEnabledSpotLights fl))) = k"
    using assms by simp
  have b: "length (ppl_passes (addMobileShadowPasses fl ppl camera k)) = length (ppl_passes ppl) + k"
    unfolding a using len by simp
  have c: "addMobileLightQueues fl pass camera k ppl
           = update_pass pass
               (\<lambda>r. r\<lparr>pass_textures := pass_textures r
                          @ map mobile_spot_texture (enumerate 0 (take k (shadowEnabledSpotLights fl))),
                       pass_queues := pass_queues r
                          @ map (\<lambda>light. lit_queue (light_queue_name light) light) (lights fl)
                          @ map mobile_spot_queue (enumerate 0 (take k (shadowEnabledSpotLights fl)))\<rparr>)
               ppl"
    by (simp add: addMobileLightQueues_def addMobileLightQueues_loop_eq m addLightQueues_eq
          update_pass_comp)
  have d: "ppl_passes (snd (addLightPasses fl cn dn ident w h camera ppl pass))
           = ppl_passes (addLightQueues fl camera pass ppl)
             @ concat (map (desktop_light_passes (ppl_shadows_size ppl) cn dn ident w h)
                         (shadowEnabledSpotLights fl))"
    by (simp add: addLightPasses_def addLightPasses_fold_eq addLightQueues_eq)
  have e: "length (filter (\<lambda>r. pass_name r = ''SpotlightShadowPass'')
                   (concat (map (desktop_light_passes (ppl_shadows_size ppl) cn dn ident w h)
                              (shadowEnabledSpotLights fl))))
           = length (shadowEnabledSpotLights fl)"
    by (simp add: shadow_passes_desktop)
  from a b c len d e show ?thesis by blast
qed

theorem spot_shadow_cap_witness:
  "(1::nat) \<le> 1
   \<and> 1 < length (shadowEnabledSpotLights
                  (ForwardLighting_new\<lparr>shadowEnabledSpotLights := [example_spot 1, example_spot 2]\<rparr>))
   \<and> length (ppl_passes (addMobileShadowPasses
        (ForwardLighting_new\<lparr>shadowEnabledSpotLights := [example_spot 1, example_spot 2]\<rparr>)
        example_ppl example_camera 1)) = length (ppl_passes example_ppl) + 1"
proof -
  have h1: "(1::nat) \<le> 1" by simp
  have h2: "1 < length (shadowEnabledSpotLights
                  (ForwardLighting_new\<lparr>shadowEnabledSpotLights := [example_spot 1, example_spot 2]\<rparr>))"
    by simp
  from spot_shadow_cap [OF h1 h2, of example_ppl example_camera]
  show ?thesis using h1 h2 by blast
qed

text \<open>
  The claim as stated fails on desktop: with the configured maximum 1 and two
  shadow-casting spot lights \<^verbatim>\<open>addLightPasses\<close> records two shadow-caster passes.
\<close>

theorem desktop_spot_shadow_uncapped_counterexample:
  "mobileMaxSpotLightShadowMaps PipelineConfigs_new = 1
   \<and> map pass_name (ppl_passes (snd (addLightPasses
        (ForwardLighting_new\<lparr>shadowEnabledSpotLights := [example_spot 1, example_spot 2]\<rparr>)
        ''Color0'' ''DepthStencil0'' 0 1280 720 example_camera
        (snd (addRenderPass 1280 720 ''default'' example_ppl)) 0)))
     = ['''', ''SpotlightShadowPass'', ''SpotlightWithShadowMap'',
        ''SpotlightShadowPass'', ''SpotlightWithShadowMap'']"
  unfolding addLightPasses_def addLightPasses_fold_eq
  by (simp add: PipelineConfigs_new_def addLightQueues_eq
        ForwardLighting_new_def addRenderPass_eq example_ppl_def update_pass_def
        desktop_light_passes_def shadow_pass_def fresh_pass_def)

lemma addCopyPass_eq:
  "addCopyPass this ppl w h input output =
     (length (ppl_passes ppl), ppl\<lparr>ppl_passes := ppl_passes ppl @ [copy_pass this w h input output]\<rparr>)"
  by (simp add: addCopyPass_def addRenderPass_eq pass_ops update_pass_def copy_pass_def
        black_target_def quad_queue_def fresh_pass_def)

lemma addCopyAndTonemapPass_eq:
  "addCopyAndTonemapPass this ppl w h rn cn =
     (length (ppl_passes ppl), ppl\<lparr>ppl_passes := ppl_passes ppl @ [tonemap_pass this w h rn cn]\<rparr>)"
  by (simp add: addCopyAndTonemapPass_def addRenderPass_eq pass_ops update_pass_def tonemap_pass_def
        black_target_def quad_queue_def fresh_pass_def)

lemma addFxaaPass_eq:
  "addFxaaPass this ppl w h ldr col =
     (this\<lparr>bfp_fxaaMaterial :=
         Material_setProperty ''texSize'' (Vec4_new w h (1 / w) (1 / h)) (bfp_fxaaMaterial this)\<rparr>,
      length (ppl_passes ppl), ppl\<lparr>ppl_passes := ppl_passes ppl @ [fxaa_pass this w h ldr col]\<rparr>)"
  by (simp add: addFxaaPass_def addRenderPass_eq pass_ops update_pass_def fxaa_pass_def
        black_target_def quad_queue_def fresh_pass_def)

lemma addDepthOfFieldPasses_eq:
  "addDepthOfFieldPasses this ppl settings ident camera width height drn ds rn =
     (dof_state this settings width height,
      ppl\<lparr>ppl_passes := ppl_passes ppl @ dof_passes this ident width height drn ds rn\<rparr>)"
  unfolding addDepthOfFieldPasses_def Let_def addRenderPass_eq pass_ops dof_passes_def dof_state_def
  by (simp add: update_pass_def nth_append list_update_append fresh_pass_def black_target_def
        quad_queue_def)

lemma buildForwardMainLightPass_eq:
  "buildForwardMainLightPass this p ident camera cn dn ml ppl =
     update_pass p (main_light_update this ident camera cn dn ml) ppl"
  by (simp add: buildForwardMainLightPass_def Let_def pass_ops update_pass_comp
        main_light_update_def [abs_def] update_pass_id)

lemma addUIQueue_eq: "addUIQueue this camera p ppl = update_pass p (ui_update this) ppl"
  by (simp add: addUIQueue_def pass_ops update_pass_comp ui_update_def [abs_def] ui_queue_def)

lemma update_pass_last:
  "update_pass (length xs) f (ppl\<lparr>ppl_passes := xs @ [r]\<rparr>) = ppl\<lparr>ppl_passes := xs @ [f r]\<rparr>"
  by (simp add: update_pass_def)

lemma update_pass_last_gen:
  "ys \<noteq> [] \<Longrightarrow> p = length xs + length ys - 1 \<Longrightarrow>
   update_pass p f (ppl\<lparr>ppl_passes := xs @ ys\<rparr>) = ppl\<lparr>ppl_passes := xs @ map_last f ys\<rparr>"
proof -
  assume ys: "ys \<noteq> []" and p: "p = length xs + length ys - 1"
  then obtain zs z where z: "ys = zs @ [z]" by (metis append_butlast_last_id)
  have "update_pass (length (xs @ zs)) f (ppl\<lparr>ppl_passes := (xs @ zs) @ [z]\<rparr>)
          = ppl\<lparr>ppl_passes := (xs @ zs) @ [f z]\<rparr>"
    by (rule update_pass_last)
  then show ?thesis using p by (simp add: z map_last_def)
qed

lemma bfp_forwardLighting_prepare [simp]:
  "bfp_forwardLighting (prepareDynamicStates this camera w h) = bfp_forwardLighting this"
  "bfp_configs (prepareDynamicStates this camera w h) = bfp_configs this"
  "bfp_cameraConfigs (prepareDynamicStates this camera w h) = bfp_cameraConfigs this"
  "bfp_initialized (prepareDynamicStates this camera w h) = bfp_initialized this"
  "bfp_clearColorOpaqueBlack (prepareDynamicStates this camera w h) = bfp_clearColorOpaqueBlack this"
  by (simp_all add: prepareDynamicStates_def)

lemma addForwardRadiancePasses_eq:
  "addForwardRadiancePasses this ppl ident camera w h ml cn dn =
     (prepareDynamicStates this camera w h,
      length (ppl_passes ppl)
        + 2 * length (shadowEnabledSpotLights (bfp_forwardLighting this)),
      ppl\<lparr>ppl_passes := ppl_passes ppl
         @ map_last (add_queue (blend_queue ml))
             (forward_passes (prepareDynamicStates this camera w h) (ppl_shadows_size ppl)
                ident camera w h ml cn dn)\<rparr>)"
proof -
  let ?this1 = "prepareDynamicStates this camera w h"
  let ?ls = "shadowEnabledSpotLights (bfp_forwardLighting this)"
  let ?fp = "forward_pass ?this1 ident camera w h ml cn dn"
  have a: "addLightQueues (bfp_forwardLighting ?this1) camera (length (ppl_passes ppl))
             (buildForwardMainLightPass ?this1 (length (ppl_passes ppl)) ident camera cn dn ml
                (pass_setName (length (ppl_passes ppl)) ''ForwardPass''
                   (ppl\<lparr>ppl_passes := ppl_passes ppl @ [fresh_pass w h ''default'']\<rparr>)))
           = ppl\<lparr>ppl_passes := ppl_passes ppl @ [?fp]\<rparr>"
    by (simp add: addLightQueues_eq buildForwardMainLightPass_eq pass_setName_def update_pass_last
          forward_pass_def Let_def)
  have b: "addLightPasses (bfp_forwardLighting ?this1) cn dn ident w h camera
             (buildForwardMainLightPass ?this1 (length (ppl_passes ppl)) ident camera cn dn ml
                (pass_setName (length (ppl_passes ppl)) ''ForwardPass''
                   (ppl\<lparr>ppl_passes := ppl_passes ppl @ [fresh_pass w h ''default'']\<rparr>)))
             (length (ppl_passes ppl))
           = (length (ppl_passes ppl) + 2 * length ?ls,
              ppl\<lparr>ppl_passes := ppl_passes ppl
                 @ forward_passes ?this1 (ppl_shadows_size ppl) ident camera w h ml cn dn\<rparr>)"
    unfolding addLightPasses_def a addLightPasses_fold_eq
    by (auto simp add: forward_passes_def)
  have ne: "forward_passes ?this1 (ppl_shadows_size ppl) ident camera w h ml cn dn \<noteq> []"
    by (simp add: forward_passes_def)
  have len: "length (forward_passes ?this1 (ppl_shadows_size ppl) ident camera w h ml cn dn)
               = Suc (2 * length ?ls)"
    by (simp add: forward_passes_def length_concat o_def desktop_light_passes_def sum_list_triv)
  show ?thesis
    unfolding addForwardRadiancePasses_def Let_def addRenderPass_eq prod.case b
    by (simp add: pass_addQueue_def blend_queue_def [symmetric] add_queue_def [abs_def]
          update_pass_last_gen [OF ne] len)
qed

section \<open>What every builder keeps\<close>

lemma keeps_refl: "keeps a a"
  by (simp add: keeps_def)

lemma keeps_trans: "keeps a b \<Longrightarrow> keeps b c \<Longrightarrow> keeps a c"
  by (auto simp: keeps_def)

lemma fold_keeps:
  assumes "\<And>x a. keeps a (f x a)"
  shows "keeps a (fold f xs a)"
proof (induction xs arbitrary: a)
  case Nil
  show ?case by (simp add: keeps_refl)
next
  case (Cons x xs)
  have "keeps a (f x a)" by (rule assms)
  moreover have "keeps (f x a) (fold f xs (f x a))" by (rule Cons.IH)
  ultimately show ?case by (simp add: keeps_trans)
qed

lemma pass_sigs_append [simp]:
  "pass_sigs (ppl\<lparr>ppl_passes := xs @ ys\<rparr>) = set (map pass_sig xs) \<union> set (map pass_sig ys)"
  by (simp add: pass_sigs_def)

lemma pass_sigs_update_pass:
  assumes "\<And>r. pass_sig (f r) = pass_sig r"
  shows "pass_sigs (update_pass p f ppl) = pass_sigs ppl"
proof -
  have "map pass_sig ((ppl_passes ppl)[p := f (ppl_passes ppl ! p)]) = map pass_sig (ppl_passes ppl)"
  proof (cases "p < length (ppl_passes ppl)")
    case True
    have "map pass_sig ((ppl_passes ppl)[p := f (ppl_passes ppl ! p)])
            = (map pass_sig (ppl_passes ppl))[p := pass_sig (ppl_passes ppl ! p)]"
      by (simp add: map_update assms)
    also have "\<dots> = map pass_sig (ppl_passes ppl)"
      using True by (metis list_update_id map_update)
    finally show ?thesis .
  next
    case False
    then show ?thesis by (simp add: list_update_beyond)
  qed
  then show ?thesis by (simp add: pass_sigs_def update_pass_def)
qed

lemma keeps_bloom_size_step: "keeps (bloom_size_step i this, ppl) (this, ppl) \<and> keeps (this, ppl) (bloom_size_step i this, ppl)"
  by (simp add: keeps_def bloom_size_step_def)

lemma keeps_bloom_down_step: "keeps acc (bloom_down_step i acc)"
  by (cases acc)
     (auto simp add: keeps_def bloom_down_step_def Let_def addRenderPass_eq pass_ops update_pass_def
        pass_sigs_def)

lemma keeps_bloom_up_step: "keeps acc (bloom_up_step i acc)"
  by (cases acc)
     (auto simp add: keeps_def bloom_up_step_def Let_def addRenderPass_eq pass_ops update_pass_def
        pass_sigs_def)

lemma fold_this_inv:
  assumes "\<And>x t. P (f x t) = P t"
  shows "P (fold f xs t) = P t"
  by (induction xs arbitrary: t) (simp_all add: assms)

lemma bloom_step_core:
  "bfp_initialized (bloom_size_step i t) = bfp_initialized t"
  "bfp_configs (bloom_size_step i t) = bfp_configs t"
  "bfp_cameraConfigs (bloom_size_step i t) = bfp_cameraConfigs t"
  "bfp_initialized (bloom_name_step ident i t) = bfp_initialized t"
  "bfp_configs (bloom_name_step ident i t) = bfp_configs t"
  "bfp_cameraConfigs (bloom_name_step ident i t) = bfp_cameraConfigs t"
  by (simp_all add: bloom_size_step_def bloom_name_step_def)

lemma bloom_sizes_core:
  "bfp_initialized (fold bloom_size_step xs t) = bfp_initialized t"
  "bfp_configs (fold bloom_size_step xs t) = bfp_configs t"
  "bfp_cameraConfigs (fold bloom_size_step xs t) = bfp_cameraConfigs t"
  by (induction xs arbitrary: t) (simp_all add: bloom_size_step_def)

lemma bloom_names_core:
  "bfp_initialized (fold (bloom_name_step ident) xs t) = bfp_initialized t"
  "bfp_configs (fold (bloom_name_step ident) xs t) = bfp_configs t"
  "bfp_cameraConfigs (fold (bloom_name_step ident) xs t) = bfp_cameraConfigs t"
  by (induction xs arbitrary: t) (simp_all add: bloom_name_step_def)

lemma keeps_addKawase:
  "keeps (this, ppl) (addKawaseDualFilterBloomPasses this ppl settings ident w h rn)"
proof -
  define n where "n = bloom_iterations (ps_bloom settings)"
  define this8 where "this8 =
    (let this1 = this\<lparr>bfp_bloomWidths := Array_setLength (n + 1) 0 (bfp_bloomWidths this),
                      bfp_bloomHeights := Array_setLength (n + 1) 0 (bfp_bloomHeights this)\<rparr>;
          this2 = this1\<lparr>bfp_bloomWidths := (bfp_bloomWidths this1)[0 := Math_max (Math_floor (w / 2)) 1],
                       bfp_bloomHeights := (bfp_bloomHeights this1)[0 := Math_max (Math_floor (h / 2)) 1]\<rparr>;
          this3 = fold bloom_size_step [1 ..< n + 1] this2;
          this4 = this3\<lparr>bfp_bloomTexNames := Array_setLength (n + 1) [] (bfp_bloomTexNames this3)\<rparr>;
          this5 = fold (bloom_name_step ident) [0 ..< n + 1] this4;
          this6 = this5\<lparr>bfp_bloomParams := (bfp_bloomParams this5)
                    \<lparr>v4_x := (if useFloatOutput (bfp_configs this5) then 1 else 0)\<rparr>\<rparr>;
          this7 = this6\<lparr>bfp_bloomParams := (bfp_bloomParams this6)\<lparr>v4_x := 0\<rparr>\<rparr>
      in this7\<lparr>bfp_bloomParams := (bfp_bloomParams this7)
                    \<lparr>v4_z := bloom_threshold (ps_bloom settings),
                     v4_w := (if bloom_enableAlphaMask (ps_bloom settings) then 1 else 0)\<rparr>\<rparr>)"
  have core8: "bfp_initialized this8 = bfp_initialized this" "bfp_configs this8 = bfp_configs this"
    "bfp_cameraConfigs this8 = bfp_cameraConfigs this"
    by (simp_all add: this8_def Let_def bloom_sizes_core bloom_names_core bloom_step_core)
  define pre where "pre = (let (prefilterPass, p1) = addRenderPass (bfp_bloomWidths this8 ! 0) (bfp_bloomHeights this8 ! 0)
                                  ''bloom1-prefilter'' ppl;
          p2 = pass_addRenderTarget prefilterPass (bfp_bloomTexNames this8 ! 0) CLEAR (Some STORE)
                 (Some (bfp_clearColorOpaqueBlack this8)) p1;
          p3 = pass_addTexture prefilterPass rn ''inputTexture'' p2;
          p4 = pass_setVec4 prefilterPass ''g_platform'' (g_platform (bfp_configs this8)) p3;
          p5 = pass_setVec4 prefilterPass ''bloomParams'' (bfp_bloomParams this8) p4
      in pass_addQueue prefilterPass (queue1 QueueHint_OPAQUE None [] None (FullscreenQuad BloomMaterial 0)) p5)"
  have k1: "keeps (this, ppl) (this8, pre)"
    by (auto simp add: keeps_def core8 pre_def Let_def addRenderPass_eq pass_ops update_pass_def pass_sigs_def)
  define down where "down = fold bloom_down_step [1 ..< n + 1] (this8, pre)"
  define up where "up = fold bloom_up_step (rev [0 ..< n]) down"
  have k2: "keeps (this8, pre) down" unfolding down_def by (rule fold_keeps) (rule keeps_bloom_down_step)
  have k3: "keeps down up" unfolding up_def by (rule fold_keeps) (rule keeps_bloom_up_step)
  define fin where "fin = (let (combinePass, p9) = addRenderPass w h ''bloom1-combine'' (snd up);
          p10 = pass_addRenderTarget combinePass rn LOAD (Some STORE) None p9;
          p11 = pass_addTexture combinePass (bfp_bloomTexNames (fst up) ! 0) ''bloomTexture'' p10;
          p12 = pass_setVec4 combinePass ''g_platform'' (g_platform (bfp_configs (fst up))) p11;
          p13 = pass_setVec4 combinePass ''bloomParams'' (bfp_bloomParams (fst up)) p12;
          p14 = pass_addQueue combinePass (queue1 QueueHint_BLEND None [] None (FullscreenQuad BloomMaterial 3)) p13
      in (fst up, p14))"
  have k4: "keeps up fin"
    by (auto simp add: keeps_def fin_def Let_def addRenderPass_eq pass_ops update_pass_def pass_sigs_def)
  have eq: "addKawaseDualFilterBloomPasses this ppl settings ident w h rn = fin"
    unfolding addKawaseDualFilterBloomPasses_def fin_def up_def down_def pre_def this8_def n_def Let_def
    by (simp add: split_def)
  from k1 k2 k3 k4 show ?thesis unfolding eq by (blast intro: keeps_trans)
qed

lemma keeps_csm_level: "keeps acc (addCascadedShadowMapPass_level pass light w h level acc)"
  by (cases acc)
     (simp add: keeps_def addCascadedShadowMapPass_level_def Let_def pass_ops pass_sigs_update_pass
        pass_sig_def)

lemma keeps_addCascadedShadowMapPass:
  "keeps (this, ppl) (addCascadedShadowMapPass this ppl ident light camera)"
proof -
  define start where "start = (let width = v2_x (ppl_shadows_size ppl);
          height = v2_y (ppl_shadows_size ppl);
          this1 = this\<lparr>bfp_viewport :=
                    (bfp_viewport this)\<lparr>vp_left := 0, vp_top := 0,
                                        vp_width := width, vp_height := height\<rparr>\<rparr>;
          (pass, ppl1) = addRenderPass width height ''default'' ppl;
          ppl2 = pass_setName pass ''CSM'' ppl1;
          ppl3 = pass_addRenderTarget pass (''ShadowMap'' @ num_string ident)
                   CLEAR (Some STORE) (Some (Vec4_new 1 1 1 1)) ppl2
       in (this1, pass_addDepthStencil pass (''ShadowDepth'' @ num_string ident)
                   CLEAR (Some DISCARD) None None None ppl3))"
  have k1: "keeps (this, ppl) start"
    by (auto simp add: keeps_def start_def Let_def addRenderPass_eq pass_ops update_pass_def pass_sigs_def)
  have eq: "addCascadedShadowMapPass this ppl ident light camera =
     fold (addCascadedShadowMapPass_level (length (ppl_passes ppl)) light
             (v2_x (ppl_shadows_size ppl)) (v2_y (ppl_shadows_size ppl)))
       [0 ..< (if ppl_csmSupported ppl then csm_count (dir_csmLevel light) else 1)] start"
    unfolding addCascadedShadowMapPass_def start_def Let_def addRenderPass_eq by simp
  show ?thesis unfolding eq
    by (rule keeps_trans [OF k1]) (rule fold_keeps, rule keeps_csm_level)
qed

section \<open>The Kawase dual filter bloom chain\<close>

lemma length_Array_setLength [simp]: "length (Array_setLength n hole xs) = n"
  by (simp add: Array_setLength_def)

lemma bloom_size_Suc: "bloom_size v (Suc i) = halve (bloom_size v i)"
  by (simp add: bloom_size_def)

lemma bloom_size_0: "bloom_size v 0 = halve v"
  by (simp add: bloom_size_def)

lemma fold_bloom_size_step:
  assumes "length (bfp_bloomWidths t) = m" "length (bfp_bloomHeights t) = m"
    and "bfp_bloomWidths t ! 0 = bloom_size w 0" "bfp_bloomHeights t ! 0 = bloom_size h 0"
    and "k < m"
  shows "length (bfp_bloomWidths (fold bloom_size_step [1 ..< Suc k] t)) = m
       \<and> length (bfp_bloomHeights (fold bloom_size_step [1 ..< Suc k] t)) = m
       \<and> (\<forall>j\<le>k. bfp_bloomWidths (fold bloom_size_step [1 ..< Suc k] t) ! j = bloom_size w j)
       \<and> (\<forall>j\<le>k. bfp_bloomHeights (fold bloom_size_step [1 ..< Suc k] t) ! j = bloom_size h j)"
  using assms(5)
proof (induction k)
  case 0
  show ?case using assms(1-4) by simp
next
  case (Suc k)
  let ?t = "fold bloom_size_step [1 ..< Suc k] t"
  from Suc have IH: "length (bfp_bloomWidths ?t) = m" "length (bfp_bloomHeights ?t) = m"
    "\<forall>j\<le>k. bfp_bloomWidths ?t ! j = bloom_size w j"
    "\<forall>j\<le>k. bfp_bloomHeights ?t ! j = bloom_size h j"
    by simp_all
  have f: "fold bloom_size_step [1 ..< Suc (Suc k)] t = bloom_size_step (Suc k) ?t"
    by simp
  have wk: "bfp_bloomWidths ?t ! k = bloom_size w k" "bfp_bloomHeights ?t ! k = bloom_size h k"
    using IH(3,4) by simp_all
  show ?case
    unfolding f using IH Suc.prems
    by (auto simp add: bloom_size_step_def nth_list_update wk bloom_size_Suc halve_def
          less_Suc_eq_le le_Suc_eq)
qed

lemma bloom_sizes_other:
  "bfp_bloomTexNames (fold bloom_size_step xs t) = bfp_bloomTexNames t"
  "bfp_bloomParams (fold bloom_size_step xs t) = bfp_bloomParams t"
  "bfp_bloomTexSize (fold bloom_size_step xs t) = bfp_bloomTexSize t"
  "bfp_clearColorOpaqueBlack (fold bloom_size_step xs t) = bfp_clearColorOpaqueBlack t"
  by (induction xs arbitrary: t) (simp_all add: bloom_size_step_def)

lemma fold_bloom_name_step:
  assumes "length (bfp_bloomTexNames t) = m" "k \<le> m"
  shows "length (bfp_bloomTexNames (fold (bloom_name_step ident) [0 ..< k] t)) = m
       \<and> (\<forall>j<k. bfp_bloomTexNames (fold (bloom_name_step ident) [0 ..< k] t) ! j = bloom_tex ident j)"
  using assms(2)
proof (induction k)
  case 0
  show ?case using assms(1) by simp
next
  case (Suc k)
  then show ?case
    by (auto simp add: bloom_name_step_def nth_list_update bloom_tex_def less_Suc_eq)
qed

lemma bloom_names_other:
  "bfp_bloomWidths (fold (bloom_name_step ident) xs t) = bfp_bloomWidths t"
  "bfp_bloomHeights (fold (bloom_name_step ident) xs t) = bfp_bloomHeights t"
  "bfp_bloomParams (fold (bloom_name_step ident) xs t) = bfp_bloomParams t"
  "bfp_bloomTexSize (fold (bloom_name_step ident) xs t) = bfp_bloomTexSize t"
  "bfp_clearColorOpaqueBlack (fold (bloom_name_step ident) xs t) = bfp_clearColorOpaqueBlack t"
  by (induction xs arbitrary: t) (simp_all add: bloom_name_step_def)

lemma Vec4_xy: "(T :: Vec4)\<lparr>v4_x := a, v4_y := b\<rparr> = \<lparr>v4_x = a, v4_y = b, v4_z = v4_z T, v4_w = v4_w T\<rparr>"
  by (cases T) simp

lemma bloom_down_step_eq:
  assumes "bloom_ready this settings ident w h t" "1 \<le> i" "i \<le> bloom_iterations (ps_bloom settings)"
  shows "\<exists>t'. bloom_down_step i (t, p)
           = (t', p\<lparr>ppl_passes := ppl_passes p @ [bloom_down_pass this ident w h i]\<rparr>)
         \<and> bloom_ready this settings ident w h t'"
proof -
  from assms have a: "bfp_bloomWidths t ! i = bloom_size w i" "bfp_bloomHeights t ! i = bloom_size h i"
    "bfp_bloomTexNames t ! i = bloom_tex ident i"
    "bfp_bloomWidths t ! (i - 1) = bloom_size w (i - 1)"
    "bfp_bloomHeights t ! (i - 1) = bloom_size h (i - 1)"
    "bfp_bloomTexNames t ! (i - 1) = bloom_tex ident (i - 1)"
    "v4_z (bfp_bloomTexSize t) = v4_z (bfp_bloomTexSize this)"
    "v4_w (bfp_bloomTexSize t) = v4_w (bfp_bloomTexSize this)"
    "bfp_clearColorOpaqueBlack t = bfp_clearColorOpaqueBlack this"
    "bfp_configs t = bfp_configs this"
    by (simp_all add: bloom_ready_def)
  have r: "bloom_ready this settings ident w h
             (t\<lparr>bfp_bloomTexSize := (bfp_bloomTexSize t)
                    \<lparr>v4_x := bfp_bloomWidths t ! (i - 1),
                     v4_y := bfp_bloomHeights t ! (i - 1)\<rparr>\<rparr>)"
    using assms(1) by (simp add: bloom_ready_def)
  have "bloom_down_step i (t, p)
          = (t\<lparr>bfp_bloomTexSize := (bfp_bloomTexSize t)
                    \<lparr>v4_x := bfp_bloomWidths t ! (i - 1),
                     v4_y := bfp_bloomHeights t ! (i - 1)\<rparr>\<rparr>,
             p\<lparr>ppl_passes := ppl_passes p @ [bloom_down_pass this ident w h i]\<rparr>)"
    using a
    by (simp add: bloom_down_step_def Let_def addRenderPass_eq pass_ops update_pass_def
          bloom_down_pass_def fresh_pass_def black_target_def quad_queue_def bloom_texsize_def Vec4_xy)
  with r show ?thesis by blast
qed

lemma bloom_up_step_eq:
  assumes "bloom_ready this settings ident w h t" "i < bloom_iterations (ps_bloom settings)"
  shows "\<exists>t'. bloom_up_step i (t, p)
           = (t', p\<lparr>ppl_passes := ppl_passes p @ [bloom_up_pass this ident w h i]\<rparr>)
         \<and> bloom_ready this settings ident w h t'"
proof -
  from assms have a: "bfp_bloomWidths t ! i = bloom_size w i" "bfp_bloomHeights t ! i = bloom_size h i"
    "bfp_bloomTexNames t ! i = bloom_tex ident i"
    "bfp_bloomWidths t ! Suc i = bloom_size w (Suc i)"
    "bfp_bloomHeights t ! Suc i = bloom_size h (Suc i)"
    "bfp_bloomTexNames t ! Suc i = bloom_tex ident (Suc i)"
    "v4_z (bfp_bloomTexSize t) = v4_z (bfp_bloomTexSize this)"
    "v4_w (bfp_bloomTexSize t) = v4_w (bfp_bloomTexSize this)"
    "bfp_clearColorOpaqueBlack t = bfp_clearColorOpaqueBlack this"
    "bfp_configs t = bfp_configs this"
    by (simp_all add: bloom_ready_def)
  have r: "bloom_ready this settings ident w h
             (t\<lparr>bfp_bloomTexSize := (bfp_bloomTexSize t)
                    \<lparr>v4_x := bfp_bloomWidths t ! (i + 1),
                     v4_y := bfp_bloomHeights t ! (i + 1)\<rparr>\<rparr>)"
    using assms(1) by (simp add: bloom_ready_def)
  have "bloom_up_step i (t, p)
          = (t\<lparr>bfp_bloomTexSize := (bfp_bloomTexSize t)
                    \<lparr>v4_x := bfp_bloomWidths t ! (i + 1),
                     v4_y := bfp_bloomHeights t ! (i + 1)\<rparr>\<rparr>,
             p\<lparr>ppl_passes := ppl_passes p @ [bloom_up_pass this ident w h i]\<rparr>)"
    using a
    by (simp add: bloom_up_step_def Let_def addRenderPass_eq pass_ops update_pass_def
          bloom_up_pass_def fresh_pass_def black_target_def quad_queue_def bloom_texsize_def Vec4_xy)
  with r show ?thesis by blast
qed

lemma fold_bloom_down:
  assumes "bloom_ready this settings ident w h t"
    and "\<forall>i\<in>set xs. 1 \<le> i \<and> i \<le> bloom_iterations (ps_bloom settings)"
  shows "\<exists>t'. fold bloom_down_step xs (t, p)
           = (t', p\<lparr>ppl_passes := ppl_passes p @ map (bloom_down_pass this ident w h) xs\<rparr>)
         \<and> bloom_ready this settings ident w h t'"
  using assms
proof (induction xs arbitrary: t p)
  case Nil
  then show ?case by simp
next
  case (Cons x xs)
  from Cons.prems have x: "1 \<le> x" "x \<le> bloom_iterations (ps_bloom settings)" by simp_all
  from bloom_down_step_eq [OF Cons.prems(1) x, of p] obtain t1 where
    t1: "bloom_down_step x (t, p)
           = (t1, p\<lparr>ppl_passes := ppl_passes p @ [bloom_down_pass this ident w h x]\<rparr>)"
        "bloom_ready this settings ident w h t1" by blast
  from Cons.prems(2) have rest: "\<forall>i\<in>set xs. 1 \<le> i \<and> i \<le> bloom_iterations (ps_bloom settings)"
    by simp
  from Cons.IH [OF t1(2) rest, of "p\<lparr>ppl_passes := ppl_passes p @ [bloom_down_pass this ident w h x]\<rparr>"]
  show ?case by (simp add: t1(1))
qed

lemma fold_bloom_up:
  assumes "bloom_ready this settings ident w h t"
    and "\<forall>i\<in>set xs. i < bloom_iterations (ps_bloom settings)"
  shows "\<exists>t'. fold bloom_up_step xs (t, p)
           = (t', p\<lparr>ppl_passes := ppl_passes p @ map (bloom_up_pass this ident w h) xs\<rparr>)
         \<and> bloom_ready this settings ident w h t'"
  using assms
proof (induction xs arbitrary: t p)
  case Nil
  then show ?case by simp
next
  case (Cons x xs)
  from Cons.prems have x: "x < bloom_iterations (ps_bloom settings)" by simp
  from bloom_up_step_eq [OF Cons.prems(1) x, of p] obtain t1 where
    t1: "bloom_up_step x (t, p)
           = (t1, p\<lparr>ppl_passes := ppl_passes p @ [bloom_up_pass this ident w h x]\<rparr>)"
        "bloom_ready this settings ident w h t1" by blast
  from Cons.prems(2) have rest: "\<forall>i\<in>set xs. i < bloom_iterations (ps_bloom settings)"
    by simp
  from Cons.IH [OF t1(2) rest, of "p\<lparr>ppl_passes := ppl_passes p @ [bloom_up_pass this ident w h x]\<rparr>"]
  show ?case by (simp add: t1(1))
qed

lemma bloom_params_eq:
  "(P :: Vec4)\<lparr>v4_x := a\<rparr>\<lparr>v4_x := 0\<rparr>\<lparr>v4_z := c, v4_w := d\<rparr>
     = \<lparr>v4_x = 0, v4_y = v4_y P, v4_z = c, v4_w = d\<rparr>"
  by (cases P) simp

lemma bloom_sizes_cc:
  "bfp_cameraConfigs (fold bloom_size_step xs t) = bfp_cameraConfigs t"
  by (rule bloom_sizes_core)

lemma addKawaseDualFilterBloomPasses_eq:
  "\<exists>this'. addKawaseDualFilterBloomPasses this ppl settings ident w h radianceName
             = (this', ppl\<lparr>ppl_passes := ppl_passes ppl
                              @ bloom_passes this settings ident w h radianceName\<rparr>)
           \<and> bfp_clearColorOpaqueBlack this' = bfp_clearColorOpaqueBlack this
           \<and> bfp_configs this' = bfp_configs this
           \<and> bfp_cameraConfigs this' = bfp_cameraConfigs this"
proof -
  define n where "n = bloom_iterations (ps_bloom settings)"
  define this8 where "this8 =
    (let this1 = this\<lparr>bfp_bloomWidths := Array_setLength (n + 1) 0 (bfp_bloomWidths this),
                      bfp_bloomHeights := Array_setLength (n + 1) 0 (bfp_bloomHeights this)\<rparr>;
          this2 = this1\<lparr>bfp_bloomWidths := (bfp_bloomWidths this1)[0 := Math_max (Math_floor (w / 2)) 1],
                       bfp_bloomHeights := (bfp_bloomHeights this1)[0 := Math_max (Math_floor (h / 2)) 1]\<rparr>;
          this3 = fold bloom_size_step [1 ..< n + 1] this2;
          this4 = this3\<lparr>bfp_bloomTexNames := Array_setLength (n + 1) [] (bfp_bloomTexNames this3)\<rparr>;
          this5 = fold (bloom_name_step ident) [0 ..< n + 1] this4;
          this6 = this5\<lparr>bfp_bloomParams := (bfp_bloomParams this5)
                    \<lparr>v4_x := (if useFloatOutput (bfp_configs this5) then 1 else 0)\<rparr>\<rparr>;
          this7 = this6\<lparr>bfp_bloomParams := (bfp_bloomParams this6)\<lparr>v4_x := 0\<rparr>\<rparr>
      in this7\<lparr>bfp_bloomParams := (bfp_bloomParams this7)
                    \<lparr>v4_z := bloom_threshold (ps_bloom settings),
                     v4_w := (if bloom_enableAlphaMask (ps_bloom settings) then 1 else 0)\<rparr>\<rparr>)"
  define this2 where "this2 =
    this\<lparr>bfp_bloomWidths := (Array_setLength (n + 1) 0 (bfp_bloomWidths this))
                               [0 := Math_max (Math_floor (w / 2)) 1],
         bfp_bloomHeights := (Array_setLength (n + 1) 0 (bfp_bloomHeights this))
                               [0 := Math_max (Math_floor (h / 2)) 1]\<rparr>"
  define this3 where "this3 = fold bloom_size_step [1 ..< n + 1] this2"
  define this5 where "this5 = fold (bloom_name_step ident) [0 ..< n + 1]
       (this3\<lparr>bfp_bloomTexNames := Array_setLength (n + 1) [] (bfp_bloomTexNames this3)\<rparr>)"
  have e8: "this8 =
     this5\<lparr>bfp_bloomParams := (bfp_bloomParams this5)
              \<lparr>v4_x := (if useFloatOutput (bfp_configs this5) then 1 else 0)\<rparr>
              \<lparr>v4_x := 0\<rparr>
              \<lparr>v4_z := bloom_threshold (ps_bloom settings),
               v4_w := (if bloom_enableAlphaMask (ps_bloom settings) then 1 else 0)\<rparr>\<rparr>"
    unfolding this8_def this5_def this3_def this2_def Let_def by (simp del: upt_Suc)
  have s3: "length (bfp_bloomWidths this3) = Suc n \<and> length (bfp_bloomHeights this3) = Suc n
       \<and> (\<forall>j\<le>n. bfp_bloomWidths this3 ! j = bloom_size w j)
       \<and> (\<forall>j\<le>n. bfp_bloomHeights this3 ! j = bloom_size h j)"
    unfolding this3_def Suc_eq_plus1 [symmetric]
    by (rule fold_bloom_size_step) (simp_all add: this2_def bloom_size_0 halve_def)
  have s5: "length (bfp_bloomTexNames this5) = Suc n
       \<and> (\<forall>j<Suc n. bfp_bloomTexNames this5 ! j = bloom_tex ident j)"
    unfolding this5_def Suc_eq_plus1 [symmetric]
    by (rule fold_bloom_name_step) simp_all
  have o5: "bfp_bloomWidths this5 = bfp_bloomWidths this3" "bfp_bloomHeights this5 = bfp_bloomHeights this3"
    "bfp_bloomParams this5 = bfp_bloomParams this" "bfp_bloomTexSize this5 = bfp_bloomTexSize this"
    "bfp_clearColorOpaqueBlack this5 = bfp_clearColorOpaqueBlack this"
    "bfp_configs this5 = bfp_configs this"
    by (simp_all add: this5_def this3_def this2_def bloom_names_other bloom_sizes_other
          bloom_names_core bloom_sizes_core del: upt_Suc)
  have ready: "bloom_ready this settings ident w h this8"
    using s3 s5
    by (simp add: bloom_ready_def e8 o5 n_def [symmetric] bloom_params_eq bloom_params_def
          less_Suc_eq_le)
  define pre where "pre = (let (prefilterPass, p1) = addRenderPass (bfp_bloomWidths this8 ! 0) (bfp_bloomHeights this8 ! 0)
                                  ''bloom1-prefilter'' ppl;
          p2 = pass_addRenderTarget prefilterPass (bfp_bloomTexNames this8 ! 0) CLEAR (Some STORE)
                 (Some (bfp_clearColorOpaqueBlack this8)) p1;
          p3 = pass_addTexture prefilterPass radianceName ''inputTexture'' p2;
          p4 = pass_setVec4 prefilterPass ''g_platform'' (g_platform (bfp_configs this8)) p3;
          p5 = pass_setVec4 prefilterPass ''bloomParams'' (bfp_bloomParams this8) p4
      in pass_addQueue prefilterPass (queue1 QueueHint_OPAQUE None [] None (FullscreenQuad BloomMaterial 0)) p5)"
  from ready have r0: "bfp_bloomWidths this8 ! 0 = bloom_size w 0"
    "bfp_bloomHeights this8 ! 0 = bloom_size h 0" "bfp_bloomTexNames this8 ! 0 = bloom_tex ident 0"
    "bfp_bloomParams this8 = bloom_params this settings"
    "bfp_clearColorOpaqueBlack this8 = bfp_clearColorOpaqueBlack this"
    "bfp_configs this8 = bfp_configs this"
    by (simp_all add: bloom_ready_def)
  have pre_eq: "pre = ppl\<lparr>ppl_passes := ppl_passes ppl
      @ [bloom_prefilter_pass this settings ident w h radianceName]\<rparr>"
    by (simp add: pre_def r0 Let_def addRenderPass_eq pass_ops update_pass_def
          bloom_prefilter_pass_def fresh_pass_def black_target_def quad_queue_def)
  define down where "down = fold bloom_down_step [1 ..< n + 1] (this8, pre)"
  define up where "up = fold bloom_up_step (rev [0 ..< n]) down"
  define fin where "fin = (let (combinePass, p9) = addRenderPass w h ''bloom1-combine'' (snd up);
          p10 = pass_addRenderTarget combinePass radianceName LOAD (Some STORE) None p9;
          p11 = pass_addTexture combinePass (bfp_bloomTexNames (fst up) ! 0) ''bloomTexture'' p10;
          p12 = pass_setVec4 combinePass ''g_platform'' (g_platform (bfp_configs (fst up))) p11;
          p13 = pass_setVec4 combinePass ''bloomParams'' (bfp_bloomParams (fst up)) p12;
          p14 = pass_addQueue combinePass (queue1 QueueHint_BLEND None [] None (FullscreenQuad BloomMaterial 3)) p13
      in (fst up, p14))"
  have eq: "addKawaseDualFilterBloomPasses this ppl settings ident w h radianceName = fin"
    unfolding addKawaseDualFilterBloomPasses_def fin_def up_def down_def pre_def this8_def n_def Let_def
    by (simp add: split_def)
  have dom1: "\<forall>i\<in>set [1 ..< n + 1]. 1 \<le> i \<and> i \<le> bloom_iterations (ps_bloom settings)"
    by (auto simp: n_def)
  from fold_bloom_down [OF ready dom1, of pre] obtain t9 where
    t9: "down = (t9, pre\<lparr>ppl_passes := ppl_passes pre
                @ map (bloom_down_pass this ident w h) [1 ..< n + 1]\<rparr>)"
        "bloom_ready this settings ident w h t9" unfolding down_def by blast
  have dom2: "\<forall>i\<in>set (rev [0 ..< n]). i < bloom_iterations (ps_bloom settings)"
    by (auto simp: n_def)
  from fold_bloom_up [OF t9(2) dom2,
      of "pre\<lparr>ppl_passes := ppl_passes pre @ map (bloom_down_pass this ident w h) [1 ..< n + 1]\<rparr>"]
  obtain t10 where
    t10: "up = (t10, pre\<lparr>ppl_passes := ppl_passes pre
                @ map (bloom_down_pass this ident w h) [1 ..< n + 1]
                @ map (bloom_up_pass this ident w h) (rev [0 ..< n])\<rparr>)"
        "bloom_ready this settings ident w h t10" unfolding up_def t9(1) by auto
  from t10(2) have r10: "bfp_bloomTexNames t10 ! 0 = bloom_tex ident 0"
    "bfp_bloomParams t10 = bloom_params this settings"
    "bfp_configs t10 = bfp_configs this"
    by (simp_all add: bloom_ready_def)
  have fin1: "fin = (fst up, (snd up)\<lparr>ppl_passes := ppl_passes (snd up) @
           [(fresh_pass w h ''bloom1-combine'')
              \<lparr>pass_renderTargets := [\<lparr>rt_name = radianceName, rt_loadOp = LOAD,
                                        rt_storeOp = Some STORE, rt_clearColor = None\<rparr>],
               pass_textures := [(bfp_bloomTexNames (fst up) ! 0, ''bloomTexture'')],
               pass_vec4s := [(''g_platform'', g_platform (bfp_configs (fst up))),
                              (''bloomParams'', bfp_bloomParams (fst up))],
               pass_queues := [quad_queue QueueHint_BLEND BloomMaterial 3]\<rparr>]\<rparr>)"
    unfolding fin_def
    by (simp add: Let_def addRenderPass_eq pass_ops update_pass_def fresh_pass_def quad_queue_def)
  have "fin = (t10, ppl\<lparr>ppl_passes := ppl_passes ppl
                              @ bloom_passes this settings ident w h radianceName\<rparr>)"
    unfolding fin1 t10(1) pre_eq
    by (simp add: r10 bloom_passes_def bloom_combine_pass_def n_def del: upt_Suc)
  moreover from t10(2) have "bfp_clearColorOpaqueBlack t10 = bfp_clearColorOpaqueBlack this"
    "bfp_configs t10 = bfp_configs this"
    by (simp_all add: bloom_ready_def)
  moreover have "bfp_cameraConfigs (fst fin) = bfp_cameraConfigs this"
    using keeps_addKawase [of this ppl settings ident w h radianceName]
    by (simp add: keeps_def eq)
  ultimately show ?thesis using eq by simp
qed

section \<open>The cascaded shadow map pass\<close>

lemma getCsmMainLightViewport_indep:
  "getCsmMainLightViewport light w h level vp s = getCsmMainLightViewport light w h level vp' s"
  by (cases vp; cases vp') (simp add: getCsmMainLightViewport_def Let_def)

lemma fold_csm_level:
  "\<exists>V. fold (addCascadedShadowMapPass_level p light w h) levels (t, q)
       = (t\<lparr>bfp_viewport := V\<rparr>,
          update_pass p (\<lambda>r. r\<lparr>pass_queues := pass_queues r
             @ map (csm_queue light w h (screenSpaceSignY (bfp_configs t))) levels\<rparr>) q)"
proof (induction levels arbitrary: t q)
  case Nil
  show ?case by (rule exI [of _ "bfp_viewport t"]) (simp add: update_pass_id)
next
  case (Cons level levels)
  let ?vp = "getCsmMainLightViewport light w h level (bfp_viewport t) (screenSpaceSignY (bfp_configs t))"
  have step: "addCascadedShadowMapPass_level p light w h level (t, q)
     = (t\<lparr>bfp_viewport := ?vp\<rparr>,
        update_pass p (\<lambda>r. r\<lparr>pass_queues := pass_queues r
          @ [csm_queue light w h (screenSpaceSignY (bfp_configs t)) level]\<rparr>) q)"
    by (simp add: addCascadedShadowMapPass_level_def Let_def pass_addQueue_def csm_queue_def
          shadow_caster_queue_def
          getCsmMainLightViewport_indep [of light w h level "bfp_viewport t" _
             "\<lparr>vp_left = 0, vp_top = 0, vp_width = w, vp_height = h\<rparr>"])
  from Cons.IH [of "t\<lparr>bfp_viewport := ?vp\<rparr>"
      "update_pass p (\<lambda>r. r\<lparr>pass_queues := pass_queues r
          @ [csm_queue light w h (screenSpaceSignY (bfp_configs t)) level]\<rparr>) q"]
  obtain V where V: "fold (addCascadedShadowMapPass_level p light w h) levels
       (t\<lparr>bfp_viewport := ?vp\<rparr>,
        update_pass p (\<lambda>r. r\<lparr>pass_queues := pass_queues r
          @ [csm_queue light w h (screenSpaceSignY (bfp_configs t)) level]\<rparr>) q)
     = (t\<lparr>bfp_viewport := ?vp\<rparr>\<lparr>bfp_viewport := V\<rparr>,
        update_pass p (\<lambda>r. r\<lparr>pass_queues := pass_queues r
             @ map (csm_queue light w h (screenSpaceSignY (bfp_configs (t\<lparr>bfp_viewport := ?vp\<rparr>)))) levels\<rparr>)
          (update_pass p (\<lambda>r. r\<lparr>pass_queues := pass_queues r
          @ [csm_queue light w h (screenSpaceSignY (bfp_configs t)) level]\<rparr>) q))"
    by blast
  show ?case
    by (rule exI [of _ V]) (simp add: step V update_pass_comp)
qed

lemma addCascadedShadowMapPass_eq:
  "\<exists>V. addCascadedShadowMapPass this ppl ident light camera
       = (this\<lparr>bfp_viewport := V\<rparr>,
          ppl\<lparr>ppl_passes := ppl_passes ppl @ [csm_pass this ppl ident light]\<rparr>)"
proof -
  define w where "w = v2_x (ppl_shadows_size ppl)"
  define h where "h = v2_y (ppl_shadows_size ppl)"
  define levels where
    "levels = [0 ..< (if ppl_csmSupported ppl then csm_count (dir_csmLevel light) else 1)]"
  define t where "t = this\<lparr>bfp_viewport := (bfp_viewport this)\<lparr>vp_left := 0, vp_top := 0,
                                        vp_width := w, vp_height := h\<rparr>\<rparr>"
  define r where "r = (fresh_pass w h ''default'')
       \<lparr>pass_name := ''CSM'',
        pass_renderTargets := [\<lparr>rt_name = ''ShadowMap'' @ num_string ident, rt_loadOp = CLEAR,
                                 rt_storeOp = Some STORE, rt_clearColor = Some (Vec4_new 1 1 1 1)\<rparr>],
        pass_depthStencils := [\<lparr>ds_name = ''ShadowDepth'' @ num_string ident, ds_loadOp = CLEAR,
                                 ds_storeOp = Some DISCARD, ds_depth = None, ds_stencil = None,
                                 ds_clearFlags = None\<rparr>]\<rparr>"
  have eq: "addCascadedShadowMapPass this ppl ident light camera =
     fold (addCascadedShadowMapPass_level (length (ppl_passes ppl)) light w h) levels
       (t, ppl\<lparr>ppl_passes := ppl_passes ppl @ [r]\<rparr>)"
    unfolding addCascadedShadowMapPass_def Let_def addRenderPass_eq levels_def w_def h_def t_def r_def
    by (simp add: pass_ops update_pass_def fresh_pass_def del: upt_Suc)
  from fold_csm_level [of "length (ppl_passes ppl)" light w h levels t "ppl\<lparr>ppl_passes := ppl_passes ppl @ [r]\<rparr>"]
  obtain V where V: "fold (addCascadedShadowMapPass_level (length (ppl_passes ppl)) light w h) levels
          (t, ppl\<lparr>ppl_passes := ppl_passes ppl @ [r]\<rparr>)
       = (t\<lparr>bfp_viewport := V\<rparr>,
          update_pass (length (ppl_passes ppl)) (\<lambda>r. r\<lparr>pass_queues := pass_queues r
             @ map (csm_queue light w h (screenSpaceSignY (bfp_configs t))) levels\<rparr>)
            (ppl\<lparr>ppl_passes := ppl_passes ppl @ [r]\<rparr>))"
    by blast
  have a: "t\<lparr>bfp_viewport := V\<rparr> = this\<lparr>bfp_viewport := V\<rparr>"
    by (simp add: t_def)
  have c: "bfp_configs t = bfp_configs this" by (simp add: t_def)
  have b: "r\<lparr>pass_queues := pass_queues r
             @ map (csm_queue light w h (screenSpaceSignY (bfp_configs this))) levels\<rparr>
           = csm_pass this ppl ident light"
    by (simp add: r_def csm_pass_def fresh_pass_def w_def h_def levels_def)
  have "addCascadedShadowMapPass this ppl ident light camera
       = (this\<lparr>bfp_viewport := V\<rparr>,
          ppl\<lparr>ppl_passes := ppl_passes ppl @ [csm_pass this ppl ident light]\<rparr>)"
    unfolding eq V a c update_pass_last b ..
  then show ?thesis ..
qed

section \<open>The desktop pipeline\<close>

lemma map_last_map_last: "map_last f (map_last g xs) = map_last (\<lambda>r. f (g r)) xs"
  by (simp add: map_last_def)

lemma map_last_single: "map_last f [x] = [f x]"
  by (simp add: map_last_def)

lemma map_last_Nil_iff: "(map_last f xs = []) = (xs = [])"
  by (simp add: map_last_def)

lemma length_map_last: "length (map_last f xs) = length xs"
  by (cases "xs = []") (simp_all add: map_last_def)

lemma forward_passes_ne: "forward_passes this sz ident camera w h ml cn dn \<noteq> []"
  by (simp add: forward_passes_def)

lemma length_forward_passes:
  "length (forward_passes this sz ident camera w h ml cn dn)
     = Suc (2 * length (shadowEnabledSpotLights (bfp_forwardLighting this)))"
  by (simp add: forward_passes_def length_concat o_def desktop_light_passes_def sum_list_triv)

lemma buildForwardPipeline_ldr:
  assumes w: "cam_window camera = Some window"
    and c: "\<not> useFloatOutput (bfp_configs this)" "\<not> enableShadingScale (bfp_cameraConfigs this)"
      "\<not> enableShadowMap (bfp_cameraConfigs this)"
  shows "buildForwardPipeline g this ppl camera scene =
    Inr (desktop_state g this camera scene (native_size (win_width window)) (native_size (win_height window)),
         ppl\<lparr>ppl_passes := ppl_passes ppl
            @ map_last (\<lambda>r. ui_update this (add_queue (blend_queue (mainLight scene)) r))
                (forward_passes
                   (desktop_state g this camera scene (native_size (win_width window))
                      (native_size (win_height window)))
                   (ppl_shadows_size ppl) (win_renderWindowId window) camera
                   (native_size (win_width window)) (native_size (win_height window))
                   (mainLight scene) (win_colorName window) (win_depthStencilName window))\<rparr>)"
proof -
  let ?nw = "native_size (win_width window)" and ?nh = "native_size (win_height window)"
  let ?this1 = "this\<lparr>bfp_forwardLighting :=
               cullLights g scene (cam_frustum camera) None (bfp_forwardLighting this)\<rparr>"
  let ?this3 = "desktop_state g this camera scene ?nw ?nh"
  let ?fps = "forward_passes ?this3 (ppl_shadows_size ppl) (win_renderWindowId window) camera
                ?nw ?nh (mainLight scene) (win_colorName window) (win_depthStencilName window)"
  have ui: "ui_update ?this3 = ui_update this"
    by (simp add: ui_update_def [abs_def] ui_queue_def desktop_state_def)
  have fl: "bfp_forwardLighting ?this3 = bfp_forwardLighting ?this1"
    by (simp add: desktop_state_def)
  have idx: "length (ppl_passes ppl) + 2 * length (shadowEnabledSpotLights (bfp_forwardLighting ?this1))
              = length (ppl_passes ppl) + length (map_last (add_queue (blend_queue (mainLight scene))) ?fps) - 1"
    by (simp add: length_map_last length_forward_passes fl)
  have ne: "map_last (add_queue (blend_queue (mainLight scene))) ?fps \<noteq> []"
    by (simp add: map_last_Nil_iff forward_passes_ne)
  have *: "addForwardRadiancePasses ?this1 ppl (win_renderWindowId window) camera ?nw ?nh
             (mainLight scene) (win_colorName window) (win_depthStencilName window)
           = (?this3,
              length (ppl_passes ppl) + 2 * length (shadowEnabledSpotLights (bfp_forwardLighting ?this1)),
              ppl\<lparr>ppl_passes := ppl_passes ppl
                 @ map_last (add_queue (blend_queue (mainLight scene))) ?fps\<rparr>)"
    by (simp add: addForwardRadiancePasses_eq desktop_state_def)
  have "buildForwardPipeline g this ppl camera scene =
          Inr (?this3, addUIQueue ?this3 camera
                 (length (ppl_passes ppl) + 2 * length (shadowEnabledSpotLights (bfp_forwardLighting ?this1)))
                 (ppl\<lparr>ppl_passes := ppl_passes ppl
                    @ map_last (add_queue (blend_queue (mainLight scene))) ?fps\<rparr>))"
    using w c
    by (simp add: buildForwardPipeline_def Let_def native_size_def [symmetric] *)
  then show ?thesis
    by (simp only: addUIQueue_eq ui update_pass_last_gen [OF ne idx] map_last_map_last)
qed

lemma Vec4_eta: "\<lparr>v4_x = v4_x c, v4_y = v4_y c, v4_z = v4_z c, v4_w = v4_w c\<rparr> = (c :: Vec4)"
  by simp

lemma desktop_state_fields:
  "bfp_viewport (desktop_state g this camera scene w h) =
     \<lparr>vp_left = Math_floor (v4_x (cam_viewport camera) * w),
      vp_top = Math_floor (v4_y (cam_viewport camera) * h),
      vp_width = Math_floor (v4_z (cam_viewport camera) * w),
      vp_height = Math_floor (v4_w (cam_viewport camera) * h)\<rparr>"
  "bfp_clearColor (desktop_state g this camera scene w h) = cam_clearColor camera"
  "bfp_cameraConfigs (desktop_state g this camera scene w h) = bfp_cameraConfigs this"
  "bfp_configs (desktop_state g this camera scene w h) = bfp_configs this"
  "lights (bfp_forwardLighting (desktop_state g this camera scene w h))
     = culled_lights g scene (cam_frustum camera)"
  "shadowEnabledSpotLights (bfp_forwardLighting (desktop_state g this camera scene w h))
     = culled_shadow_spots g scene (cam_frustum camera)"
  by (simp_all add: desktop_state_def prepareDynamicStates_def cullLights_lights
        cullLights_shadow_None)

lemma setupCameraConfigs_shadow:
  "setupCameraConfigs host camera pc cc0 = Inr cc \<Longrightarrow> cam_scene camera = Some scene \<Longrightarrow>
   mainLight scene = Some ml \<Longrightarrow> enableShadowMap cc = dir_shadowEnabled ml"
  by (auto simp: setupCameraConfigs_def Let_def split: if_splits)

text \<open>
  C3, as amended. For a desktop camera whose configuration resolves to no float output,
  no shading scale and no post-processing, with a main light whose shadows are disabled
  and no additive light passing the culling, \<^verbatim>\<open>_buildForwardPipeline\<close> records exactly one
  pass: the forward pass at the native size, which writes the window's colour and
  depth-stencil targets. Its queues are the opaque and mask queue, the blend queue and,
  last, the UI queue: the UI is a queue of the forward pass, not a pass of its own. No
  shadow pass and no post-process pass is recorded.
\<close>

theorem ldr_unscaled_single_pass:
  assumes "cam_scene camera = Some scene" "cam_window camera = Some window"
    and "mainLight scene = Some ml" "\<not> dir_shadowEnabled ml"
    and "setupCameraConfigs host camera (bfp_configs this) cc0 = Inr (bfp_cameraConfigs this)"
    and "\<not> useFloatOutput (bfp_configs this)"
    and "\<not> enableShadingScale (bfp_cameraConfigs this)"
    and "\<not> enablePostProcess (bfp_cameraConfigs this)"
    and "culled_lights g scene (cam_frustum camera) = []"
    and "culled_shadow_spots g scene (cam_frustum camera) = []"
  shows "buildForwardPipeline g this ppl camera scene =
    Inr (desktop_state g this camera scene (native_size (win_width window)) (native_size (win_height window)),
         ppl\<lparr>ppl_passes := ppl_passes ppl @
           [\<lparr>pass_layout = ''default'', pass_name = ''ForwardPass'',
             pass_width = native_size (win_width window),
             pass_height = native_size (win_height window),
             pass_viewport = Some
               \<lparr>vp_left = Math_floor (v4_x (cam_viewport camera) * native_size (win_width window)),
                vp_top = Math_floor (v4_y (cam_viewport camera) * native_size (win_height window)),
                vp_width = Math_floor (v4_z (cam_viewport camera) * native_size (win_width window)),
                vp_height = Math_floor (v4_w (cam_viewport camera) * native_size (win_height window))\<rparr>,
             pass_renderTargets =
               [if forwardNeedClearColor camera
                then \<lparr>rt_name = win_colorName window, rt_loadOp = CLEAR, rt_storeOp = Some STORE,
                      rt_clearColor = Some (cam_clearColor camera)\<rparr>
                else \<lparr>rt_name = win_colorName window, rt_loadOp = LOAD, rt_storeOp = None,
                      rt_clearColor = None\<rparr>],
             pass_depthStencils =
               [if cam_clearFlag camera AND ClearFlagBit_DEPTH_STENCIL \<noteq> 0
                then \<lparr>ds_name = win_depthStencilName window, ds_loadOp = CLEAR,
                      ds_storeOp = Some STORE, ds_depth = Some (cam_clearDepth camera),
                      ds_stencil = Some (cam_clearStencil camera),
                      ds_clearFlags = Some (cam_clearFlag camera AND ClearFlagBit_DEPTH_STENCIL)\<rparr>
                else \<lparr>ds_name = win_depthStencilName window, ds_loadOp = LOAD, ds_storeOp = None,
                      ds_depth = None, ds_stencil = None, ds_clearFlags = None\<rparr>],
             pass_textures = [], pass_vec4s = [],
             pass_queues =
               [queue1 QueueHint_NONE None [] None
                  (SceneItem {SF_OPAQUE, SF_MASK} (Some (MainLight ml)) None),
                queue1 QueueHint_BLEND None [] None
                  (SceneItem {SF_BLEND} (Some (MainLight ml)) None),
                queue1 QueueHint_BLEND None [] None
                  (SceneItem (if enableProfiler (bfp_cameraConfigs this)
                              then {SF_UI, SF_PROFILER} else {SF_UI}) None None)],
             pass_showStatistics = enableProfiler (bfp_cameraConfigs this)\<rparr>]\<rparr>)"
proof -
  from assms(5,1,3,4) have sh: "\<not> enableShadowMap (bfp_cameraConfigs this)"
    by (simp add: setupCameraConfigs_shadow)
  show ?thesis
    unfolding buildForwardPipeline_ldr [OF assms(2) assms(6) assms(7) sh]
    by (simp add: forward_passes_def forward_pass_def desktop_state_fields assms(3,9,10)
          map_last_single add_queue_def ui_update_def ui_queue_def blend_queue_def
          main_light_update_def fresh_pass_def sh Let_def)
qed

lemma example_ldr_hyps:
  "cam_scene example_camera = Some example_scene"
  "cam_window example_camera = Some example_window"
  "mainLight example_scene = Some \<lparr>dir_shadowEnabled = False, dir_shadowFixedArea = False,
                                      dir_csmLevel = LEVEL_4\<rparr>"
  "\<not> dir_shadowEnabled \<lparr>dir_shadowEnabled = False, dir_shadowFixedArea = False,
                           dir_csmLevel = LEVEL_4\<rparr>"
  "setupCameraConfigs example_host example_camera (bfp_configs example_ldr) CameraConfigs_new
     = Inr (bfp_cameraConfigs example_ldr)"
  "\<not> useFloatOutput (bfp_configs example_ldr)"
  "\<not> enableShadingScale (bfp_cameraConfigs example_ldr)"
  "\<not> enablePostProcess (bfp_cameraConfigs example_ldr)"
  "culled_lights example_geometry example_scene f = []"
  "culled_shadow_spots example_geometry example_scene f = []"
  by (simp_all add: example_camera_def example_scene_def example_ldr_def example_host_def
        example_window_def BuiltinForwardPipeline_new_def PipelineConfigs_new_def
        CameraConfigs_new_def setupCameraConfigs_def Let_def culled_lights_def
        culled_shadow_spots_def)

theorem ldr_unscaled_single_pass_witness:
  "cam_scene example_camera = Some example_scene
   \<and> cam_window example_camera = Some example_window
   \<and> \<not> useFloatOutput (bfp_configs example_ldr)
   \<and> \<not> enableShadingScale (bfp_cameraConfigs example_ldr)
   \<and> \<not> enablePostProcess (bfp_cameraConfigs example_ldr)
   \<and> map_sum id (\<lambda>r. map pass_name (ppl_passes (snd r)))
         (buildForwardPipeline example_geometry example_ldr example_ppl example_camera example_scene)
       = Inr [''ForwardPass'']"
  using ldr_unscaled_single_pass [OF example_ldr_hyps, of example_ppl] example_ldr_hyps
  by (simp add: example_ppl_def)

text \<open>
  The claim as stated, one forward pass plus one UI pass, fails: the composition records
  one pass, named \<^verbatim>\<open>ForwardPass\<close>, with three queues.
\<close>

theorem ldr_unscaled_no_ui_pass_counterexample:
  "map_sum id (\<lambda>r. map (\<lambda>p. (pass_name p, length (pass_queues p))) (ppl_passes (snd r)))
     (buildForwardPipeline example_geometry example_ldr example_ppl example_camera example_scene)
   = Inr [(''ForwardPass'', 3)]"
proof -
  have sh: "\<not> enableShadowMap (bfp_cameraConfigs example_ldr)"
    by (simp add: example_ldr_def)
  show ?thesis
    unfolding buildForwardPipeline_ldr [OF example_ldr_hyps(2) example_ldr_hyps(6) example_ldr_hyps(7) sh]
    by (simp add: forward_passes_def forward_pass_def desktop_state_fields example_ldr_hyps sh
          map_last_single add_queue_def ui_update_def main_light_update_def fresh_pass_def
          Let_def example_ppl_def)
qed

lemma dof_passes_cong:
  "bfp_clearColorOpaqueBlack t = bfp_clearColorOpaqueBlack this \<Longrightarrow> bfp_configs t = bfp_configs this
   \<Longrightarrow> dof_passes t ident w h a b c = dof_passes this ident w h a b c"
  by (simp add: dof_passes_def black_target_def)

lemma bloom_passes_cong:
  "bfp_clearColorOpaqueBlack t = bfp_clearColorOpaqueBlack this \<Longrightarrow> bfp_configs t = bfp_configs this
   \<Longrightarrow> bfp_bloomParams t = bfp_bloomParams this \<Longrightarrow> bfp_bloomTexSize t = bfp_bloomTexSize this
   \<Longrightarrow> bloom_passes t s ident w h a = bloom_passes this s ident w h a"
  by (simp add: bloom_passes_def bloom_prefilter_pass_def bloom_down_pass_def [abs_def]
        bloom_up_pass_def [abs_def] bloom_combine_pass_def black_target_def bloom_params_def
        bloom_texsize_def del: upt_Suc)

lemma tonemap_pass_cong:
  "bfp_clearColorOpaqueBlack t = bfp_clearColorOpaqueBlack this \<Longrightarrow> bfp_configs t = bfp_configs this
   \<Longrightarrow> tonemap_pass t w h a b = tonemap_pass this w h a b"
  by (simp add: tonemap_pass_def black_target_def)

lemma ui_update_cong:
  "bfp_cameraConfigs t = bfp_cameraConfigs this \<Longrightarrow> ui_update t = ui_update this"
  by (simp add: ui_update_def [abs_def] ui_queue_def)

lemma prepare_fields:
  "bfp_bloomParams (prepareDynamicStates t camera w h) = bfp_bloomParams t"
  "bfp_bloomTexSize (prepareDynamicStates t camera w h) = bfp_bloomTexSize t"
  by (simp_all add: prepareDynamicStates_def)

lemma dof_state_fields:
  "bfp_clearColorOpaqueBlack (dof_state t s w h) = bfp_clearColorOpaqueBlack t"
  "bfp_configs (dof_state t s w h) = bfp_configs t"
  "bfp_cameraConfigs (dof_state t s w h) = bfp_cameraConfigs t"
  "bfp_bloomParams (dof_state t s w h) = bfp_bloomParams t"
  "bfp_bloomTexSize (dof_state t s w h) = bfp_bloomTexSize t"
  "bfp_initialized (dof_state t s w h) = bfp_initialized t"
  by (simp_all add: dof_state_def)

lemma addKawase_snd:
  "snd (addKawaseDualFilterBloomPasses this ppl settings ident w h radianceName)
     = ppl\<lparr>ppl_passes := ppl_passes ppl @ bloom_passes this settings ident w h radianceName\<rparr>"
  using addKawaseDualFilterBloomPasses_eq [of this ppl settings ident w h radianceName] by auto

lemma addKawase_fst:
  "bfp_clearColorOpaqueBlack (fst (addKawaseDualFilterBloomPasses this ppl settings ident w h radianceName))
     = bfp_clearColorOpaqueBlack this"
  "bfp_configs (fst (addKawaseDualFilterBloomPasses this ppl settings ident w h radianceName))
     = bfp_configs this"
  "bfp_cameraConfigs (fst (addKawaseDualFilterBloomPasses this ppl settings ident w h radianceName))
     = bfp_cameraConfigs this"
  using addKawaseDualFilterBloomPasses_eq [of this ppl settings ident w h radianceName] by auto

lemma postProcess_bloom_eq:
  assumes "\<not> ps_fxaa_enabled s" "bloom_enabled (ps_bloom s)"
  shows "\<exists>this'. buildForwardPipeline_postProcess this ppl s camera window ml nw nh w h
     = (this',
        length (ppl_passes ppl
          @ map_last (add_queue (blend_queue ml))
              (forward_passes (prepareDynamicStates this camera w h) (ppl_shadows_size ppl)
                 (win_renderWindowId window) camera w h ml
                 (if dof_applies this s then ''DofRadiance'' @ num_string (win_renderWindowId window)
                  else ''Radiance'' @ num_string (win_renderWindowId window))
                 (win_depthStencilName window))
          @ (if dof_applies this s
             then dof_passes this (win_renderWindowId window) w h
                    (''DofRadiance'' @ num_string (win_renderWindowId window))
                    (win_depthStencilName window)
                    (''Radiance'' @ num_string (win_renderWindowId window))
             else [])
          @ bloom_passes this s (win_renderWindowId window) w h
              (''Radiance'' @ num_string (win_renderWindowId window))),
        ppl\<lparr>ppl_passes := ppl_passes ppl
          @ map_last (add_queue (blend_queue ml))
              (forward_passes (prepareDynamicStates this camera w h) (ppl_shadows_size ppl)
                 (win_renderWindowId window) camera w h ml
                 (if dof_applies this s then ''DofRadiance'' @ num_string (win_renderWindowId window)
                  else ''Radiance'' @ num_string (win_renderWindowId window))
                 (win_depthStencilName window))
          @ (if dof_applies this s
             then dof_passes this (win_renderWindowId window) w h
                    (''DofRadiance'' @ num_string (win_renderWindowId window))
                    (win_depthStencilName window)
                    (''Radiance'' @ num_string (win_renderWindowId window))
             else [])
          @ bloom_passes this s (win_renderWindowId window) w h
              (''Radiance'' @ num_string (win_renderWindowId window))
          @ [tonemap_pass this nw nh (''Radiance'' @ num_string (win_renderWindowId window))
               (win_colorName window)]\<rparr>)
     \<and> bfp_cameraConfigs this' = bfp_cameraConfigs this"
proof -
  let ?tF = "prepareDynamicStates this camera w h"
  note congs =
    dof_passes_cong [where this = this and t = ?tF]
    bloom_passes_cong [where this = this and t = ?tF]
    bloom_passes_cong [where this = this and t = "dof_state ?tF s w h"]
    tonemap_pass_cong [where this = this and t = "fst (addKawaseDualFilterBloomPasses ?tF p s' i' w h r')" for p s' i' r']
    tonemap_pass_cong [where this = this and t = "fst (addKawaseDualFilterBloomPasses (dof_state ?tF s w h) p s' i' w h r')" for p s' i' r']
  show ?thesis
  proof (cases "dof_applies this s")
    case True
    then have d: "supportDepthSample (bfp_configs this)" "dof_enabled (ps_depthOfField s)"
      by (simp_all add: dof_applies_def)
    show ?thesis
      using assms True d
      by (simp add: buildForwardPipeline_postProcess_def Let_def split_def
            addForwardRadiancePasses_eq addDepthOfFieldPasses_eq addCopyAndTonemapPass_eq
            addKawase_fst addKawase_snd congs dof_state_fields prepare_fields)
  next
    case False
    then have d: "(supportDepthSample (bfp_configs this) \<and> dof_enabled (ps_depthOfField s)) = False"
      by (simp add: dof_applies_def)
    show ?thesis
      using assms False
      by (simp add: buildForwardPipeline_postProcess_def Let_def split_def d
            addForwardRadiancePasses_eq addCopyAndTonemapPass_eq
            addKawase_fst addKawase_snd congs dof_state_fields prepare_fields)
  qed
qed

lemma fxaa_pass_cong:
  "bfp_clearColorOpaqueBlack t = bfp_clearColorOpaqueBlack this \<Longrightarrow> bfp_configs t = bfp_configs this
   \<Longrightarrow> fxaa_pass t w h a b = fxaa_pass this w h a b"
  by (simp add: fxaa_pass_def black_target_def)

lemma copy_pass_cong:
  "bfp_clearColorOpaqueBlack t = bfp_clearColorOpaqueBlack this \<Longrightarrow> bfp_configs t = bfp_configs this
   \<Longrightarrow> copy_pass t w h a b = copy_pass this w h a b"
  by (simp add: copy_pass_def black_target_def)

lemma addKawase_initialized:
  "bfp_initialized (fst (addKawaseDualFilterBloomPasses this ppl settings ident w h rn))
     = bfp_initialized this"
  using keeps_addKawase [of this ppl settings ident w h rn] by (simp add: keeps_def)

lemma pass_norm_prepare:
  "tonemap_pass (prepareDynamicStates t c w h) = tonemap_pass t"
  "fxaa_pass (prepareDynamicStates t c w h) = fxaa_pass t"
  "copy_pass (prepareDynamicStates t c w h) = copy_pass t"
  "dof_passes (prepareDynamicStates t c w h) = dof_passes t"
  "bloom_passes (prepareDynamicStates t c w h) = bloom_passes t"
  by (intro ext tonemap_pass_cong fxaa_pass_cong copy_pass_cong dof_passes_cong bloom_passes_cong;
      simp add: prepare_fields)+

lemma pass_norm_dof:
  "tonemap_pass (dof_state t s w h) = tonemap_pass t"
  "fxaa_pass (dof_state t s w h) = fxaa_pass t"
  "copy_pass (dof_state t s w h) = copy_pass t"
  "bloom_passes (dof_state t s w h) = bloom_passes t"
  by (intro ext tonemap_pass_cong fxaa_pass_cong copy_pass_cong bloom_passes_cong;
      simp add: dof_state_fields)+

lemma pass_norm_bloom:
  "tonemap_pass (fst (addKawaseDualFilterBloomPasses t p s i w h r)) = tonemap_pass t"
  "fxaa_pass (fst (addKawaseDualFilterBloomPasses t p s i w h r)) = fxaa_pass t"
  "copy_pass (fst (addKawaseDualFilterBloomPasses t p s i w h r)) = copy_pass t"
  by (intro ext tonemap_pass_cong fxaa_pass_cong copy_pass_cong; simp add: addKawase_fst)+

lemma pass_norm_fxaa:
  "copy_pass (t\<lparr>bfp_fxaaMaterial := m\<rparr>) = copy_pass t"
  by (intro ext copy_pass_cong; simp)+

lemma postProcess_eq:
  "\<exists>this'. buildForwardPipeline_postProcess this ppl s camera window ml nw nh w h
     = (this',
        length (ppl_passes ppl)
          + length (postProcess_passes (prepareDynamicStates this camera w h) this
                      (ppl_shadows_size ppl) s camera window ml nw nh w h) - 1,
        ppl\<lparr>ppl_passes := ppl_passes ppl
          @ postProcess_passes (prepareDynamicStates this camera w h) this
              (ppl_shadows_size ppl) s camera window ml nw nh w h\<rparr>)
     \<and> bfp_cameraConfigs this' = bfp_cameraConfigs this
     \<and> bfp_configs this' = bfp_configs this
     \<and> bfp_initialized this' = bfp_initialized this"
proof -
  note rules = buildForwardPipeline_postProcess_def Let_def split_def
    addForwardRadiancePasses_eq addDepthOfFieldPasses_eq addCopyAndTonemapPass_eq
    addFxaaPass_eq addCopyPass_eq
    addKawase_fst addKawase_snd addKawase_initialized dof_state_fields prepare_fields
    pass_norm_prepare pass_norm_dof pass_norm_bloom pass_norm_fxaa
    postProcess_passes_def postProcess_tail_def
  have d: "dof_applies this s = (supportDepthSample (bfp_configs this) \<and> dof_enabled (ps_depthOfField s))"
    by (simp add: dof_applies_def)
  show ?thesis
  proof (cases "dof_applies this s")
    case True
    then have d1: "supportDepthSample (bfp_configs this)" "dof_enabled (ps_depthOfField s)"
      by (simp_all add: dof_applies_def)
    show ?thesis
    proof (cases "bloom_enabled (ps_bloom s)")
      case b: True
      show ?thesis
      proof (cases "ps_fxaa_enabled s")
        case f: True
        show ?thesis
          by (cases "enableShadingScale (bfp_cameraConfigs this)") (simp_all add: rules True d1 b f)
      next
        case f: False
        show ?thesis by (simp add: rules True d1 b f)
      qed
    next
      case b: False
      show ?thesis
      proof (cases "ps_fxaa_enabled s")
        case f: True
        show ?thesis
          by (cases "enableShadingScale (bfp_cameraConfigs this)") (simp_all add: rules True d1 b f)
      next
        case f: False
        show ?thesis by (simp add: rules True d1 b f)
      qed
    qed
  next
    case False
    then have d1: "(supportDepthSample (bfp_configs this) \<and> dof_enabled (ps_depthOfField s)) = False"
      by (simp add: dof_applies_def)
    show ?thesis
    proof (cases "bloom_enabled (ps_bloom s)")
      case b: True
      show ?thesis
      proof (cases "ps_fxaa_enabled s")
        case f: True
        show ?thesis
          by (cases "enableShadingScale (bfp_cameraConfigs this)") (simp_all add: rules False d1 b f)
      next
        case f: False
        show ?thesis by (simp add: rules False d1 b f)
      qed
    next
      case b: False
      show ?thesis
      proof (cases "ps_fxaa_enabled s")
        case f: True
        show ?thesis
          by (cases "enableShadingScale (bfp_cameraConfigs this)") (simp_all add: rules False d1 b f)
      next
        case f: False
        show ?thesis by (simp add: rules False d1 b f)
      qed
    qed
  qed
qed

lemma prepare_viewport:
  "prepareDynamicStates (t\<lparr>bfp_viewport := V\<rparr>) camera w h = prepareDynamicStates t camera w h"
  by (cases V; cases "bfp_viewport t") (simp add: prepareDynamicStates_def)

lemma csm_pass_cong:
  "bfp_configs t = bfp_configs this \<Longrightarrow> csm_pass t ppl ident light = csm_pass this ppl ident light"
  by (simp add: csm_pass_def del: upt_Suc)

lemma postProcess_passes_cong:
  assumes "bfp_clearColorOpaqueBlack t = bfp_clearColorOpaqueBlack this"
    "bfp_configs t = bfp_configs this" "bfp_cameraConfigs t = bfp_cameraConfigs this"
    "bfp_bloomParams t = bfp_bloomParams this" "bfp_bloomTexSize t = bfp_bloomTexSize this"
  shows "postProcess_passes st t sz s camera window ml nw nh w h
       = postProcess_passes st this sz s camera window ml nw nh w h"
proof -
  have "dof_applies t s = dof_applies this s"
    using assms by (simp add: dof_applies_def)
  moreover have "dof_passes t = dof_passes this"
    using assms by (intro ext dof_passes_cong)
  moreover have "bloom_passes t = bloom_passes this"
    using assms by (intro ext bloom_passes_cong)
  moreover have "tonemap_pass t = tonemap_pass this"
    using assms by (intro ext tonemap_pass_cong)
  moreover have "fxaa_pass t = fxaa_pass this"
    using assms by (intro ext fxaa_pass_cong)
  moreover have "copy_pass t = copy_pass this"
    using assms by (intro ext copy_pass_cong)
  ultimately show ?thesis
    using assms(3) by (simp add: postProcess_passes_def postProcess_tail_def)
qed

lemma postProcess_passes_ne: "postProcess_passes st this sz s camera window ml nw nh w h \<noteq> []"
  by (simp add: postProcess_passes_def postProcess_tail_def)

lemma csm_stage:
  assumes ml: "enableShadowMap (bfp_cameraConfigs this) \<Longrightarrow> mainLight scene \<noteq> None"
    and c: "bfp_configs this1 = bfp_configs this"
  shows "\<exists>V. (if enableShadowMap (bfp_cameraConfigs this)
             then (case mainLight scene of
                     None \<Rightarrow> Inl TypeError
                   | Some ml \<Rightarrow> Inr (addCascadedShadowMapPass this1 ppl ident ml camera))
             else Inr (this1, ppl))
          = Inr (this1\<lparr>bfp_viewport := V\<rparr>,
                 ppl\<lparr>ppl_passes := ppl_passes ppl @ csm_passes this ppl ident scene\<rparr>)"
proof (cases "enableShadowMap (bfp_cameraConfigs this)")
  case True
  with ml obtain l where l: "mainLight scene = Some l" by blast
  from addCascadedShadowMapPass_eq [of this1 ppl ident l camera] obtain V where
    "addCascadedShadowMapPass this1 ppl ident l camera
       = (this1\<lparr>bfp_viewport := V\<rparr>,
          ppl\<lparr>ppl_passes := ppl_passes ppl @ [csm_pass this1 ppl ident l]\<rparr>)" by blast
  moreover have "csm_pass this1 ppl ident l = csm_pass this ppl ident l"
    by (rule csm_pass_cong) (rule c)
  ultimately show ?thesis using True l by (auto simp: csm_passes_def)
next
  case False
  show ?thesis
    by (rule exI [of _ "bfp_viewport this1"]) (simp add: False csm_passes_def)
qed

lemma buildForwardPipeline_eq:
  assumes w: "cam_window camera = Some window"
    and ml: "enableShadowMap (bfp_cameraConfigs this) \<Longrightarrow> mainLight scene \<noteq> None"
  shows "\<exists>this'. buildForwardPipeline g this ppl camera scene =
           Inr (this', ppl\<lparr>ppl_passes := ppl_passes ppl
                              @ desktop_passes g this ppl camera scene window\<rparr>)
         \<and> bfp_initialized this' = bfp_initialized this
         \<and> bfp_configs this' = bfp_configs this
         \<and> bfp_cameraConfigs this' = bfp_cameraConfigs this"
proof -
  let ?id = "win_renderWindowId window"
  let ?cc = "bfp_cameraConfigs this"
  let ?ml = "mainLight scene"
  let ?rad = "''Radiance'' @ num_string ?id"
  define nw where "nw = native_size (win_width window)"
  define nh where "nh = native_size (win_height window)"
  define W where "W = working_size g ?cc nw"
  define H where "H = working_size g ?cc nh"
  define this1 where "this1 = this\<lparr>bfp_forwardLighting :=
      cullLights g scene (cam_frustum camera) None (bfp_forwardLighting this)\<rparr>"
  have c1: "bfp_configs this1 = bfp_configs this" by (simp add: this1_def)
  from csm_stage [OF ml c1, of ppl ?id camera] obtain V where
    st: "(if enableShadowMap ?cc
          then (case mainLight scene of
                  None \<Rightarrow> Inl TypeError
                | Some ml \<Rightarrow> Inr (addCascadedShadowMapPass this1 ppl ?id ml camera))
          else Inr (this1, ppl))
         = Inr (this1\<lparr>bfp_viewport := V\<rparr>,
                ppl\<lparr>ppl_passes := ppl_passes ppl @ csm_passes this ppl ?id scene\<rparr>)"
    by blast
  define this2 where "this2 = this1\<lparr>bfp_viewport := V\<rparr>"
  define p1 where "p1 = ppl\<lparr>ppl_passes := ppl_passes ppl @ csm_passes this ppl ?id scene\<rparr>"
  have f2: "bfp_configs this2 = bfp_configs this" "bfp_cameraConfigs this2 = ?cc"
    "bfp_clearColorOpaqueBlack this2 = bfp_clearColorOpaqueBlack this"
    "bfp_bloomParams this2 = bfp_bloomParams this" "bfp_bloomTexSize this2 = bfp_bloomTexSize this"
    "bfp_initialized this2 = bfp_initialized this"
    by (simp_all add: this2_def this1_def)
  have prep: "prepareDynamicStates this2 camera a b = desktop_state g this camera scene a b" for a b
    by (simp add: this2_def prepare_viewport desktop_state_def this1_def)
  have sz: "ppl_shadows_size p1 = ppl_shadows_size ppl" by (simp add: p1_def)
  define X where "X = desktop_body g this ppl camera scene window"
  have main: "\<exists>t3. (if useFloatOutput (bfp_configs this2)
                    then
                      (case (if enablePostProcess ?cc then pipelineSettings ?cc else None) of
                         Some s \<Rightarrow>
                           buildForwardPipeline_postProcess this2 p1 s camera window ?ml nw nh W H
                       | None \<Rightarrow>
                           (let (t, lp, q) = addForwardRadiancePasses this2 p1 ?id camera W H
                                               ?ml ?rad (win_depthStencilName window);
                                (lp2, q2) = addCopyAndTonemapPass t q nw nh ?rad (win_colorName window)
                            in (t, lp2, q2)))
                    else if enableShadingScale ?cc
                    then
                      (let (t, lp, q) = addForwardRadiancePasses this2 p1 ?id camera W H
                                          ?ml ?rad (win_depthStencilName window);
                           (lp2, q2) = addCopyAndTonemapPass t q nw nh ?rad (win_colorName window)
                       in (t, lp2, q2))
                    else addForwardRadiancePasses this2 p1 ?id camera nw nh
                           ?ml (win_colorName window) (win_depthStencilName window))
                 = (t3, length (ppl_passes p1) + length X - 1, p1\<lparr>ppl_passes := ppl_passes p1 @ X\<rparr>)
               \<and> bfp_initialized t3 = bfp_initialized this
               \<and> bfp_configs t3 = bfp_configs this
               \<and> bfp_cameraConfigs t3 = ?cc"
  proof (cases "useFloatOutput (bfp_configs this) \<and> enablePostProcess ?cc \<and> pipelineSettings ?cc \<noteq> None")
    case True
    then obtain s where s: "pipelineSettings ?cc = Some s" by blast
    have X: "X = postProcess_passes (desktop_state g this camera scene W H) this (ppl_shadows_size ppl)
               s camera window ?ml nw nh W H"
      using True s by (simp add: X_def desktop_body_def Let_def nw_def nh_def W_def H_def)
    have pc: "postProcess_passes st this2 = postProcess_passes st this" for st
      by (intro ext postProcess_passes_cong) (simp_all add: f2)
    from postProcess_eq [of this2 p1 s camera window ?ml nw nh W H]
    show ?thesis
      using True s by (simp add: f2 prep sz pc X) blast
  next
    case False
    have tp: "tonemap_pass (desktop_state g this camera scene W H) = tonemap_pass this"
      by (intro ext tonemap_pass_cong) (simp_all add: desktop_state_def)
    have dsf: "bfp_initialized (desktop_state g this camera scene a b) = bfp_initialized this"
      "bfp_configs (desktop_state g this camera scene a b) = bfp_configs this"
      "bfp_cameraConfigs (desktop_state g this camera scene a b) = ?cc" for a b
      by (simp_all add: desktop_state_def)
    show ?thesis
    proof (cases "useFloatOutput (bfp_configs this) \<or> enableShadingScale ?cc")
      case b: True
      have X: "X = map_last (add_queue (blend_queue ?ml))
                     (forward_passes (desktop_state g this camera scene W H) (ppl_shadows_size ppl)
                        ?id camera W H ?ml ?rad (win_depthStencilName window))
                   @ [tonemap_pass this nw nh ?rad (win_colorName window)]"
        using False b by (auto simp add: X_def desktop_body_def Let_def nw_def nh_def W_def H_def)
      have e: "(let (t, lp, q) = addForwardRadiancePasses this2 p1 ?id camera W H
                                          ?ml ?rad (win_depthStencilName window);
                           (lp2, q2) = addCopyAndTonemapPass t q nw nh ?rad (win_colorName window)
                       in (t, lp2, q2))
               = (desktop_state g this camera scene W H, length (ppl_passes p1) + length X - 1,
                  p1\<lparr>ppl_passes := ppl_passes p1 @ X\<rparr>)"
        by (simp add: addForwardRadiancePasses_eq addCopyAndTonemapPass_eq prep sz tp X)
      show ?thesis
      proof (cases "useFloatOutput (bfp_configs this)")
        case u: True
        with False have o: "(if enablePostProcess ?cc then pipelineSettings ?cc else None) = None"
          by auto
        show ?thesis
          by (simp only: f2(1) u o if_True option.case e) (simp add: dsf)
      next
        case u: False
        with b have sc: "enableShadingScale ?cc" by simp
        show ?thesis
          by (simp only: f2(1) u sc if_True if_False e) (simp add: dsf)
      qed
    next
      case b: False
      then have u: "\<not> useFloatOutput (bfp_configs this)" and sc: "\<not> enableShadingScale ?cc"
        by simp_all
      have X: "X = map_last (add_queue (blend_queue ?ml))
                     (forward_passes (desktop_state g this camera scene nw nh) (ppl_shadows_size ppl)
                        ?id camera nw nh ?ml (win_colorName window) (win_depthStencilName window))"
        using b by (simp add: X_def desktop_body_def Let_def nw_def nh_def W_def H_def)
      have fl: "bfp_forwardLighting (desktop_state g this camera scene nw nh) = bfp_forwardLighting this2"
        by (simp add: prep [symmetric])
      have e: "addForwardRadiancePasses this2 p1 ?id camera nw nh
                           ?ml (win_colorName window) (win_depthStencilName window)
               = (desktop_state g this camera scene nw nh, length (ppl_passes p1) + length X - 1,
                  p1\<lparr>ppl_passes := ppl_passes p1 @ X\<rparr>)"
        by (simp add: addForwardRadiancePasses_eq prep sz X length_map_last length_forward_passes fl)
      show ?thesis
        by (simp only: f2(1) u sc if_False e) (simp add: dsf)
    qed
  qed
  then obtain t3 where
    br: "(if useFloatOutput (bfp_configs this2)
                    then
                      (case (if enablePostProcess ?cc then pipelineSettings ?cc else None) of
                         Some s \<Rightarrow>
                           buildForwardPipeline_postProcess this2 p1 s camera window ?ml nw nh W H
                       | None \<Rightarrow>
                           (let (t, lp, q) = addForwardRadiancePasses this2 p1 ?id camera W H
                                               ?ml ?rad (win_depthStencilName window);
                                (lp2, q2) = addCopyAndTonemapPass t q nw nh ?rad (win_colorName window)
                            in (t, lp2, q2)))
                    else if enableShadingScale ?cc
                    then
                      (let (t, lp, q) = addForwardRadiancePasses this2 p1 ?id camera W H
                                          ?ml ?rad (win_depthStencilName window);
                           (lp2, q2) = addCopyAndTonemapPass t q nw nh ?rad (win_colorName window)
                       in (t, lp2, q2))
                    else addForwardRadiancePasses this2 p1 ?id camera nw nh
                           ?ml (win_colorName window) (win_depthStencilName window))
                 = (t3, length (ppl_passes p1) + length X - 1, p1\<lparr>ppl_passes := ppl_passes p1 @ X\<rparr>)"
    and t3: "bfp_initialized t3 = bfp_initialized this" "bfp_configs t3 = bfp_configs this"
      "bfp_cameraConfigs t3 = ?cc"
    by blast
  have Wn: "(if enableShadingScale ?cc then native_size (fmul g nw (shadingScale ?cc)) else nw) = W"
    and Hn: "(if enableShadingScale ?cc then native_size (fmul g nh (shadingScale ?cc)) else nh) = H"
    by (simp_all add: W_def H_def working_size_def native_size_def)
  have ne: "X \<noteq> []"
    by (auto simp add: X_def desktop_body_def Let_def postProcess_passes_ne map_last_Nil_iff
          forward_passes_ne split: option.split)
  have ui: "ui_update t3 = ui_update this"
    by (rule ui_update_cong) (rule t3)
  have "buildForwardPipeline g this ppl camera scene
          = Inr (t3, addUIQueue t3 camera (length (ppl_passes p1) + length X - 1)
                       (p1\<lparr>ppl_passes := ppl_passes p1 @ X\<rparr>))"
    unfolding buildForwardPipeline_def Let_def w option.case
      native_size_def [symmetric] nw_def [symmetric] nh_def [symmetric] Wn Hn
      this1_def [symmetric] st this2_def [symmetric] p1_def [symmetric]
      sum.case prod.case br [unfolded Let_def]
    by simp
  also have "addUIQueue t3 camera (length (ppl_passes p1) + length X - 1)
                       (p1\<lparr>ppl_passes := ppl_passes p1 @ X\<rparr>)
             = p1\<lparr>ppl_passes := ppl_passes p1 @ map_last (ui_update this) X\<rparr>"
    by (simp only: addUIQueue_eq ui update_pass_last_gen [OF ne refl])
  finally show ?thesis
    using t3 by (simp add: p1_def desktop_passes_def X_def)
qed


section \<open>The mobile pipeline\<close>




section \<open>Bloom in the desktop pipeline\<close>

lemma map_last_append: "ys \<noteq> [] \<Longrightarrow> map_last f (xs @ ys) = xs @ map_last f ys"
  by (simp add: map_last_def butlast_append)

lemma map_last_Cons: "xs \<noteq> [] \<Longrightarrow> map_last f (x # xs) = x # map_last f xs"
  by (simp add: map_last_def)

lemma setupCameraConfigs_mainLight:
  "setupCameraConfigs host camera pc cc0 = Inr cc \<Longrightarrow> cam_scene camera = Some scene \<Longrightarrow>
   enableShadowMap cc \<Longrightarrow> mainLight scene \<noteq> None"
  by (auto simp: setupCameraConfigs_def Let_def split: if_splits option.splits)

lemma bloom_passes_3:
  "bloom_iterations (ps_bloom s) = 3 \<Longrightarrow>
   bloom_passes this s ident w h rn =
     [bloom_prefilter_pass this s ident w h rn,
      bloom_down_pass this ident w h 1, bloom_down_pass this ident w h 2,
      bloom_down_pass this ident w h 3,
      bloom_up_pass this ident w h 2, bloom_up_pass this ident w h 1,
      bloom_up_pass this ident w h 0,
      bloom_combine_pass this s ident w h rn]"
proof -
  have a: "[1 ..< Suc 3] = [1, 2, 3]" by (simp add: upt_rec)
  have b: "rev [0 ..< 3] = [2, 1, 0]" by (simp add: upt_rec)
  assume "bloom_iterations (ps_bloom s) = 3"
  then show ?thesis
    unfolding bloom_passes_def by (simp only: a b list.map append.simps)
qed

lemma buildForwardPipeline_hdr_bloom:
  assumes w: "cam_window camera = Some window"
    and ml: "enableShadowMap (bfp_cameraConfigs this) \<Longrightarrow> mainLight scene \<noteq> None"
    and c: "useFloatOutput (bfp_configs this)" "enablePostProcess (bfp_cameraConfigs this)"
      "pipelineSettings (bfp_cameraConfigs this) = Some s"
    and s: "bloom_enabled (ps_bloom s)" "\<not> ps_fxaa_enabled s"
  shows "\<exists>this'. buildForwardPipeline g this ppl camera scene =
    Inr (this',
         ppl\<lparr>ppl_passes := ppl_passes ppl
           @ csm_passes this ppl (win_renderWindowId window) scene
           @ map_last (add_queue (blend_queue (mainLight scene)))
               (forward_passes
                  (desktop_state g this camera scene
                     (working_size g (bfp_cameraConfigs this) (native_size (win_width window)))
                     (working_size g (bfp_cameraConfigs this) (native_size (win_height window))))
                  (ppl_shadows_size ppl) (win_renderWindowId window) camera
                  (working_size g (bfp_cameraConfigs this) (native_size (win_width window)))
                  (working_size g (bfp_cameraConfigs this) (native_size (win_height window)))
                  (mainLight scene)
                  (if dof_applies this s then ''DofRadiance'' @ num_string (win_renderWindowId window)
                   else ''Radiance'' @ num_string (win_renderWindowId window))
                  (win_depthStencilName window))
           @ (if dof_applies this s
              then dof_passes this (win_renderWindowId window)
                     (working_size g (bfp_cameraConfigs this) (native_size (win_width window)))
                     (working_size g (bfp_cameraConfigs this) (native_size (win_height window)))
                     (''DofRadiance'' @ num_string (win_renderWindowId window))
                     (win_depthStencilName window)
                     (''Radiance'' @ num_string (win_renderWindowId window))
              else [])
           @ bloom_passes this s (win_renderWindowId window)
               (working_size g (bfp_cameraConfigs this) (native_size (win_width window)))
               (working_size g (bfp_cameraConfigs this) (native_size (win_height window)))
               (''Radiance'' @ num_string (win_renderWindowId window))
           @ [ui_update this
                (tonemap_pass this (native_size (win_width window)) (native_size (win_height window))
                   (''Radiance'' @ num_string (win_renderWindowId window)) (win_colorName window))]\<rparr>)"
proof -
  have "desktop_passes g this ppl camera scene window =
           csm_passes this ppl (win_renderWindowId window) scene
           @ map_last (add_queue (blend_queue (mainLight scene)))
               (forward_passes
                  (desktop_state g this camera scene
                     (working_size g (bfp_cameraConfigs this) (native_size (win_width window)))
                     (working_size g (bfp_cameraConfigs this) (native_size (win_height window))))
                  (ppl_shadows_size ppl) (win_renderWindowId window) camera
                  (working_size g (bfp_cameraConfigs this) (native_size (win_width window)))
                  (working_size g (bfp_cameraConfigs this) (native_size (win_height window)))
                  (mainLight scene)
                  (if dof_applies this s then ''DofRadiance'' @ num_string (win_renderWindowId window)
                   else ''Radiance'' @ num_string (win_renderWindowId window))
                  (win_depthStencilName window))
           @ (if dof_applies this s
              then dof_passes this (win_renderWindowId window)
                     (working_size g (bfp_cameraConfigs this) (native_size (win_width window)))
                     (working_size g (bfp_cameraConfigs this) (native_size (win_height window)))
                     (''DofRadiance'' @ num_string (win_renderWindowId window))
                     (win_depthStencilName window)
                     (''Radiance'' @ num_string (win_renderWindowId window))
              else [])
           @ bloom_passes this s (win_renderWindowId window)
               (working_size g (bfp_cameraConfigs this) (native_size (win_width window)))
               (working_size g (bfp_cameraConfigs this) (native_size (win_height window)))
               (''Radiance'' @ num_string (win_renderWindowId window))
           @ [ui_update this
                (tonemap_pass this (native_size (win_width window)) (native_size (win_height window))
                   (''Radiance'' @ num_string (win_renderWindowId window)) (win_colorName window))]"
    using c s
    by (simp add: desktop_passes_def desktop_body_def Let_def postProcess_passes_def
          postProcess_tail_def map_last_append map_last_single)
  with buildForwardPipeline_eq [where g = g and ppl = ppl and this = this and scene = scene, OF w ml]
  show ?thesis by auto
qed

text \<open>
  C4, as amended. For a desktop camera with float output, post-processing enabled, bloom
  enabled with three iterations and anti-aliasing disabled, \<^verbatim>\<open>_buildForwardPipeline\<close> records,
  in this order: the cascaded shadow map pass when the policy enables shadow maps; the
  forward passes; the depth-of-field passes when depth of field applies; the eight passes
  of the bloom chain (prefilter, three downsample passes, three upsample passes, combine);
  and the tone mapping pass onto the window. The UI is not a pass of its own: its queue
  is the last queue of the tone mapping pass. In the bloom chain the prefilter has half
  the working size, every downsample pass half the size of the pass before it, each
  halving clamped to at least 1; the upsample passes have the sizes of the second
  downsample pass, the first downsample pass and the prefilter; and the combine pass, at
  the working size, loads the radiance target instead of clearing it.
\<close>

theorem hdr_bloom_pass_sequence:
  assumes "cam_scene camera = Some scene" "cam_window camera = Some window"
    and "setupCameraConfigs host camera (bfp_configs this) cc0 = Inr (bfp_cameraConfigs this)"
    and "useFloatOutput (bfp_configs this)"
    and "enablePostProcess (bfp_cameraConfigs this)"
    and "pipelineSettings (bfp_cameraConfigs this) = Some s"
    and "bloom_enabled (ps_bloom s)" "bloom_iterations (ps_bloom s) = 3"
    and "\<not> ps_fxaa_enabled s"
  shows "(\<exists>this'. buildForwardPipeline g this ppl camera scene =
      Inr (this',
         ppl\<lparr>ppl_passes := ppl_passes ppl
           @ csm_passes this ppl (win_renderWindowId window) scene
           @ map_last (add_queue (blend_queue (mainLight scene)))
               (forward_passes
                  (desktop_state g this camera scene
                     (working_size g (bfp_cameraConfigs this) (native_size (win_width window)))
                     (working_size g (bfp_cameraConfigs this) (native_size (win_height window))))
                  (ppl_shadows_size ppl) (win_renderWindowId window) camera
                  (working_size g (bfp_cameraConfigs this) (native_size (win_width window)))
                  (working_size g (bfp_cameraConfigs this) (native_size (win_height window)))
                  (mainLight scene)
                  (if dof_applies this s then ''DofRadiance'' @ num_string (win_renderWindowId window)
                   else ''Radiance'' @ num_string (win_renderWindowId window))
                  (win_depthStencilName window))
           @ (if dof_applies this s
              then dof_passes this (win_renderWindowId window)
                     (working_size g (bfp_cameraConfigs this) (native_size (win_width window)))
                     (working_size g (bfp_cameraConfigs this) (native_size (win_height window)))
                     (''DofRadiance'' @ num_string (win_renderWindowId window))
                     (win_depthStencilName window)
                     (''Radiance'' @ num_string (win_renderWindowId window))
              else [])
           @ [bloom_prefilter_pass this s (win_renderWindowId window)
                (working_size g (bfp_cameraConfigs this) (native_size (win_width window)))
                (working_size g (bfp_cameraConfigs this) (native_size (win_height window)))
                (''Radiance'' @ num_string (win_renderWindowId window)),
              bloom_down_pass this (win_renderWindowId window)
                (working_size g (bfp_cameraConfigs this) (native_size (win_width window)))
                (working_size g (bfp_cameraConfigs this) (native_size (win_height window))) 1,
              bloom_down_pass this (win_renderWindowId window)
                (working_size g (bfp_cameraConfigs this) (native_size (win_width window)))
                (working_size g (bfp_cameraConfigs this) (native_size (win_height window))) 2,
              bloom_down_pass this (win_renderWindowId window)
                (working_size g (bfp_cameraConfigs this) (native_size (win_width window)))
                (working_size g (bfp_cameraConfigs this) (native_size (win_height window))) 3,
              bloom_up_pass this (win_renderWindowId window)
                (working_size g (bfp_cameraConfigs this) (native_size (win_width window)))
                (working_size g (bfp_cameraConfigs this) (native_size (win_height window))) 2,
              bloom_up_pass this (win_renderWindowId window)
                (working_size g (bfp_cameraConfigs this) (native_size (win_width window)))
                (working_size g (bfp_cameraConfigs this) (native_size (win_height window))) 1,
              bloom_up_pass this (win_renderWindowId window)
                (working_size g (bfp_cameraConfigs this) (native_size (win_width window)))
                (working_size g (bfp_cameraConfigs this) (native_size (win_height window))) 0,
              bloom_combine_pass this s (win_renderWindowId window)
                (working_size g (bfp_cameraConfigs this) (native_size (win_width window)))
                (working_size g (bfp_cameraConfigs this) (native_size (win_height window)))
                (''Radiance'' @ num_string (win_renderWindowId window))]
           @ [ui_update this
                (tonemap_pass this (native_size (win_width window)) (native_size (win_height window))
                   (''Radiance'' @ num_string (win_renderWindowId window)) (win_colorName window))]\<rparr>))
     \<and> map (\<lambda>p. (pass_layout p, pass_width p, pass_height p))
           [bloom_prefilter_pass this s (win_renderWindowId window)
                (working_size g (bfp_cameraConfigs this) (native_size (win_width window)))
                (working_size g (bfp_cameraConfigs this) (native_size (win_height window)))
                (''Radiance'' @ num_string (win_renderWindowId window)),
              bloom_down_pass this (win_renderWindowId window)
                (working_size g (bfp_cameraConfigs this) (native_size (win_width window)))
                (working_size g (bfp_cameraConfigs this) (native_size (win_height window))) 1,
              bloom_down_pass this (win_renderWindowId window)
                (working_size g (bfp_cameraConfigs this) (native_size (win_width window)))
                (working_size g (bfp_cameraConfigs this) (native_size (win_height window))) 2,
              bloom_down_pass this (win_renderWindowId window)
                (working_size g (bfp_cameraConfigs this) (native_size (win_width window)))
                (working_size g (bfp_cameraConfigs this) (native_size (win_height window))) 3,
              bloom_up_pass this (win_renderWindowId window)
                (working_size g (bfp_cameraConfigs this) (native_size (win_width window)))
                (working_size g (bfp_cameraConfigs this) (native_size (win_height window))) 2,
              bloom_up_pass this (win_renderWindowId window)
                (working_size g (bfp_cameraConfigs this) (native_size (win_width window)))
                (working_size g (bfp_cameraConfigs this) (native_size (win_height window))) 1,
              bloom_up_pass this (win_renderWindowId window)
                (working_size g (bfp_cameraConfigs this) (native_size (win_width window)))
                (working_size g (bfp_cameraConfigs this) (native_size (win_height window))) 0,
              bloom_combine_pass this s (win_renderWindowId window)
                (working_size g (bfp_cameraConfigs this) (native_size (win_width window)))
                (working_size g (bfp_cameraConfigs this) (native_size (win_height window)))
                (''Radiance'' @ num_string (win_renderWindowId window))]
         = [(''bloom1-prefilter'',
             halve (working_size g (bfp_cameraConfigs this) (native_size (win_width window))),
             halve (working_size g (bfp_cameraConfigs this) (native_size (win_height window)))),
            (''bloom1-downsample'',
             halve (halve (working_size g (bfp_cameraConfigs this) (native_size (win_width window)))),
             halve (halve (working_size g (bfp_cameraConfigs this) (native_size (win_height window))))),
            (''bloom1-downsample'',
             halve (halve (halve (working_size g (bfp_cameraConfigs this) (native_size (win_width window))))),
             halve (halve (halve (working_size g (bfp_cameraConfigs this) (native_size (win_height window)))))),
            (''bloom1-downsample'',
             halve (halve (halve (halve (working_size g (bfp_cameraConfigs this) (native_size (win_width window)))))),
             halve (halve (halve (halve (working_size g (bfp_cameraConfigs this) (native_size (win_height window))))))),
            (''bloom1-upsample'',
             halve (halve (halve (working_size g (bfp_cameraConfigs this) (native_size (win_width window))))),
             halve (halve (halve (working_size g (bfp_cameraConfigs this) (native_size (win_height window)))))),
            (''bloom1-upsample'',
             halve (halve (working_size g (bfp_cameraConfigs this) (native_size (win_width window)))),
             halve (halve (working_size g (bfp_cameraConfigs this) (native_size (win_height window))))),
            (''bloom1-upsample'',
             halve (working_size g (bfp_cameraConfigs this) (native_size (win_width window))),
             halve (working_size g (bfp_cameraConfigs this) (native_size (win_height window)))),
            (''bloom1-combine'',
             (working_size g (bfp_cameraConfigs this) (native_size (win_width window))),
             (working_size g (bfp_cameraConfigs this) (native_size (win_height window))))]
     \<and> halve v = Math_max (Math_floor (v / 2)) 1 \<and> 1 \<le> halve v
     \<and> pass_renderTargets
           (bloom_combine_pass this s (win_renderWindowId window)
              (working_size g (bfp_cameraConfigs this) (native_size (win_width window)))
              (working_size g (bfp_cameraConfigs this) (native_size (win_height window)))
              (''Radiance'' @ num_string (win_renderWindowId window)))
         = [\<lparr>rt_name = ''Radiance'' @ num_string (win_renderWindowId window), rt_loadOp = LOAD,
             rt_storeOp = Some STORE, rt_clearColor = None\<rparr>]
     \<and> pass_layout
           (ui_update this
                (tonemap_pass this (native_size (win_width window)) (native_size (win_height window))
                   (''Radiance'' @ num_string (win_renderWindowId window)) (win_colorName window)))
         = ''post-final-tonemap''
     \<and> pass_renderTargets
           (ui_update this
                (tonemap_pass this (native_size (win_width window)) (native_size (win_height window))
                   (''Radiance'' @ num_string (win_renderWindowId window)) (win_colorName window)))
         = [black_target this (win_colorName window)]
     \<and> pass_queues
           (ui_update this
                (tonemap_pass this (native_size (win_width window)) (native_size (win_height window))
                   (''Radiance'' @ num_string (win_renderWindowId window)) (win_colorName window)))
         = [quad_queue QueueHint_OPAQUE CopyAndTonemapMaterial 1, ui_queue this]"
proof -
  have ml: "enableShadowMap (bfp_cameraConfigs this) \<Longrightarrow> mainLight scene \<noteq> None"
    using assms(3,1) by (rule setupCameraConfigs_mainLight)
  have n: "Suc (Suc 0) = 2" "Suc 2 = 3" by simp_all
  have a: "\<exists>this'. buildForwardPipeline g this ppl camera scene =
      Inr (this',
         ppl\<lparr>ppl_passes := ppl_passes ppl
           @ csm_passes this ppl (win_renderWindowId window) scene
           @ map_last (add_queue (blend_queue (mainLight scene)))
               (forward_passes
                  (desktop_state g this camera scene
                     (working_size g (bfp_cameraConfigs this) (native_size (win_width window)))
                     (working_size g (bfp_cameraConfigs this) (native_size (win_height window))))
                  (ppl_shadows_size ppl) (win_renderWindowId window) camera
                  (working_size g (bfp_cameraConfigs this) (native_size (win_width window)))
                  (working_size g (bfp_cameraConfigs this) (native_size (win_height window)))
                  (mainLight scene)
                  (if dof_applies this s then ''DofRadiance'' @ num_string (win_renderWindowId window)
                   else ''Radiance'' @ num_string (win_renderWindowId window))
                  (win_depthStencilName window))
           @ (if dof_applies this s
              then dof_passes this (win_renderWindowId window)
                     (working_size g (bfp_cameraConfigs this) (native_size (win_width window)))
                     (working_size g (bfp_cameraConfigs this) (native_size (win_height window)))
                     (''DofRadiance'' @ num_string (win_renderWindowId window))
                     (win_depthStencilName window)
                     (''Radiance'' @ num_string (win_renderWindowId window))
              else [])
           @ [bloom_prefilter_pass this s (win_renderWindowId window)
                (working_size g (bfp_cameraConfigs this) (native_size (win_width window)))
                (working_size g (bfp_cameraConfigs this) (native_size (win_height window)))
                (''Radiance'' @ num_string (win_renderWindowId window)),
              bloom_down_pass this (win_renderWindowId window)
                (working_size g (bfp_cameraConfigs this) (native_size (win_width window)))
                (working_size g (bfp_cameraConfigs this) (native_size (win_height window))) 1,
              bloom_down_pass this (win_renderWindowId window)
                (working_size g (bfp_cameraConfigs this) (native_size (win_width window)))
                (working_size g (bfp_cameraConfigs this) (native_size (win_height window))) 2,
              bloom_down_pass this (win_renderWindowId window)
                (working_size g (bfp_cameraConfigs this) (native_size (win_width window)))
                (working_size g (bfp_cameraConfigs this) (native_size (win_height window))) 3,
              bloom_up_pass this (win_renderWindowId window)
                (working_size g (bfp_cameraConfigs this) (native_size (win_width window)))
                (working_size g (bfp_cameraConfigs this) (native_size (win_height window))) 2,
              bloom_up_pass this (win_renderWindowId window)
                (working_size g (bfp_cameraConfigs this) (native_size (win_width window)))
                (working_size g (bfp_cameraConfigs this) (native_size (win_height window))) 1,
              bloom_up_pass this (win_renderWindowId window)
                (working_size g (bfp_cameraConfigs this) (native_size (win_width window)))
                (working_size g (bfp_cameraConfigs this) (native_size (win_height window))) 0,
              bloom_combine_pass this s (win_renderWindowId window)
                (working_size g (bfp_cameraConfigs this) (native_size (win_width window)))
                (working_size g (bfp_cameraConfigs this) (native_size (win_height window)))
                (''Radiance'' @ num_string (win_renderWindowId window))]
           @ [ui_update this
                (tonemap_pass this (native_size (win_width window)) (native_size (win_height window))
                   (''Radiance'' @ num_string (win_renderWindowId window)) (win_colorName window))]\<rparr>)"
    using buildForwardPipeline_hdr_bloom [where g = g and ppl = ppl and this = this and scene = scene,
        OF assms(2) ml assms(4) assms(5) assms(6) assms(7) assms(9)]
    unfolding bloom_passes_3 [OF assms(8)] .
  have b: "bloom_size x 0 = halve x" "bloom_size x 1 = halve (halve x)"
    "bloom_size x 2 = halve (halve (halve x))" "bloom_size x 3 = halve (halve (halve (halve x)))"
    "bloom_size x (Suc 0) = halve (halve x)" for x
    by (simp_all add: bloom_size_def numeral_eq_Suc)
  have c: "1 \<le> halve v" "halve v = Math_max (Math_floor (v / 2)) 1"
    by (simp_all add: halve_def Math_max_def)
  have d: "map (\<lambda>p. (pass_layout p, pass_width p, pass_height p))
           [bloom_prefilter_pass this s (win_renderWindowId window)
                (working_size g (bfp_cameraConfigs this) (native_size (win_width window)))
                (working_size g (bfp_cameraConfigs this) (native_size (win_height window)))
                (''Radiance'' @ num_string (win_renderWindowId window)),
              bloom_down_pass this (win_renderWindowId window)
                (working_size g (bfp_cameraConfigs this) (native_size (win_width window)))
                (working_size g (bfp_cameraConfigs this) (native_size (win_height window))) 1,
              bloom_down_pass this (win_renderWindowId window)
                (working_size g (bfp_cameraConfigs this) (native_size (win_width window)))
                (working_size g (bfp_cameraConfigs this) (native_size (win_height window))) 2,
              bloom_down_pass this (win_renderWindowId window)
                (working_size g (bfp_cameraConfigs this) (native_size (win_width window)))
                (working_size g (bfp_cameraConfigs this) (native_size (win_height window))) 3,
              bloom_up_pass this (win_renderWindowId window)
                (working_size g (bfp_cameraConfigs this) (native_size (win_width window)))
                (working_size g (bfp_cameraConfigs this) (native_size (win_height window))) 2,
              bloom_up_pass this (win_renderWindowId window)
                (working_size g (bfp_cameraConfigs this) (native_size (win_width window)))
                (working_size g (bfp_cameraConfigs this) (native_size (win_height window))) 1,
              bloom_up_pass this (win_renderWindowId window)
                (working_size g (bfp_cameraConfigs this) (native_size (win_width window)))
                (working_size g (bfp_cameraConfigs this) (native_size (win_height window))) 0,
              bloom_combine_pass this s (win_renderWindowId window)
                (working_size g (bfp_cameraConfigs this) (native_size (win_width window)))
                (working_size g (bfp_cameraConfigs this) (native_size (win_height window)))
                (''Radiance'' @ num_string (win_renderWindowId window))]
         = [(''bloom1-prefilter'',
             halve (working_size g (bfp_cameraConfigs this) (native_size (win_width window))),
             halve (working_size g (bfp_cameraConfigs this) (native_size (win_height window)))),
            (''bloom1-downsample'',
             halve (halve (working_size g (bfp_cameraConfigs this) (native_size (win_width window)))),
             halve (halve (working_size g (bfp_cameraConfigs this) (native_size (win_height window))))),
            (''bloom1-downsample'',
             halve (halve (halve (working_size g (bfp_cameraConfigs this) (native_size (win_width window))))),
             halve (halve (halve (working_size g (bfp_cameraConfigs this) (native_size (win_height window)))))),
            (''bloom1-downsample'',
             halve (halve (halve (halve (working_size g (bfp_cameraConfigs this) (native_size (win_width window)))))),
             halve (halve (halve (halve (working_size g (bfp_cameraConfigs this) (native_size (win_height window))))))),
            (''bloom1-upsample'',
             halve (halve (halve (working_size g (bfp_cameraConfigs this) (native_size (win_width window))))),
             halve (halve (halve (working_size g (bfp_cameraConfigs this) (native_size (win_height window)))))),
            (''bloom1-upsample'',
             halve (halve (working_size g (bfp_cameraConfigs this) (native_size (win_width window)))),
             halve (halve (working_size g (bfp_cameraConfigs this) (native_size (win_height window))))),
            (''bloom1-upsample'',
             halve (working_size g (bfp_cameraConfigs this) (native_size (win_width window))),
             halve (working_size g (bfp_cameraConfigs this) (native_size (win_height window)))),
            (''bloom1-combine'',
             (working_size g (bfp_cameraConfigs this) (native_size (win_width window))),
             (working_size g (bfp_cameraConfigs this) (native_size (win_height window))))]"
    by (simp add: b bloom_prefilter_pass_def bloom_down_pass_def bloom_up_pass_def
          bloom_combine_pass_def fresh_pass_def)
  have e: "pass_renderTargets
           (bloom_combine_pass this s (win_renderWindowId window)
              (working_size g (bfp_cameraConfigs this) (native_size (win_width window)))
              (working_size g (bfp_cameraConfigs this) (native_size (win_height window)))
              (''Radiance'' @ num_string (win_renderWindowId window)))
         = [\<lparr>rt_name = ''Radiance'' @ num_string (win_renderWindowId window), rt_loadOp = LOAD,
             rt_storeOp = Some STORE, rt_clearColor = None\<rparr>]"
    by (simp add: bloom_combine_pass_def)
  have f: "pass_layout
           (ui_update this
                (tonemap_pass this (native_size (win_width window)) (native_size (win_height window))
                   (''Radiance'' @ num_string (win_renderWindowId window)) (win_colorName window)))
         = ''post-final-tonemap''"
    "pass_renderTargets
           (ui_update this
                (tonemap_pass this (native_size (win_width window)) (native_size (win_height window))
                   (''Radiance'' @ num_string (win_renderWindowId window)) (win_colorName window)))
         = [black_target this (win_colorName window)]"
    "pass_queues
           (ui_update this
                (tonemap_pass this (native_size (win_width window)) (native_size (win_height window))
                   (''Radiance'' @ num_string (win_renderWindowId window)) (win_colorName window)))
         = [quad_queue QueueHint_OPAQUE CopyAndTonemapMaterial 1, ui_queue this]"
    by (simp_all add: ui_update_def tonemap_pass_def fresh_pass_def)
  show ?thesis
    by (intro conjI) (rule a d c e f)+
qed

lemma example_hdr_hyps:
  "cam_scene example_hdr_camera = Some example_scene"
  "cam_window example_hdr_camera = Some example_window"
  "setupCameraConfigs example_host example_hdr_camera (bfp_configs example_hdr) CameraConfigs_new
     = Inr (bfp_cameraConfigs example_hdr)"
  "useFloatOutput (bfp_configs example_hdr)"
  "enablePostProcess (bfp_cameraConfigs example_hdr)"
  "pipelineSettings (bfp_cameraConfigs example_hdr) = Some example_settings"
  "bloom_enabled (ps_bloom example_settings)"
  "bloom_iterations (ps_bloom example_settings) = 3"
  "\<not> ps_fxaa_enabled example_settings"
  by (simp_all add: example_hdr_camera_def example_camera_def example_scene_def example_hdr_def
        example_host_def example_window_def BuiltinForwardPipeline_new_def PipelineConfigs_new_def
        CameraConfigs_new_def setupCameraConfigs_def Let_def example_settings_def)

lemma example_hdr_facts:
  "\<not> enableShadowMap (bfp_cameraConfigs example_hdr)"
  "\<not> dof_applies example_hdr example_settings"
  "mainLight example_scene \<noteq> None"
  "culled_shadow_spots example_geometry example_scene f = []"
  "culled_lights example_geometry example_scene f = []"
  by (simp_all add: example_hdr_def dof_applies_def example_settings_def example_scene_def
        culled_shadow_spots_def culled_lights_def)

text \<open>
  The theorem at the example camera: ten passes are recorded.
\<close>

theorem hdr_bloom_pass_sequence_witness:
  "cam_scene example_hdr_camera = Some example_scene
   \<and> cam_window example_hdr_camera = Some example_window
   \<and> useFloatOutput (bfp_configs example_hdr)
   \<and> enablePostProcess (bfp_cameraConfigs example_hdr)
   \<and> pipelineSettings (bfp_cameraConfigs example_hdr) = Some example_settings
   \<and> bloom_enabled (ps_bloom example_settings)
   \<and> bloom_iterations (ps_bloom example_settings) = 3
   \<and> \<not> ps_fxaa_enabled example_settings
   \<and> map_sum id (\<lambda>r. map pass_layout (ppl_passes (snd r)))
         (buildForwardPipeline example_geometry example_hdr example_ppl example_hdr_camera
            example_scene)
       = Inr [''default'', ''bloom1-prefilter'', ''bloom1-downsample'', ''bloom1-downsample'',
              ''bloom1-downsample'', ''bloom1-upsample'', ''bloom1-upsample'', ''bloom1-upsample'',
              ''bloom1-combine'', ''post-final-tonemap'']"
proof -
  from hdr_bloom_pass_sequence [OF example_hdr_hyps, where g = example_geometry and ppl = example_ppl]
  obtain this' where
    "buildForwardPipeline example_geometry example_hdr example_ppl example_hdr_camera example_scene
       = Inr (this', example_ppl\<lparr>ppl_passes := ppl_passes example_ppl
           @ csm_passes example_hdr example_ppl (win_renderWindowId example_window) example_scene
           @ map_last (add_queue (blend_queue (mainLight example_scene)))
               (forward_passes
                  (desktop_state example_geometry example_hdr example_hdr_camera example_scene
                     (working_size example_geometry (bfp_cameraConfigs example_hdr)
                        (native_size (win_width example_window)))
                     (working_size example_geometry (bfp_cameraConfigs example_hdr)
                        (native_size (win_height example_window))))
                  (ppl_shadows_size example_ppl) (win_renderWindowId example_window)
                  example_hdr_camera
                  (working_size example_geometry (bfp_cameraConfigs example_hdr)
                     (native_size (win_width example_window)))
                  (working_size example_geometry (bfp_cameraConfigs example_hdr)
                     (native_size (win_height example_window)))
                  (mainLight example_scene)
                  (if dof_applies example_hdr example_settings
                   then ''DofRadiance'' @ num_string (win_renderWindowId example_window)
                   else ''Radiance'' @ num_string (win_renderWindowId example_window))
                  (win_depthStencilName example_window))
           @ (if dof_applies example_hdr example_settings
              then dof_passes example_hdr (win_renderWindowId example_window)
                     (working_size example_geometry (bfp_cameraConfigs example_hdr)
                        (native_size (win_width example_window)))
                     (working_size example_geometry (bfp_cameraConfigs example_hdr)
                        (native_size (win_height example_window)))
                     (''DofRadiance'' @ num_string (win_renderWindowId example_window))
                     (win_depthStencilName example_window)
                     (''Radiance'' @ num_string (win_renderWindowId example_window))
              else [])
           @ [bloom_prefilter_pass example_hdr example_settings (win_renderWindowId example_window)
                (working_size example_geometry (bfp_cameraConfigs example_hdr)
                   (native_size (win_width example_window)))
                (working_size example_geometry (bfp_cameraConfigs example_hdr)
                   (native_size (win_height example_window)))
                (''Radiance'' @ num_string (win_renderWindowId example_window)),
              bloom_down_pass example_hdr (win_renderWindowId example_window)
                (working_size example_geometry (bfp_cameraConfigs example_hdr)
                   (native_size (win_width example_window)))
                (working_size example_geometry (bfp_cameraConfigs example_hdr)
                   (native_size (win_height example_window))) 1,
              bloom_down_pass example_hdr (win_renderWindowId example_window)
                (working_size example_geometry (bfp_cameraConfigs example_hdr)
                   (native_size (win_width example_window)))
                (working_size example_geometry (bfp_cameraConfigs example_hdr)
                   (native_size (win_height example_window))) 2,
              bloom_down_pass example_hdr (win_renderWindowId example_window)
                (working_size example_geometry (bfp_cameraConfigs example_hdr)
                   (native_size (win_width example_window)))
                (working_size example_geometry (bfp_cameraConfigs example_hdr)
                   (native_size (win_height example_window))) 3,
              bloom_up_pass example_hdr (win_renderWindowId example_window)
                (working_size example_geometry (bfp_cameraConfigs example_hdr)
                   (native_size (win_width example_window)))
                (working_size example_geometry (bfp_cameraConfigs example_hdr)
                   (native_size (win_height example_window))) 2,
              bloom_up_pass example_hdr (win_renderWindowId example_window)
                (working_size example_geometry (bfp_cameraConfigs example_hdr)
                   (native_size (win_width example_window)))
                (working_size example_geometry (bfp_cameraConfigs example_hdr)
                   (native_size (win_height example_window))) 1,
              bloom_up_pass example_hdr (win_renderWindowId example_window)
                (working_size example_geometry (bfp_cameraConfigs example_hdr)
                   (native_size (win_width example_window)))
                (working_size example_geometry (bfp_cameraConfigs example_hdr)
                   (native_size (win_height example_window))) 0,
              bloom_combine_pass example_hdr example_settings (win_renderWindowId example_window)
                (working_size example_geometry (bfp_cameraConfigs example_hdr)
                   (native_size (win_width example_window)))
                (working_size example_geometry (bfp_cameraConfigs example_hdr)
                   (native_size (win_height example_window)))
                (''Radiance'' @ num_string (win_renderWindowId example_window))]
           @ [ui_update example_hdr
                (tonemap_pass example_hdr (native_size (win_width example_window))
                   (native_size (win_height example_window))
                   (''Radiance'' @ num_string (win_renderWindowId example_window))
                   (win_colorName example_window))]\<rparr>)"
    by blast
  then show ?thesis
    using example_hdr_hyps
    by (simp add: example_hdr_facts csm_passes_def forward_passes_def forward_pass_def
          desktop_state_fields map_last_single add_queue_def main_light_update_def fresh_pass_def
          bloom_prefilter_pass_def bloom_down_pass_def bloom_up_pass_def bloom_combine_pass_def
          ui_update_def tonemap_pass_def Let_def example_ppl_def)
qed

text \<open>
  The claim as stated, with a UI pass after the tone mapping pass, fails: at the example
  camera the composition records ten passes, the last of them the tone mapping pass, which
  holds two queues, the full-screen quad and the UI.
\<close>

theorem hdr_bloom_no_ui_pass_counterexample:
  "map_sum id (\<lambda>r. map (\<lambda>p. (pass_layout p, length (pass_queues p))) (ppl_passes (snd r)))
     (buildForwardPipeline example_geometry example_hdr example_ppl example_hdr_camera
        example_scene)
   = Inr [(''default'', 2), (''bloom1-prefilter'', 1), (''bloom1-downsample'', 1),
          (''bloom1-downsample'', 1), (''bloom1-downsample'', 1), (''bloom1-upsample'', 1),
          (''bloom1-upsample'', 1), (''bloom1-upsample'', 1), (''bloom1-combine'', 1),
          (''post-final-tonemap'', 2)]"
proof -
  have ml: "enableShadowMap (bfp_cameraConfigs example_hdr) \<Longrightarrow> mainLight example_scene \<noteq> None"
    by (simp add: example_hdr_facts)
  from buildForwardPipeline_hdr_bloom [where g = example_geometry and ppl = example_ppl
         and this = example_hdr and scene = example_scene,
         OF example_hdr_hyps(2) ml example_hdr_hyps(4) example_hdr_hyps(5) example_hdr_hyps(6)
            example_hdr_hyps(7) example_hdr_hyps(9)]
  show ?thesis
    unfolding bloom_passes_3 [OF example_hdr_hyps(8)]
    by (auto simp add: example_hdr_facts csm_passes_def forward_passes_def forward_pass_def
          desktop_state_fields map_last_single add_queue_def main_light_update_def fresh_pass_def
          bloom_prefilter_pass_def bloom_down_pass_def bloom_up_pass_def bloom_combine_pass_def
          ui_update_def tonemap_pass_def Let_def example_ppl_def)
qed

section \<open>Setup\<close>










end
